(* ===== verification/Prelude.thy ===== *)
theory Prelude
  imports Main "HOL-Library.Monad_Syntax" "HOL-Library.Sublist"
begin

text \<open>
  Shared vocabulary of the development: the Python builtins that
  \<^verbatim>\<open>src/run_validation.py\<close> relies on (\<open>str.strip\<close>, the substring test
  \<open>a in b\<close>, \<open>', '.join\<close>, exceptions and \<open>str(e)\<close>), a monadic fold over
  \<open>option\<close> for the capture loops whose body may not return, and the lemmas on
  lists and options that the component theories share.

  Strings are \<open>char list\<close>; a \<open>char\<close> stands for a code point below 256
  (the texts of the model are Python \<open>str\<close> values after UTF-8 decoding, and the
  code only compares them, slices them and strips whitespace from them).
\<close>

named_theorems model_simps "evaluation rules of the model, used on concrete inputs"

subsection \<open>Python exceptions\<close>

text \<open>The exceptions the program raises or catches, with the message \<open>str(e)\<close> returns.\<close>

datatype py_error = ValueError string | OSError string | TypeError string | CsvError string
  | KeyError string

subsection \<open>\<open>repr\<close> of a string\<close>

text \<open>
  Python's \<open>repr\<close> of a \<open>str\<close> whose characters are below U+0100: single quotes unless
  the string holds a single quote and no double quote; backslash, the quote, \<open>\\n\<close>,
  \<open>\\r\<close>, \<open>\\t\<close> escaped, other non-printable characters as \<open>\\xNN\<close>.
\<close>

definition py_printable :: "char \<Rightarrow> bool" where
  "py_printable c \<longleftrightarrow>
     (let n = (of_char c :: nat) in (32 \<le> n \<and> n < 127) \<or> (161 \<le> n \<and> n \<noteq> 173))"

definition hex_digit :: "nat \<Rightarrow> char" where
  "hex_digit n = (if n < 10 then char_of (48 + n) else char_of (87 + n))"

definition py_repr_char :: "char \<Rightarrow> char \<Rightarrow> string" where
  "py_repr_char q c =
     (if c = q \<or> c = CHR 0x5C then [CHR 0x5C, c]
      else if c = CHR 0x0A then [CHR 0x5C, CHR ''n'']
      else if c = CHR 0x0D then [CHR 0x5C, CHR ''r'']
      else if c = CHR 0x09 then [CHR 0x5C, CHR ''t'']
      else if py_printable c then [c]
      else [CHR 0x5C, CHR ''x'', hex_digit (of_char c div 16), hex_digit ((of_char c :: nat) mod 16)])"

definition py_repr_str :: "string \<Rightarrow> string" where
  "py_repr_str s =
     (let q = (if CHR 0x27 \<in> set s \<and> CHR 0x22 \<notin> set s then CHR 0x22 else CHR 0x27)
      in q # concat (map (py_repr_char q) s) @ [q])"

declare py_printable_def [model_simps] hex_digit_def [model_simps] py_repr_char_def [model_simps]
  py_repr_str_def [model_simps]

text \<open>\<open>str(e)\<close>; a \<open>KeyError\<close> shows the \<open>repr\<close> of its key.\<close>

fun py_str :: "py_error \<Rightarrow> string" where
  "py_str (ValueError m) = m"
| "py_str (OSError m) = m"
| "py_str (TypeError m) = m"
| "py_str (CsvError m) = m"
| "py_str (KeyError k) = py_repr_str k"

text \<open>\<open>str(n)\<close> of a non-negative \<open>int\<close>.\<close>

fun py_str_nat :: "nat \<Rightarrow> string" where
  "py_str_nat n =
     (if n < 10 then [char_of (48 + n)] else py_str_nat (n div 10) @ [char_of (48 + n mod 10)])"

text \<open>The digits \<open>py_str_nat\<close> prints, for evaluating it on numerals.\<close>

lemma char_of_decimal_digits [simp]:
  "char_of (48::nat) = CHR ''0''" "char_of (49::nat) = CHR ''1''" "char_of (50::nat) = CHR ''2''"
  "char_of (51::nat) = CHR ''3''" "char_of (52::nat) = CHR ''4''" "char_of (53::nat) = CHR ''5''"
  "char_of (54::nat) = CHR ''6''" "char_of (55::nat) = CHR ''7''" "char_of (56::nat) = CHR ''8''"
  "char_of (57::nat) = CHR ''9''"
  using char_of_char [of "CHR ''0''"] char_of_char [of "CHR ''1''"] char_of_char [of "CHR ''2''"]
    char_of_char [of "CHR ''3''"] char_of_char [of "CHR ''4''"] char_of_char [of "CHR ''5''"]
    char_of_char [of "CHR ''6''"] char_of_char [of "CHR ''7''"] char_of_char [of "CHR ''8''"]
    char_of_char [of "CHR ''9''"]
  by simp_all

text \<open>A value read from the manifest that is either \<open>None\<close> (JSON \<open>null\<close>) or has the
  string \<open>str\<close> gives it: \<open>str(None)\<close> is \<open>'None'\<close> when printed, while
  \<open>csv.DictWriter\<close> writes \<open>None\<close> as the empty field.\<close>

definition py_str_or_none :: "string option \<Rightarrow> string" where
  "py_str_or_none v = (case v of None \<Rightarrow> ''None'' | Some s \<Rightarrow> s)"

definition csv_str_or_none :: "string option \<Rightarrow> string" where
  "csv_str_or_none v = (case v of None \<Rightarrow> [] | Some s \<Rightarrow> s)"

declare py_str_or_none_def [model_simps] csv_str_or_none_def [model_simps]

subsection \<open>The substring test \<open>a in b\<close> on strings\<close>

fun py_str_in :: "string \<Rightarrow> string \<Rightarrow> bool" where
  "py_str_in p [] = (p = [])"
| "py_str_in p (c # cs) = (prefix p (c # cs) \<or> py_str_in p cs)"

text \<open>The executable test agrees with the library's notion of a contiguous sublist.\<close>

lemma py_str_in_sublist: "py_str_in p s \<longleftrightarrow> sublist p s"
  by (induction s) (simp_all add: sublist_Cons_right)

declare sublist_code [model_simps]

subsection \<open>\<open>str.strip()\<close>\<close>

text \<open>Python's \<open>str.isspace\<close> on the code points below 256.\<close>

definition py_whitespace :: "char list" where
  "py_whitespace = [CHR 0x09, CHR 0x0A, CHR 0x0B, CHR 0x0C, CHR 0x0D, CHR 0x1C, CHR 0x1D,
     CHR 0x1E, CHR 0x1F, CHR 0x20, CHR 0x85, CHR 0xA0]"

definition py_isspace :: "char \<Rightarrow> bool" where
  "py_isspace c \<longleftrightarrow> c \<in> set py_whitespace"

definition py_strip :: "string \<Rightarrow> string" where
  "py_strip s = rev (dropWhile py_isspace (rev (dropWhile py_isspace s)))"

declare py_isspace_def [model_simps] py_whitespace_def [model_simps] py_strip_def [model_simps]

lemma prefix_rstrip: "prefix (rev (dropWhile P (rev xs))) xs"
  using suffix_dropWhile [of P "rev xs"] by (simp add: suffix_to_prefix)

lemma hd_prefix: "prefix ys xs \<Longrightarrow> ys \<noteq> [] \<Longrightarrow> hd ys = hd xs"
  by (auto simp: prefix_def)

lemma py_strip_no_space_ends:
  assumes "py_strip s \<noteq> []"
  shows "\<not> py_isspace (hd (py_strip s)) \<and> \<not> py_isspace (last (py_strip s))"
proof
  let ?a = "dropWhile py_isspace s"
  let ?b = "dropWhile py_isspace (rev ?a)"
  have "rev ?b \<noteq> []" using assms unfolding py_strip_def by assumption
  then have neb: "?b \<noteq> []" by (metis rev.simps(1))
  have nea: "?a \<noteq> []"
  proof
    assume "?a = []"
    with neb show False by simp
  qed
  have "\<not> py_isspace (hd ?a)" using nea by (rule hd_dropWhile)
  moreover have "hd (py_strip s) = hd ?a"
    using assms unfolding py_strip_def by (rule hd_prefix [OF prefix_rstrip])
  ultimately show "\<not> py_isspace (hd (py_strip s))" by simp
  have "\<not> py_isspace (hd ?b)" using neb by (rule hd_dropWhile)
  moreover have "last (py_strip s) = hd ?b" by (simp only: py_strip_def last_rev)
  ultimately show "\<not> py_isspace (last (py_strip s))" by simp
qed

lemma dropWhile_id: "xs = [] \<or> \<not> P (hd xs) \<Longrightarrow> dropWhile P xs = xs"
  by (cases xs) auto

lemma py_strip_idem [simp]: "py_strip (py_strip s) = py_strip s"
proof (cases "py_strip s = []")
  case True
  then show ?thesis by (simp only: True) (simp add: py_strip_def)
next
  case False
  let ?t = "py_strip s"
  from py_strip_no_space_ends [OF False] False
  have "dropWhile py_isspace ?t = ?t" and "dropWhile py_isspace (rev ?t) = rev ?t"
    by (simp_all add: dropWhile_id hd_rev)
  then show ?thesis by (simp only: py_strip_def [of ?t] rev_rev_ident)
qed

lemma py_strip_sublist: "sublist (py_strip s) s"
proof -
  have "suffix (dropWhile py_isspace s) s" by (rule suffix_dropWhile)
  moreover have "prefix (py_strip s) (dropWhile py_isspace s)"
    unfolding py_strip_def by (rule prefix_rstrip)
  ultimately show ?thesis
    by (meson prefix_imp_sublist sublist_order.order.trans suffix_imp_sublist)
qed

text \<open>\<open>str.strip()\<close> removes exactly a whitespace prefix and a whitespace suffix.\<close>

lemma py_strip_decomp:
  "\<exists>ws1 ws2. s = ws1 @ py_strip s @ ws2 \<and> list_all py_isspace ws1 \<and> list_all py_isspace ws2"
proof -
  let ?a = "dropWhile py_isspace s"
  have s: "s = takeWhile py_isspace s @ ?a" by simp
  have "rev ?a = takeWhile py_isspace (rev ?a) @ dropWhile py_isspace (rev ?a)" by simp
  then have a: "?a = py_strip s @ rev (takeWhile py_isspace (rev ?a))"
    unfolding py_strip_def by (metis rev_append rev_rev_ident)
  have "list_all py_isspace (takeWhile py_isspace s)"
    and "list_all py_isspace (rev (takeWhile py_isspace (rev ?a)))"
    by (auto simp: list_all_iff dest: set_takeWhileD)
  with s a show ?thesis by (metis append.assoc)
qed

subsection \<open>\<open>sep.join(xs)\<close>\<close>

fun py_join :: "string \<Rightarrow> string list \<Rightarrow> string" where
  "py_join sep [] = []"
| "py_join sep [x] = x"
| "py_join sep (x # y # ys) = x @ sep @ py_join sep (y # ys)"

subsection \<open>Appending to a list unless present\<close>

text \<open>The idiom \<open>if x not in xs: xs.append(x)\<close>.\<close>

definition append_new :: "'a list \<Rightarrow> 'a \<Rightarrow> 'a list" where
  "append_new xs x = (if x \<in> set xs then xs else xs @ [x])"

declare append_new_def [model_simps]

lemma set_append_new [simp]: "set (append_new xs x) = insert x (set xs)"
  by (auto simp: append_new_def)

lemma distinct_append_new [simp]: "distinct (append_new xs x) \<longleftrightarrow> distinct xs"
  by (simp add: append_new_def)

lemma prefix_append_new: "prefix xs (append_new xs x)"
  by (simp add: append_new_def)

text \<open>The same loop over a whole list keeps the first occurrence of each new element: the
  reference \<open>remdups_first\<close> (what \<open>list(dict.fromkeys(xs))\<close> computes).\<close>

fun remdups_first :: "'a list \<Rightarrow> 'a list" where
  "remdups_first [] = []"
| "remdups_first (x # xs) = x # remdups_first (filter (\<lambda>y. y \<noteq> x) xs)"

lemma fold_append_new:
  "fold (\<lambda>y xs. append_new xs y) ys xs = xs @ remdups_first (filter (\<lambda>y. y \<notin> set xs) ys)"
proof (induction ys arbitrary: xs)
  case Nil
  then show ?case by simp
next
  case (Cons y ys)
  show ?case
  proof (cases "y \<in> set xs")
    case True
    with Cons.IH [of xs] show ?thesis by (simp add: append_new_def)
  next
    case False
    have "filter (\<lambda>z. z \<notin> set (xs @ [y])) ys = filter (\<lambda>z. z \<noteq> y) (filter (\<lambda>z. z \<notin> set xs) ys)"
      by (simp add: filter_filter conj_commute)
    with False Cons.IH [of "xs @ [y]"] show ?thesis by (simp add: append_new_def)
  qed
qed

lemma set_remdups_first [simp]: "set (remdups_first xs) = set xs"
  by (induction xs rule: remdups_first.induct) auto

lemma remdups_first_snoc: "remdups_first (xs @ [x]) = append_new (remdups_first xs) x"
proof -
  have "remdups_first ys = fold (\<lambda>y xs. append_new xs y) ys []" for ys :: "'a list"
    by (simp add: fold_append_new)
  then show ?thesis by simp
qed

subsection \<open>Dictionaries\<close>

text \<open>
  A Python \<open>dict\<close> as an association list in insertion order; \<open>d[k] = v\<close> keeps the
  position of a present key and appends a new one.
\<close>

definition dict_set :: "('k \<times> 'v) list \<Rightarrow> 'k \<Rightarrow> 'v \<Rightarrow> ('k \<times> 'v) list" where
  "dict_set d k v =
     (if k \<in> set (map fst d) then map (\<lambda>kv. if fst kv = k then (k, v) else kv) d else d @ [(k, v)])"

declare dict_set_def [model_simps]

lemma dict_set_Cons_other:
  "fst p \<noteq> k \<Longrightarrow> dict_set (p # d) k v = p # dict_set d k v"
  by (simp add: dict_set_def)

lemma map_of_dict_set: "map_of (dict_set d k v) = (map_of d)(k \<mapsto> v)"
proof (cases "k \<in> set (map fst d)")
  case True
  have "map_of (map (\<lambda>kv. if fst kv = k then (k, v) else kv) d) x =
        (if x = k \<and> k \<in> set (map fst d) then Some v else map_of d x)" for x
    by (induction d) force+
  with True show ?thesis by (simp add: dict_set_def fun_eq_iff)
next
  case False
  then have "map_of d k = None" by (simp add: map_of_eq_None_iff)
  with False show ?thesis by (simp add: dict_set_def fun_eq_iff map_add_def split: option.split)
qed

lemma keys_dict_set:
  "map fst (dict_set d k v) = (if k \<in> set (map fst d) then map fst d else map fst d @ [k])"
proof -
  have "map fst (map (\<lambda>kv. if fst kv = k then (k, v) else kv) d) = map fst d"
    by (induction d) auto
  then show ?thesis by (simp add: dict_set_def)
qed

lemma distinct_dict_set: "distinct (map fst d) \<Longrightarrow> distinct (map fst (dict_set d k v))"
  by (simp add: keys_dict_set)

subsection \<open>Extending a list by fresh, distinct elements\<close>

text \<open>\<open>extends_fresh xs ys\<close>: \<open>ys\<close> is \<open>xs\<close> followed by new elements, none repeated.\<close>

definition extends_fresh :: "'a list \<Rightarrow> 'a list \<Rightarrow> bool" where
  "extends_fresh xs ys \<longleftrightarrow> (\<exists>d. ys = xs @ d \<and> distinct d \<and> set d \<inter> set xs = {})"

lemma extends_fresh_refl [simp]: "extends_fresh xs xs"
  by (auto simp: extends_fresh_def)

lemma extends_fresh_trans:
  assumes "extends_fresh xs ys" and "extends_fresh ys zs"
  shows "extends_fresh xs zs"
proof -
  from assms obtain d e where "ys = xs @ d" "distinct d" "set d \<inter> set xs = {}"
    and "zs = ys @ e" "distinct e" "set e \<inter> set ys = {}"
    by (auto simp: extends_fresh_def)
  then show ?thesis
    unfolding extends_fresh_def by (intro exI [of _ "d @ e"]) auto
qed

lemma extends_fresh_append_new [simp]: "extends_fresh xs (append_new xs x)"
  unfolding extends_fresh_def append_new_def
  by (cases "x \<in> set xs") (auto intro: exI [of _ "[x]"])

lemma extends_fresh_fold:
  assumes "\<And>x s. extends_fresh s (f x s)"
  shows "extends_fresh s (fold f xs s)"
proof (induction xs arbitrary: s)
  case Nil
  then show ?case by simp
next
  case (Cons x xs)
  have "extends_fresh s (f x s)" by (rule assms)
  moreover have "extends_fresh (f x s) (fold f xs (f x s))" by (rule Cons.IH)
  ultimately show ?case by (simp add: extends_fresh_trans [of s "f x s"])
qed

lemma extends_fresh_foldl:
  assumes "\<And>x s. extends_fresh s (f s x)"
  shows "extends_fresh s (foldl f s xs)"
  using extends_fresh_fold [of "\<lambda>x s. f s x" s xs] assms by (simp add: foldl_conv_fold)

subsection \<open>Transferring predicates along \<open>list_all2\<close>\<close>

text \<open>
  When a loop produces one record per input and a relation \<open>R\<close> ties each input to its
  record, a test on records that \<open>R\<close> determines from the input can be counted or searched
  for on the inputs instead.
\<close>

lemma list_all2_ex_iff:
  assumes "list_all2 R xs ys" and "\<And>x y. R x y \<Longrightarrow> P y \<longleftrightarrow> Q x"
  shows "(\<exists>y \<in> set ys. P y) \<longleftrightarrow> (\<exists>x \<in> set xs. Q x)"
  using assms(1) by (induction rule: list_all2_induct) (auto simp: assms(2))

lemma list_all2_count_eq:
  assumes "list_all2 R xs ys" and "\<And>x y. R x y \<Longrightarrow> P y \<longleftrightarrow> Q x"
  shows "length (filter P ys) = length (filter Q xs)"
  using assms(1) by (induction rule: list_all2_induct) (auto simp: assms(2))

lemma length_filter_pos_iff: "0 < length (filter P xs) \<longleftrightarrow> (\<exists>x \<in> set xs. P x)"
  by (induction xs) auto

subsection \<open>A fold whose body may not return\<close>

text \<open>
  A \<open>for\<close> loop over a list whose body may run forever: \<open>None\<close> is
  non-termination, and it propagates to the whole loop.
\<close>

fun fold_option :: "('s \<Rightarrow> 'a \<Rightarrow> 's option) \<Rightarrow> 'a list \<Rightarrow> 's \<Rightarrow> 's option" where
  "fold_option f [] s = Some s"
| "fold_option f (x # xs) s = do { s' \<leftarrow> f s x; fold_option f xs s' }"

lemma fold_option_append:
  "fold_option f (xs @ ys) s = do { s' \<leftarrow> fold_option f xs s; fold_option f ys s' }"
  by (induction xs arbitrary: s) (simp_all split: Option.bind_splits)

lemma fold_option_total:
  "(\<And>s x. x \<in> set xs \<Longrightarrow> f s x \<noteq> None) \<Longrightarrow> \<exists>r. fold_option f xs s = Some r"
proof (induction xs arbitrary: s)
  case Nil
  then show ?case by simp
next
  case (Cons x xs)
  from Cons.prems obtain s' where "f s x = Some s'" by (meson list.set_intros(1) not_None_eq)
  with Cons show ?case by simp
qed

lemma fold_option_invariant:
  assumes "fold_option f xs s = Some r" and "P s"
    and "\<And>s x s'. P s \<Longrightarrow> x \<in> set xs \<Longrightarrow> f s x = Some s' \<Longrightarrow> P s'"
  shows "P r"
  using assms
proof (induction xs arbitrary: s)
  case Nil
  then show ?case by simp
next
  case (Cons x xs)
  from Cons.prems(1) obtain s' where s': "f s x = Some s'" and rest: "fold_option f xs s' = Some r"
    by (cases "f s x") simp_all
  have "P s'" using Cons.prems(2) _ s' by (rule Cons.prems(3)) simp
  moreover have "\<And>s y s'. P s \<Longrightarrow> y \<in> set xs \<Longrightarrow> f s y = Some s' \<Longrightarrow> P s'"
    using Cons.prems(3) by (meson list.set_intros(2))
  ultimately show ?case by (rule Cons.IH [OF rest])
qed

lemma fold_option_map_Some [simp]:
  "fold_option (\<lambda>s x. Some (g s x)) xs s = Some (fold (\<lambda>x s. g s x) xs s)"
  by (induction xs arbitrary: s) simp_all

text \<open>A \<open>for\<close> loop whose body may raise: the first exception ends it.\<close>

fun fold_error :: "('s \<Rightarrow> 'a \<Rightarrow> 'e + 's) \<Rightarrow> 'a list \<Rightarrow> 's \<Rightarrow> 'e + 's" where
  "fold_error f [] s = Inr s"
| "fold_error f (x # xs) s = (case f s x of Inl e \<Rightarrow> Inl e | Inr s' \<Rightarrow> fold_error f xs s')"

lemma fold_error_append:
  "fold_error f (xs @ ys) s = (case fold_error f xs s of Inl e \<Rightarrow> Inl e | Inr s' \<Rightarrow> fold_error f ys s')"
  by (induction xs arbitrary: s) (simp_all split: sum.split)

lemma fold_error_Inr_append:
  "fold_error f xs s = Inr s' \<Longrightarrow> fold_error f (xs @ ys) s = fold_error f ys s'"
  by (simp add: fold_error_append)

end
