(* ===== verification/Syntax_Tree.thy ===== *)
theory Syntax_Tree
  imports Prelude
begin

text \<open>
  The interface of the external tree-sitter collaborators, as \<^verbatim>\<open>src/run_validation.py\<close>
  uses it: a parsed tree is a store of nodes addressed by \<open>node_id\<close>; each node has the
  attributes the code reads (\<open>node.type\<close>, \<open>node.text\<close>, \<open>node.parent\<close>,
  \<open>node.children\<close>, \<open>node.has_error\<close>). A parser maps source text to a tree, a query
  maps a tree and a node to the list of \<open>(node, capture_name)\<close> pairs of
  \<open>query.captures(node)\<close>. Neither is implemented by the program; both are parameters
  of the model.

  Well-formedness (\<open>wf_tree\<close>) says that the store is a forest numbered so that
  every parent has a smaller identifier than its children (pre-order numbering, which
  every tree admits) and that parent and child pointers agree. It is what makes the
  program's \<open>while node: node = node.parent\<close> loops stop, and \<open>ancestor_induct\<close>
  below is the induction rule that proves it.
\<close>

type_synonym node_id = nat

record node =
  node_type :: string
  node_text :: string
  node_parent :: "node_id option"
  node_children :: "node_id list"
  node_has_error :: bool

record tree =
  nodes :: "node list"
  root_node :: node_id

text \<open>An identifier outside the store reads as a childless root with empty type.\<close>

definition no_node :: node where
  "no_node = \<lparr>node_type = [], node_text = [], node_parent = None, node_children = [],
     node_has_error = False\<rparr>"

definition get_node :: "tree \<Rightarrow> node_id \<Rightarrow> node" where
  "get_node t n = (if n < length (nodes t) then nodes t ! n else no_node)"

abbreviation ntype :: "tree \<Rightarrow> node_id \<Rightarrow> string" where
  "ntype t n \<equiv> node_type (get_node t n)"

abbreviation ntext :: "tree \<Rightarrow> node_id \<Rightarrow> string" where
  "ntext t n \<equiv> node_text (get_node t n)"

abbreviation nparent :: "tree \<Rightarrow> node_id \<Rightarrow> node_id option" where
  "nparent t n \<equiv> node_parent (get_node t n)"

abbreviation nchildren :: "tree \<Rightarrow> node_id \<Rightarrow> node_id list" where
  "nchildren t n \<equiv> node_children (get_node t n)"

text \<open>\<open>root_node.has_error\<close>: the parser found a syntax error somewhere in the tree.\<close>

definition tree_has_error :: "tree \<Rightarrow> bool" where
  "tree_has_error t = node_has_error (get_node t (root_node t))"

type_synonym capture = "node_id \<times> string"
type_synonym parser = "string \<Rightarrow> tree"
type_synonym 'q language = "'q \<Rightarrow> tree \<Rightarrow> node_id \<Rightarrow> capture list"
type_synonym query = "tree \<Rightarrow> node_id \<Rightarrow> capture list"

text \<open>The nodes of the captures with a given capture name, in capture order.\<close>

definition captured_nodes :: "capture list \<Rightarrow> string \<Rightarrow> node_id list" where
  "captured_nodes captures label = map fst (filter (\<lambda>c. snd c = label) captures)"

lemma captured_nodes_simps [simp]:
  "captured_nodes [] label = []"
  "captured_nodes ((n, l) # cs) label =
     (if l = label then n # captured_nodes cs label else captured_nodes cs label)"
  by (simp_all add: captured_nodes_def)

declare get_node_def [model_simps] no_node_def [model_simps] tree_has_error_def [model_simps]

subsection \<open>Well-formed trees\<close>

definition node_ok :: "tree \<Rightarrow> node_id \<Rightarrow> node \<Rightarrow> bool" where
  "node_ok t i nd \<longleftrightarrow>
     (case node_parent nd of None \<Rightarrow> True | Some p \<Rightarrow> p < i \<and> i \<in> set (nchildren t p)) \<and>
     (\<forall>c \<in> set (node_children nd). i < c \<and> c < length (nodes t) \<and> nparent t c = Some i)"

definition wf_tree :: "tree \<Rightarrow> bool" where
  "wf_tree t \<longleftrightarrow> root_node t < length (nodes t) \<and> nparent t (root_node t) = None \<and>
     list_all (\<lambda>(i, nd). node_ok t i nd) (enumerate 0 (nodes t))"

declare node_ok_def [model_simps] wf_tree_def [model_simps]

lemma wf_tree_node_ok:
  assumes "wf_tree t" and "n < length (nodes t)"
  shows "node_ok t n (get_node t n)"
proof -
  have "(n, nodes t ! n) \<in> set (enumerate 0 (nodes t))"
    using assms(2) by (simp add: in_set_enumerate_eq)
  with assms(1) have "node_ok t n (nodes t ! n)"
    by (auto simp: wf_tree_def list_all_iff)
  with assms(2) show ?thesis by (simp add: get_node_def)
qed

lemma parent_less:
  assumes "wf_tree t" and "nparent t n = Some p"
  shows "p < n"
proof (cases "n < length (nodes t)")
  case True
  with assms show ?thesis by (auto dest: wf_tree_node_ok simp: node_ok_def)
next
  case False
  with assms(2) show ?thesis by (simp add: get_node_def no_node_def)
qed

lemma child_parent:
  assumes "wf_tree t" and "c \<in> set (nchildren t n)"
  shows "nparent t c = Some n"
proof (cases "n < length (nodes t)")
  case True
  with assms show ?thesis by (auto dest: wf_tree_node_ok simp: node_ok_def)
next
  case False
  with assms(2) show ?thesis by (simp add: get_node_def no_node_def)
qed

text \<open>
  Induction up the parent chain: a property of \<open>None\<close> that passes from a node's
  parent to the node holds of every optional node. Every loop of the program that climbs
  \<open>node.parent\<close> is proved to stop with it.
\<close>

lemma ancestor_induct [consumes 1, case_names None Some]:
  assumes wf: "wf_tree t" and none: "P None"
    and step: "\<And>n. P (nparent t n) \<Longrightarrow> P (Some n)"
  shows "P a"
proof -
  have "P (Some n)" for n
  proof (induction n rule: less_induct)
    case (less n)
    have "P (nparent t n)"
    proof (cases "nparent t n")
      case None
      then show ?thesis using none by (simp only:)
    next
      case (Some p)
      have "p < n" using wf Some by (rule parent_less)
      then have "P (Some p)" by (rule less)
      then show ?thesis using Some by (simp only:)
    qed
    then show ?case by (rule step)
  qed
  then show ?thesis using none by (cases a) simp_all
qed

subsection \<open>Climbing the parent chain\<close>

text \<open>
  The relational specification of the program's upward walks: \<open>climb P t a r\<close> holds
  when climbing from the optional node \<open>a\<close> through nodes whose type satisfies
  \<open>P\<close> ends in \<open>r\<close>: the first node whose type fails \<open>P\<close>, or \<open>None\<close> when the
  chain runs out.
\<close>

inductive climb :: "(string \<Rightarrow> bool) \<Rightarrow> tree \<Rightarrow> node_id option \<Rightarrow> node_id option \<Rightarrow> bool"
  for P t where
  climb_none: "climb P t None None"
| climb_stop: "\<not> P (ntype t n) \<Longrightarrow> climb P t (Some n) (Some n)"
| climb_up: "P (ntype t n) \<Longrightarrow> climb P t (nparent t n) r \<Longrightarrow> climb P t (Some n) r"

inductive_simps climb_None [simp]: "climb P t None r"
inductive_simps climb_Some: "climb P t (Some n) r"

lemma climb_functional: "climb P t a r \<Longrightarrow> climb P t a r' \<Longrightarrow> r = r'"
proof (induction rule: climb.induct)
  case climb_none
  then show ?case by simp
next
  case (climb_stop n)
  then show ?case by (simp add: climb_Some)
next
  case (climb_up n r)
  then show ?case by (simp add: climb_Some)
qed

lemma climb_result: "climb P t a (Some m) \<Longrightarrow> \<not> P (ntype t m)"
  by (induction a "Some m" rule: climb.induct) simp_all

lemma climb_exists: "wf_tree t \<Longrightarrow> \<exists>r. climb P t a r"
proof (induction a rule: ancestor_induct)
  case None
  then show ?case by (blast intro: climb_none)
next
  case (Some n)
  then show ?case by (cases "P (ntype t n)") (blast intro: climb.intros)+
qed

text \<open>
  The maximal chain of nodes whose type satisfies \<open>P\<close>, from an optional node upward:
  the nodes a \<open>while node and P(node.type)\<close> loop visits, in order.
\<close>

inductive chain :: "(string \<Rightarrow> bool) \<Rightarrow> tree \<Rightarrow> node_id option \<Rightarrow> node_id list \<Rightarrow> bool"
  for P t where
  chain_none: "chain P t None []"
| chain_stop: "\<not> P (ntype t n) \<Longrightarrow> chain P t (Some n) []"
| chain_up: "P (ntype t n) \<Longrightarrow> chain P t (nparent t n) ns \<Longrightarrow> chain P t (Some n) (n # ns)"

inductive_simps chain_None [simp]: "chain P t None ns"
inductive_simps chain_Some: "chain P t (Some n) ns"

inductive_cases chain_SomeE: "chain P t (Some n) ns"

lemma chain_functional: "chain P t a ns \<Longrightarrow> chain P t a ns' \<Longrightarrow> ns = ns'"
proof (induction arbitrary: ns' rule: chain.induct)
  case chain_none
  then show ?case by simp
next
  case (chain_stop n)
  then show ?case by (auto elim: chain_SomeE)
next
  case (chain_up n ns)
  from chain_up.prems chain_up.hyps(1) obtain ns'' where
    "ns' = n # ns''" and "chain P t (nparent t n) ns''"
    by (auto elim: chain_SomeE)
  with chain_up.IH show ?case by simp
qed

lemma chain_exists: "wf_tree t \<Longrightarrow> \<exists>ns. chain P t a ns"
proof (induction a rule: ancestor_induct)
  case None
  then show ?case by (blast intro: chain_none)
next
  case (Some n)
  then show ?case by (cases "P (ntype t n)") (blast intro: chain.intros)+
qed

lemma chain_types: "chain P t a ns \<Longrightarrow> m \<in> set ns \<Longrightarrow> P (ntype t m)"
  by (induction rule: chain.induct) auto

subsection \<open>The upward walk\<close>

text \<open>
  \<open>node = start; while node and P(node.type): node = node.parent\<close>, the loop shape of both
  the anchor search (lines 34--36) and the enclosing-class search (lines 224--234). It may
  not stop on a store whose parent pointers form a cycle, hence \<open>option\<close>; on a
  well-formed tree it returns the result \<open>climb\<close> specifies.
\<close>

partial_function (option) walk_up ::
  "(string \<Rightarrow> bool) \<Rightarrow> tree \<Rightarrow> node_id option \<Rightarrow> node_id option option" where
  "walk_up keep t node =
     (case node of
        None \<Rightarrow> Some None
      | Some n \<Rightarrow> if keep (ntype t n) then walk_up keep t (nparent t n) else Some (Some n))"

lemma walk_up_None [simp]: "walk_up P t None = Some None"
  by (subst walk_up.simps) simp

lemma walk_up_Some:
  "walk_up P t (Some n) = (if P (ntype t n) then walk_up P t (nparent t n) else Some (Some n))"
  by (subst walk_up.simps) simp

lemma climb_walk_up: "climb P t a r \<Longrightarrow> walk_up P t a = Some r"
  by (induction rule: climb.induct) (simp_all add: walk_up_Some)

lemma walk_up_climb:
  assumes "walk_up P t a = Some r"
  shows "climb P t a r"
proof (rule walk_up.raw_induct [where P = "\<lambda>Q t a r. climb Q t a r", OF _ assms])
  fix f P t a r
  assume IH: "\<And>Q t a r. f Q t a = Some r \<Longrightarrow> climb Q t a r"
    and eq: "(case a of None \<Rightarrow> Some None
      | Some n \<Rightarrow> if P (ntype t n) then f P t (nparent t n) else Some (Some n)) = Some r"
  show "climb P t a r"
  proof (cases a)
    case None
    with eq show ?thesis by simp
  next
    case (Some n)
    show ?thesis
    proof (cases "P (ntype t n)")
      case True
      with eq Some have "f P t (nparent t n) = Some r" by simp
      then have "climb P t (nparent t n) r" by (rule IH)
      with True Some show ?thesis by (blast intro: climb_up)
    next
      case False
      with eq Some show ?thesis by (auto intro: climb_stop)
    qed
  qed
qed

lemma walk_up_iff: "walk_up P t a = Some r \<longleftrightarrow> climb P t a r"
  by (blast intro: walk_up_climb climb_walk_up)

lemma walk_up_total: "wf_tree t \<Longrightarrow> \<exists>r. walk_up P t a = Some r"
  using climb_exists [of t P a] by (auto simp: walk_up_iff)

end
