(* ===== verification/Attribution.thy ===== *)
theory Attribution
  imports Syntax_Tree
begin

text \<open>
  The annotation attribution algorithm of \<^verbatim>\<open>src/run_validation.py\<close>, written out
  three times in the source (lines 34--52 in \<open>validate_preview_generation\<close>, 111--129
  in \<open>validate_unit_test_generation\<close>, 197--214 in
  \<open>validate_instrumentation_test_generation\<close>) and modelled once here: from a
  \<open>func_name\<close> capture, climb to the anchor (the nearest \<open>function_declaration\<close>
  or \<open>infix_expression\<close>), collect the annotations of its \<open>modifiers\<close> child,
  then climb through the \<open>prefix_expression\<close> / \<open>annotated_lambda\<close> wrappers above
  it adding each annotation child's text that is not yet present.

  Both climbs are partial functions (\<open>walk_up\<close> of \<open>Syntax_Tree\<close> and \<open>inherit_annotations\<close>): on a store whose parent
  pointers form a cycle the Python loops never end, and the model returns \<open>None\<close>.
  The lemmas show that the walks implement the relations \<open>climb\<close> and \<open>chain\<close> of
  \<open>Syntax_Tree\<close>, hence stop on every well-formed tree, and what the collected list is.
\<close>

definition anchor_types :: "string list" where
  "anchor_types = [''function_declaration'', ''infix_expression'']"

definition wrapper_types :: "string list" where
  "wrapper_types = [''prefix_expression'', ''annotated_lambda'']"

abbreviation not_anchor :: "string \<Rightarrow> bool" where
  "not_anchor ty \<equiv> ty \<notin> set anchor_types"

abbreviation is_wrapper :: "string \<Rightarrow> bool" where
  "is_wrapper ty \<equiv> ty \<in> set wrapper_types"

text \<open>\<open>anchor = node; while anchor and anchor.type not in (...): anchor = anchor.parent\<close>\<close>

definition find_anchor :: "tree \<Rightarrow> node_id option \<Rightarrow> node_id option option" where
  "find_anchor t anchor = walk_up not_anchor t anchor"

text \<open>The annotations of the anchor's \<open>modifiers\<close> children, in order, duplicates kept.\<close>

definition modifier_annotations :: "tree \<Rightarrow> node_id \<Rightarrow> string list" where
  "modifier_annotations t anchor =
     concat (map (\<lambda>child. if ntype t child = ''modifiers''
                          then map (ntext t) (filter (\<lambda>m. ntype t m = ''annotation'') (nchildren t child))
                          else [])
                 (nchildren t anchor))"

text \<open>One wrapper level: \<open>for child in curr.children: if annotation and not present: append\<close>.\<close>

definition wrapper_annotations :: "tree \<Rightarrow> string list \<Rightarrow> node_id \<Rightarrow> string list" where
  "wrapper_annotations t annotations wrapper =
     fold (\<lambda>child anns. if ntype t child = ''annotation'' then append_new anns (ntext t child) else anns)
       (nchildren t wrapper) annotations"

partial_function (option) inherit_annotations ::
  "tree \<Rightarrow> node_id option \<Rightarrow> string list \<Rightarrow> string list option" where
  "inherit_annotations t wrapper annotations =
     (case wrapper of
        None \<Rightarrow> Some annotations
      | Some n \<Rightarrow>
          if is_wrapper (ntype t n)
          then inherit_annotations t (nparent t n) (wrapper_annotations t annotations n)
          else Some annotations)"

text \<open>
  The whole attribution for one \<open>func_name\<close> node: \<open>Some None\<close> when no anchor exists
  (the \<open>if anchor:\<close> branch is skipped), \<open>Some (Some anns)\<close> with the annotation list
  otherwise, \<open>None\<close> when a climb does not stop.
\<close>

definition function_annotations :: "tree \<Rightarrow> node_id \<Rightarrow> string list option option" where
  "function_annotations t node = do {
     anchor \<leftarrow> find_anchor t (Some node);
     (case anchor of
        None \<Rightarrow> Some None
      | Some a \<Rightarrow> map_option Some (inherit_annotations t (nparent t a) (modifier_annotations t a))) }"

declare anchor_types_def [model_simps] wrapper_types_def [model_simps]
  modifier_annotations_def [model_simps] wrapper_annotations_def [model_simps]
  function_annotations_def [model_simps]

subsection \<open>The walks implement \<open>climb\<close> and \<open>chain\<close>\<close>

lemma find_anchor_iff: "find_anchor t a = Some r \<longleftrightarrow> climb not_anchor t a r"
  by (simp add: find_anchor_def walk_up_iff)

lemma climb_find_anchor: "climb not_anchor t a r \<Longrightarrow> find_anchor t a = Some r"
  by (simp add: find_anchor_iff)

lemma find_anchor_Some:
  "find_anchor t (Some n) =
     (if not_anchor (ntype t n) then find_anchor t (nparent t n) else Some (Some n))"
  unfolding find_anchor_def by (rule walk_up_Some)

lemma inherit_annotations_None [simp]: "inherit_annotations t None anns = Some anns"
  by (subst inherit_annotations.simps) simp

lemma inherit_annotations_Some:
  "inherit_annotations t (Some n) anns =
     (if is_wrapper (ntype t n)
      then inherit_annotations t (nparent t n) (wrapper_annotations t anns n) else Some anns)"
  by (subst inherit_annotations.simps) simp

lemma chain_inherit_annotations:
  "chain is_wrapper t a ns \<Longrightarrow>
     inherit_annotations t a anns = Some (foldl (wrapper_annotations t) anns ns)"
  by (induction arbitrary: anns rule: chain.induct) (simp_all add: inherit_annotations_Some)

lemma inherit_annotations_chain:
  assumes "inherit_annotations t a anns = Some r"
  shows "\<exists>ns. chain is_wrapper t a ns \<and> r = foldl (wrapper_annotations t) anns ns"
proof (rule inherit_annotations.raw_induct [where
      P = "\<lambda>t a anns r. \<exists>ns. chain is_wrapper t a ns \<and> r = foldl (wrapper_annotations t) anns ns",
      OF _ assms])
  fix f t a anns r
  assume IH: "\<And>t a anns r. f t a anns = Some r \<Longrightarrow>
      \<exists>ns. chain is_wrapper t a ns \<and> r = foldl (wrapper_annotations t) anns ns"
    and eq: "(case a of None \<Rightarrow> Some anns
      | Some n \<Rightarrow> if is_wrapper (ntype t n)
          then f t (nparent t n) (wrapper_annotations t anns n) else Some anns) = Some r"
  show "\<exists>ns. chain is_wrapper t a ns \<and> r = foldl (wrapper_annotations t) anns ns"
  proof (cases a)
    case None
    with eq show ?thesis by (auto intro: chain_none)
  next
    case (Some n)
    show ?thesis
    proof (cases "is_wrapper (ntype t n)")
      case True
      with eq Some have "f t (nparent t n) (wrapper_annotations t anns n) = Some r" by simp
      then obtain ns where "chain is_wrapper t (nparent t n) ns"
        and "r = foldl (wrapper_annotations t) (wrapper_annotations t anns n) ns"
        using IH by blast
      with True Some show ?thesis by (auto intro: chain_up)
    next
      case False
      with eq Some show ?thesis by (auto intro: chain_stop)
    qed
  qed
qed

lemma find_anchor_total: "wf_tree t \<Longrightarrow> \<exists>r. find_anchor t a = Some r"
  unfolding find_anchor_def by (rule walk_up_total)

lemma inherit_annotations_total: "wf_tree t \<Longrightarrow> \<exists>r. inherit_annotations t a anns = Some r"
  using chain_exists [of t is_wrapper a] by (auto dest: chain_inherit_annotations)

subsection \<open>What the collected list is\<close>

lemma wrapper_annotations_extends: "extends_fresh anns (wrapper_annotations t anns w)"
  unfolding wrapper_annotations_def by (rule extends_fresh_fold) simp

lemma wrappers_extend: "extends_fresh anns (foldl (wrapper_annotations t) anns ns)"
  by (rule extends_fresh_foldl) (rule wrapper_annotations_extends)

definition annotation_texts :: "tree \<Rightarrow> node_id \<Rightarrow> string set" where
  "annotation_texts t w = ntext t ` {c \<in> set (nchildren t w). ntype t c = ''annotation''}"

lemma set_wrapper_annotations:
  "set (wrapper_annotations t anns w) = set anns \<union> annotation_texts t w"
proof -
  have "set (fold (\<lambda>child anns. if ntype t child = ''annotation'' then append_new anns (ntext t child) else anns)
      cs anns) = set anns \<union> ntext t ` {c \<in> set cs. ntype t c = ''annotation''}" for cs
    by (induction cs arbitrary: anns) auto
  then show ?thesis by (simp add: wrapper_annotations_def annotation_texts_def)
qed

lemma set_wrappers:
  "set (foldl (wrapper_annotations t) anns ns) = set anns \<union> (\<Union>w \<in> set ns. annotation_texts t w)"
  by (induction ns arbitrary: anns) (auto simp: set_wrapper_annotations)

lemma function_annotations_Some_Some:
  "function_annotations t n = Some (Some anns) \<longleftrightarrow>
     (\<exists>a ns. climb not_anchor t (Some n) (Some a) \<and> chain is_wrapper t (nparent t a) ns \<and>
        anns = foldl (wrapper_annotations t) (modifier_annotations t a) ns)"
proof
  assume h: "function_annotations t n = Some (Some anns)"
  then obtain a where fa: "find_anchor t (Some n) = Some (Some a)"
    and ih: "inherit_annotations t (nparent t a) (modifier_annotations t a) = Some anns"
    by (auto simp: function_annotations_def split: Option.bind_splits option.splits)
  from fa have "climb not_anchor t (Some n) (Some a)" by (simp add: find_anchor_iff)
  with inherit_annotations_chain [OF ih] show "\<exists>a ns. climb not_anchor t (Some n) (Some a) \<and>
      chain is_wrapper t (nparent t a) ns \<and> anns = foldl (wrapper_annotations t) (modifier_annotations t a) ns"
    by blast
next
  assume "\<exists>a ns. climb not_anchor t (Some n) (Some a) \<and> chain is_wrapper t (nparent t a) ns \<and>
     anns = foldl (wrapper_annotations t) (modifier_annotations t a) ns"
  then obtain a ns where "climb not_anchor t (Some n) (Some a)" and "chain is_wrapper t (nparent t a) ns"
    and "anns = foldl (wrapper_annotations t) (modifier_annotations t a) ns" by blast
  then show "function_annotations t n = Some (Some anns)"
    by (simp add: function_annotations_def climb_find_anchor chain_inherit_annotations)
qed

lemma function_annotations_Some_None:
  "function_annotations t n = Some None \<longleftrightarrow> climb not_anchor t (Some n) None"
  by (auto simp: function_annotations_def find_anchor_iff [symmetric]
      split: Option.bind_splits option.splits)

lemma function_annotations_total: "wf_tree t \<Longrightarrow> \<exists>r. function_annotations t n = Some r"
proof -
  assume wf: "wf_tree t"
  obtain r where r: "find_anchor t (Some n) = Some r" using find_anchor_total [OF wf] by blast
  show ?thesis
  proof (cases r)
    case None
    with r show ?thesis by (simp add: function_annotations_def)
  next
    case (Some a)
    obtain anns where "inherit_annotations t (nparent t a) (modifier_annotations t a) = Some anns"
      using inherit_annotations_total [OF wf] by blast
    with r Some show ?thesis by (simp add: function_annotations_def)
  qed
qed

subsection \<open>Properties of the attribution\<close>

text \<open>
  C1. Refinement: the attribution of a \<open>func_name\<close> node returns exactly what the
  relational specification says. It returns \<open>Some None\<close> iff climbing from the node
  through non-anchor types runs out of parents, and \<open>Some (Some anns)\<close> iff the climb
  stops at an anchor \<open>a\<close>, the wrappers above \<open>a\<close> form the chain \<open>ns\<close>, and
  \<open>anns\<close> is the modifier annotations of \<open>a\<close> extended level by level over \<open>ns\<close>.
\<close>

theorem attribution_refines_spec:
  "function_annotations t n = Some r \<longleftrightarrow>
     (case r of
        None \<Rightarrow> climb not_anchor t (Some n) None
      | Some anns \<Rightarrow> \<exists>a ns. climb not_anchor t (Some n) (Some a) \<and>
          chain is_wrapper t (nparent t a) ns \<and>
          anns = foldl (wrapper_annotations t) (modifier_annotations t a) ns)"
  by (cases r) (simp_all add: function_annotations_Some_None function_annotations_Some_Some)

text \<open>
  C2. Deduplication of inherited annotations: the list attributed to a function is the
  anchor's modifier annotations followed by annotations inherited from wrappers, and the
  inherited ones are pairwise distinct and distinct from every modifier annotation.
\<close>

theorem inherited_annotations_fresh:
  assumes "function_annotations t n = Some (Some anns)"
  shows "\<exists>a d. climb not_anchor t (Some n) (Some a) \<and> anns = modifier_annotations t a @ d \<and>
           distinct d \<and> set d \<inter> set (modifier_annotations t a) = {}"
proof -
  from assms obtain a ns where a: "climb not_anchor t (Some n) (Some a)"
    and anns: "anns = foldl (wrapper_annotations t) (modifier_annotations t a) ns"
    by (auto simp: function_annotations_Some_Some)
  have "extends_fresh (modifier_annotations t a) anns"
    unfolding anns by (rule wrappers_extend)
  with a show ?thesis by (auto simp: extends_fresh_def)
qed

text \<open>
  C3. The annotation set: the anchor of the node \<open>n\<close> is the first anchor-typed node
  reached by climbing from \<open>n\<close>, and every attributed text comes from that anchor's
  \<open>modifiers\<close> or from an \<open>annotation\<close> child of a wrapper in the maximal wrapper
  chain above it, and every such text is attributed. The chain consists of wrapper-typed
  nodes only: climbing stops at the first non-wrapper.
\<close>

theorem attributed_annotation_set:
  assumes "function_annotations t n = Some (Some anns)"
  shows "\<exists>a ns. climb not_anchor t (Some n) (Some a) \<and> ntype t a \<in> set anchor_types \<and>
           chain is_wrapper t (nparent t a) ns \<and>
           (\<forall>w \<in> set ns. ntype t w \<in> set wrapper_types) \<and>
           set anns = set (modifier_annotations t a) \<union> (\<Union>w \<in> set ns. annotation_texts t w)"
proof -
  from assms obtain a ns where a: "climb not_anchor t (Some n) (Some a)"
    and ch: "chain is_wrapper t (nparent t a) ns"
    and anns: "anns = foldl (wrapper_annotations t) (modifier_annotations t a) ns"
    by (auto simp: function_annotations_Some_Some)
  from a have "ntype t a \<in> set anchor_types" by (auto dest: climb_result)
  moreover from ch have "\<forall>w \<in> set ns. ntype t w \<in> set wrapper_types" by (auto dest: chain_types)
  ultimately show ?thesis using a ch unfolding anns set_wrappers by blast
qed

text \<open>
  A function declared as \<open>@Test @Test fun foo()\<close>: node 1 is the
  \<open>function_declaration\<close>, node 2 its \<open>modifiers\<close>, nodes 3 and 4 the two
  annotations, node 5 the name.
\<close>

definition dup_test_tree :: tree where
  "dup_test_tree = \<lparr>nodes = [
     \<lparr>node_type = ''source_file'', node_text = [], node_parent = None, node_children = [1],
      node_has_error = False\<rparr>,
     \<lparr>node_type = ''function_declaration'', node_text = [], node_parent = Some 0,
      node_children = [2, 5], node_has_error = False\<rparr>,
     \<lparr>node_type = ''modifiers'', node_text = [], node_parent = Some 1, node_children = [3, 4],
      node_has_error = False\<rparr>,
     \<lparr>node_type = ''annotation'', node_text = ''@Test'', node_parent = Some 2, node_children = [],
      node_has_error = False\<rparr>,
     \<lparr>node_type = ''annotation'', node_text = ''@Test'', node_parent = Some 2, node_children = [],
      node_has_error = False\<rparr>,
     \<lparr>node_type = ''simple_identifier'', node_text = ''foo'', node_parent = Some 1,
      node_children = [], node_has_error = False\<rparr>],
   root_node = 0\<rparr>"

text \<open>
  Annotations on the declaration itself are not deduplicated (an instance of
  \<open>inherited_annotations_fresh\<close>): the list attributed to \<open>@Test @Test fun foo()\<close> is
  \<open>[@Test, @Test]\<close>. The tree is well-formed.
\<close>

lemma modifier_duplicates_kept:
  "wf_tree dup_test_tree \<and>
   function_annotations dup_test_tree 5 = Some (Some [''@Test'', ''@Test''])"
  by (simp add: dup_test_tree_def model_simps find_anchor_Some inherit_annotations_Some
      enumerate_eq_zip)

text \<open>
  An expression-style declaration \<open>@Composable @Preview fun Greeting() ...\<close> as the
  Kotlin grammar parses it: the annotations wrap the \<open>infix_expression\<close> (node 5, whose
  left operand is the identifier \<open>fun\<close>) through two \<open>prefix_expression\<close> nodes
  (1 and 3); the name \<open>Greeting\<close> is node 8, inside the \<open>call_expression\<close> node 7.
\<close>

definition expr_preview_tree :: tree where
  "expr_preview_tree = \<lparr>nodes = [
     \<lparr>node_type = ''source_file'', node_text = [], node_parent = None, node_children = [1],
      node_has_error = False\<rparr>,
     \<lparr>node_type = ''prefix_expression'', node_text = [], node_parent = Some 0,
      node_children = [2, 3], node_has_error = False\<rparr>,
     \<lparr>node_type = ''annotation'', node_text = ''@Composable'', node_parent = Some 1,
      node_children = [], node_has_error = False\<rparr>,
     \<lparr>node_type = ''prefix_expression'', node_text = [], node_parent = Some 1,
      node_children = [4, 5], node_has_error = False\<rparr>,
     \<lparr>node_type = ''annotation'', node_text = ''@Preview'', node_parent = Some 3,
      node_children = [], node_has_error = False\<rparr>,
     \<lparr>node_type = ''infix_expression'', node_text = [], node_parent = Some 3,
      node_children = [6, 7], node_has_error = False\<rparr>,
     \<lparr>node_type = ''simple_identifier'', node_text = ''fun'', node_parent = Some 5,
      node_children = [], node_has_error = False\<rparr>,
     \<lparr>node_type = ''call_expression'', node_text = [], node_parent = Some 5,
      node_children = [8], node_has_error = False\<rparr>,
     \<lparr>node_type = ''simple_identifier'', node_text = ''Greeting'', node_parent = Some 7,
      node_children = [], node_has_error = False\<rparr>],
   root_node = 0\<rparr>"

lemma expr_preview_tree_wf: "wf_tree expr_preview_tree"
  by (simp add: expr_preview_tree_def model_simps enumerate_eq_zip)

lemma expr_preview_annotations:
  "function_annotations expr_preview_tree 8 = Some (Some [''@Preview'', ''@Composable''])"
  by (simp add: expr_preview_tree_def model_simps find_anchor_Some inherit_annotations_Some)

theorem inherited_annotations_fresh_witness:
  "\<exists>a d. climb not_anchor expr_preview_tree (Some 8) (Some a) \<and>
     [''@Preview'', ''@Composable''] = modifier_annotations expr_preview_tree a @ d \<and>
     distinct d \<and> set d \<inter> set (modifier_annotations expr_preview_tree a) = {}"
  by (rule inherited_annotations_fresh [OF expr_preview_annotations])

theorem attributed_annotation_set_witness:
  "\<exists>a ns. climb not_anchor expr_preview_tree (Some 8) (Some a) \<and> ntype expr_preview_tree a \<in> set anchor_types \<and>
     chain is_wrapper expr_preview_tree (nparent expr_preview_tree a) ns \<and>
     (\<forall>w \<in> set ns. ntype expr_preview_tree w \<in> set wrapper_types) \<and>
     set [''@Preview'', ''@Composable''] = set (modifier_annotations expr_preview_tree a) \<union>
       (\<Union>w \<in> set ns. annotation_texts expr_preview_tree w)"
  by (rule attributed_annotation_set [OF expr_preview_annotations])

text \<open>
  C29. The incremental de-duplication of one wrapper level is the reference
  \<open>remdups_first\<close>: the list grows by the wrapper's annotation texts that are not yet
  present, each once, in the order of their first occurrence.
\<close>

theorem wrapper_annotations_first_occurrence:
  "wrapper_annotations t anns w =
     anns @ remdups_first (filter (\<lambda>a. a \<notin> set anns)
                            (map (ntext t) (filter (\<lambda>c. ntype t c = ''annotation'') (nchildren t w))))"
proof -
  have "fold (\<lambda>child anns. if ntype t child = ''annotation'' then append_new anns (ntext t child) else anns) cs anns =
        fold (\<lambda>y xs. append_new xs y) (map (ntext t) (filter (\<lambda>c. ntype t c = ''annotation'') cs)) anns" for cs
    by (induction cs arbitrary: anns) simp_all
  then show ?thesis by (simp add: wrapper_annotations_def fold_append_new)
qed

end
