(* ===== verification/Kotlin_Facts.thy ===== *)
theory Kotlin_Facts
  imports Attribution
begin

text \<open>
  Fact extraction for the three Kotlin tasks of \<^verbatim>\<open>src/run_validation.py\<close>: the
  \<open>for node, capture_name in query.captures(root_node)\<close> loops of
  \<open>validate_preview_generation\<close> (lines 27--57), \<open>validate_unit_test_generation\<close>
  (lines 97--134) and \<open>validate_instrumentation_test_generation\<close> (lines 184--236).
  Each loop is a \<open>fold_option\<close> over the capture list: a step may not return, because
  it runs the attribution walks. The \<open>results\<close> dictionaries are records; the
  \<open>classes\<close> dictionary, whose insertion order the final list keeps, is an association
  list \<open>class_map\<close> whose keys stay distinct.
\<close>

text \<open>The three query patterns of the Kotlin validators (lines 15--25, 81--95, 167--182).\<close>

datatype kotlin_query = Preview_query | Unit_test_query | Instrumentation_query

record function_fact =
  func_name :: string
  annotations :: "string list"

record kotlin_results =
  import_paths :: "string list"
  function_facts :: "function_fact list"

record unit_test_results = kotlin_results +
  constructors :: "string list"

type_synonym class_map = "(string \<times> string list) list"

record instrumentation_results = kotlin_results +
  class_facts :: class_map

subsection \<open>Preview generation: lines 27--57\<close>

text \<open>A \<open>func_name\<close> capture without an anchor is dropped (the \<open>if anchor:\<close> guard).\<close>

definition preview_step :: "tree \<Rightarrow> function_fact list \<Rightarrow> capture \<Rightarrow> function_fact list option" where
  "preview_step t all_functions c =
     (case c of (node, capture_name) \<Rightarrow>
        if capture_name = ''func_name'' then
          (case function_annotations t node of
             None \<Rightarrow> None
           | Some None \<Rightarrow> Some all_functions
           | Some (Some anns) \<Rightarrow>
               Some (all_functions @ [\<lparr>func_name = ntext t node, annotations = anns\<rparr>]))
        else Some all_functions)"

definition preview_functions :: "tree \<Rightarrow> capture list \<Rightarrow> function_fact list option" where
  "preview_functions t captures = fold_option (preview_step t) captures []"

subsection \<open>Unit-test generation: lines 97--134\<close>

text \<open>
  Here the function record is appended after the \<open>if anchor:\<close> block, so a name
  without an anchor is kept, with no annotations.
\<close>

definition captured_function :: "tree \<Rightarrow> node_id \<Rightarrow> function_fact option" where
  "captured_function t node =
     map_option (\<lambda>r. \<lparr>func_name = ntext t node, annotations = (case r of None \<Rightarrow> [] | Some anns \<Rightarrow> anns)\<rparr>)
       (function_annotations t node)"

definition unit_test_step :: "tree \<Rightarrow> unit_test_results \<Rightarrow> capture \<Rightarrow> unit_test_results option" where
  "unit_test_step t results c =
     (case c of (node, capture_name) \<Rightarrow>
        let text = ntext t node in
        if capture_name = ''import_path'' then
          Some (results\<lparr>import_paths := import_paths results @ [text]\<rparr>)
        else if capture_name = ''func_name'' then
          map_option (\<lambda>f. results\<lparr>function_facts := function_facts results @ [f]\<rparr>) (captured_function t node)
        else if capture_name = ''constructor_name'' then
          Some (results\<lparr>constructors := constructors results @ [text]\<rparr>)
        else Some results)"

definition extract_unit_test_facts :: "tree \<Rightarrow> capture list \<Rightarrow> unit_test_results option" where
  "extract_unit_test_facts t captures =
     fold_option (unit_test_step t) captures \<lparr>import_paths = [], function_facts = [], constructors = []\<rparr>"

subsection \<open>Instrumentation-test generation: lines 184--236\<close>

text \<open>\<open>if text not in results["classes"]: results["classes"][text] = {"parents": []}\<close>\<close>

definition add_class :: "class_map \<Rightarrow> string \<Rightarrow> class_map" where
  "add_class classes name = (if name \<in> fst ` set classes then classes else classes @ [(name, [])])"

text \<open>\<open>results["classes"][class_name]["parents"].append(text)\<close>\<close>

definition append_parent :: "class_map \<Rightarrow> string \<Rightarrow> string \<Rightarrow> class_map" where
  "append_parent classes name parent =
     map (\<lambda>(k, ps). if k = name then (k, ps @ [parent]) else (k, ps)) classes"

text \<open>
  The class a \<open>parent_class\<close> capture belongs to (lines 224--234): the text of the first
  \<open>type_identifier\<close> child of the nearest \<open>class_declaration\<close> at or above the node;
  \<open>Some None\<close> when there is no such ancestor or child.
\<close>

definition enclosing_class :: "tree \<Rightarrow> node_id \<Rightarrow> node_id option option" where
  "enclosing_class t node = walk_up (\<lambda>ty. ty \<noteq> ''class_declaration'') t (Some node)"

definition parent_owner :: "tree \<Rightarrow> node_id \<Rightarrow> string option option" where
  "parent_owner t node =
     map_option (\<lambda>cls. case cls of
         None \<Rightarrow> None
       | Some c \<Rightarrow> map_option (ntext t) (find (\<lambda>child. ntype t child = ''type_identifier'') (nchildren t c)))
       (enclosing_class t node)"

definition attach_parent :: "class_map \<Rightarrow> string option \<Rightarrow> string \<Rightarrow> class_map" where
  "attach_parent classes owner parent =
     (case owner of
        None \<Rightarrow> classes
      | Some class_name \<Rightarrow>
          if class_name \<in> fst ` set classes then append_parent classes class_name parent else classes)"

definition instrumentation_step ::
  "tree \<Rightarrow> instrumentation_results \<Rightarrow> capture \<Rightarrow> instrumentation_results option" where
  "instrumentation_step t results c =
     (case c of (node, capture_name) \<Rightarrow>
        let text = ntext t node in
        if capture_name = ''import_path'' then
          Some (results\<lparr>import_paths := import_paths results @ [text]\<rparr>)
        else if capture_name = ''func_name'' then
          map_option (\<lambda>f. results\<lparr>function_facts := function_facts results @ [f]\<rparr>) (captured_function t node)
        else if capture_name = ''class_name'' then
          Some (results\<lparr>class_facts := add_class (class_facts results) text\<rparr>)
        else if capture_name = ''parent_class'' then
          map_option (\<lambda>owner. results\<lparr>class_facts := attach_parent (class_facts results) owner text\<rparr>)
            (parent_owner t node)
        else Some results)"

definition extract_instrumentation_facts ::
  "tree \<Rightarrow> capture list \<Rightarrow> instrumentation_results option" where
  "extract_instrumentation_facts t captures =
     fold_option (instrumentation_step t) captures \<lparr>import_paths = [], function_facts = [], class_facts = []\<rparr>"

declare preview_step_def [model_simps] preview_functions_def [model_simps]
  captured_function_def [model_simps] unit_test_step_def [model_simps]
  extract_unit_test_facts_def [model_simps] add_class_def [model_simps]
  append_parent_def [model_simps] enclosing_class_def [model_simps] parent_owner_def [model_simps]
  attach_parent_def [model_simps] instrumentation_step_def [model_simps]
  extract_instrumentation_facts_def [model_simps]

subsection \<open>What the loops collect\<close>

definition fact_of :: "tree \<Rightarrow> node_id \<Rightarrow> function_fact \<Rightarrow> bool" where
  "fact_of t n f \<longleftrightarrow> func_name f = ntext t n \<and>
     (function_annotations t n = Some None \<and> annotations f = [] \<or>
      function_annotations t n = Some (Some (annotations f)))"

text \<open>
  The parents of class \<open>k\<close> as a declarative specification over the capture list: the
  texts of the \<open>parent_class\<close> captures owned by \<open>k\<close> that come after the first
  \<open>class_name\<close> capture of \<open>k\<close>, in order; none if \<open>k\<close> is never captured as a name.
\<close>

definition class_parents :: "tree \<Rightarrow> string \<Rightarrow> capture list \<Rightarrow> string list" where
  "class_parents t k captures =
     (case dropWhile (\<lambda>c. \<not> (snd c = ''class_name'' \<and> ntext t (fst c) = k)) captures of
        [] \<Rightarrow> []
      | _ # later \<Rightarrow>
          map (ntext t \<circ> fst) (filter (\<lambda>c. snd c = ''parent_class'' \<and> parent_owner t (fst c) = Some (Some k)) later))"

lemma captured_function_fact_of:
  assumes "captured_function t n = Some f"
  shows "fact_of t n f"
proof (cases "function_annotations t n")
  case None
  with assms show ?thesis by (simp add: captured_function_def)
next
  case (Some r)
  with assms show ?thesis by (cases r) (auto simp: captured_function_def fact_of_def)
qed

lemma captured_function_total: "wf_tree t \<Longrightarrow> captured_function t n \<noteq> None"
  using function_annotations_total [of t n] by (auto simp: captured_function_def)

lemma unit_test_loop:
  assumes "fold_option (unit_test_step t) cs s = Some r"
  shows "import_paths r = import_paths s @ map (ntext t) (captured_nodes cs ''import_path'') \<and>
    constructors r = constructors s @ map (ntext t) (captured_nodes cs ''constructor_name'') \<and>
    (\<exists>fs. function_facts r = function_facts s @ fs \<and>
          list_all2 (fact_of t) (captured_nodes cs ''func_name'') fs)"
  using assms
proof (induction cs arbitrary: s)
  case Nil
  then show ?case by simp
next
  case (Cons c cs)
  obtain n l where c: "c = (n, l)" by fastforce
  from Cons.prems c obtain s' where step: "unit_test_step t s (n, l) = Some s'"
    and rest: "fold_option (unit_test_step t) cs s' = Some r"
    by (auto split: Option.bind_splits)
  note IH = Cons.IH [OF rest]
  consider (imp) "l = ''import_path''" | (fn) "l = ''func_name''"
    | (ctor) "l = ''constructor_name''" | (other) "l \<noteq> ''import_path''" "l \<noteq> ''func_name''"
      "l \<noteq> ''constructor_name''" by blast
  then show ?case
  proof cases
    case imp
    with step have "s' = s\<lparr>import_paths := import_paths s @ [ntext t n]\<rparr>"
      by (simp add: unit_test_step_def)
    with IH imp c show ?thesis by simp
  next
    case fn
    with step obtain f where f: "captured_function t n = Some f"
      and s': "s' = s\<lparr>function_facts := function_facts s @ [f]\<rparr>"
      by (auto simp: unit_test_step_def)
    from IH s' obtain fs where "function_facts r = function_facts s @ f # fs"
      and "list_all2 (fact_of t) (captured_nodes cs ''func_name'') fs" by auto
    with IH s' fn c captured_function_fact_of [OF f] show ?thesis by auto
  next
    case ctor
    with step have "s' = s\<lparr>constructors := constructors s @ [ntext t n]\<rparr>"
      by (simp add: unit_test_step_def)
    with IH ctor c show ?thesis by simp
  next
    case other
    with step have "s' = s" by (simp add: unit_test_step_def)
    with IH other c show ?thesis by simp
  qed
qed

lemma distinct_keys_add_class: "distinct (map fst cs) \<Longrightarrow> distinct (map fst (add_class cs n))"
  by (auto simp: add_class_def)

lemma map_fst_append_parent [simp]: "map fst (append_parent cs k p) = map fst cs"
  by (induction cs) (auto simp: append_parent_def)

lemma map_fst_attach_parent [simp]: "map fst (attach_parent cs owner p) = map fst cs"
  by (simp add: attach_parent_def split: option.splits)

lemma keys_attach_parent [simp]: "fst ` set (attach_parent cs owner p) = fst ` set cs"
  by (metis list.set_map map_fst_attach_parent)

lemma keys_add_class [simp]: "fst ` set (add_class cs n) = insert n (fst ` set cs)"
  by (auto simp: add_class_def)

lemma instrumentation_loop:
  assumes "fold_option (instrumentation_step t) cs s = Some r"
  shows "import_paths r = import_paths s @ map (ntext t) (captured_nodes cs ''import_path'') \<and>
    (\<exists>fs. function_facts r = function_facts s @ fs \<and>
          list_all2 (fact_of t) (captured_nodes cs ''func_name'') fs) \<and>
    fst ` set (class_facts r) = fst ` set (class_facts s) \<union> ntext t ` set (captured_nodes cs ''class_name'') \<and>
    (distinct (map fst (class_facts s)) \<longrightarrow> distinct (map fst (class_facts r)))"
  using assms
proof (induction cs arbitrary: s)
  case Nil
  then show ?case by simp
next
  case (Cons c cs)
  obtain n l where c: "c = (n, l)" by fastforce
  from Cons.prems c obtain s' where step: "instrumentation_step t s (n, l) = Some s'"
    and rest: "fold_option (instrumentation_step t) cs s' = Some r"
    by (auto split: Option.bind_splits)
  note IH = Cons.IH [OF rest]
  consider (imp) "l = ''import_path''" | (fn) "l = ''func_name''"
    | (cls) "l = ''class_name''" | (par) "l = ''parent_class''"
    | (other) "l \<noteq> ''import_path''" "l \<noteq> ''func_name''" "l \<noteq> ''class_name''" "l \<noteq> ''parent_class''"
    by blast
  then show ?case
  proof cases
    case imp
    with step have "s' = s\<lparr>import_paths := import_paths s @ [ntext t n]\<rparr>"
      by (simp add: instrumentation_step_def)
    with IH imp c show ?thesis by simp
  next
    case fn
    with step obtain f where f: "captured_function t n = Some f"
      and s': "s' = s\<lparr>function_facts := function_facts s @ [f]\<rparr>"
      by (auto simp: instrumentation_step_def)
    from IH s' obtain fs where "function_facts r = function_facts s @ f # fs"
      and "list_all2 (fact_of t) (captured_nodes cs ''func_name'') fs" by auto
    with IH s' fn c captured_function_fact_of [OF f] show ?thesis by auto
  next
    case cls
    with step have "s' = s\<lparr>class_facts := add_class (class_facts s) (ntext t n)\<rparr>"
      by (simp add: instrumentation_step_def)
    with IH cls c show ?thesis by (auto simp: distinct_keys_add_class)
  next
    case par
    with step obtain owner where
      "s' = s\<lparr>class_facts := attach_parent (class_facts s) owner (ntext t n)\<rparr>"
      by (auto simp: instrumentation_step_def)
    with IH par c show ?thesis by simp
  next
    case other
    with step have "s' = s" by (simp add: instrumentation_step_def)
    with IH other c show ?thesis by simp
  qed
qed

lemma preview_loop:
  assumes "fold_option (preview_step t) cs fs0 = Some fs"
  shows "\<exists>fs'. fs = fs0 @ fs' \<and>
    list_all2 (\<lambda>n f. func_name f = ntext t n \<and> function_annotations t n = Some (Some (annotations f)))
      (filter (\<lambda>n. function_annotations t n \<noteq> Some None) (captured_nodes cs ''func_name'')) fs'"
  using assms
proof (induction cs arbitrary: fs0)
  case Nil
  then show ?case by simp
next
  case (Cons c cs)
  obtain n l where c: "c = (n, l)" by fastforce
  from Cons.prems c obtain s' where step: "preview_step t fs0 (n, l) = Some s'"
    and rest: "fold_option (preview_step t) cs s' = Some fs"
    by (auto split: Option.bind_splits)
  note IH = Cons.IH [OF rest]
  show ?case
  proof (cases "l = ''func_name''")
    case False
    with step IH c show ?thesis by (simp add: preview_step_def)
  next
    case True
    show ?thesis
    proof (cases "function_annotations t n")
      case None
      with step True show ?thesis by (simp add: preview_step_def)
    next
      case (Some r)
      show ?thesis
      proof (cases r)
        case None
        with Some step True IH c show ?thesis by (simp add: preview_step_def)
      next
        case (Some anns)
        with \<open>function_annotations t n = Some r\<close> step True have
          "s' = fs0 @ [\<lparr>func_name = ntext t n, annotations = anns\<rparr>]"
          and fa: "function_annotations t n = Some (Some anns)"
          by (simp_all add: preview_step_def)
        with IH True c show ?thesis by auto
      qed
    qed
  qed
qed


lemma preview_step_None: "preview_step t s (n, l) = None \<Longrightarrow> function_annotations t n = None"
  by (simp add: preview_step_def split: if_splits option.splits)

lemma preview_functions_total: "wf_tree t \<Longrightarrow> \<exists>fs. preview_functions t cs = Some fs"
  unfolding preview_functions_def
  by (rule fold_option_total) (metis function_annotations_total option.distinct(1) prod.exhaust preview_step_None)

lemma unit_test_step_None: "unit_test_step t s (n, l) = None \<Longrightarrow> captured_function t n = None"
  by (simp add: unit_test_step_def Let_def split: if_splits)

lemma extract_unit_test_facts_total: "wf_tree t \<Longrightarrow> \<exists>r. extract_unit_test_facts t cs = Some r"
  unfolding extract_unit_test_facts_def
  by (rule fold_option_total) (metis captured_function_total prod.exhaust unit_test_step_None)

lemma parent_owner_total: "wf_tree t \<Longrightarrow> parent_owner t n \<noteq> None"
  using walk_up_total [of t "\<lambda>ty. ty \<noteq> ''class_declaration''" "Some n"]
  by (auto simp: parent_owner_def enclosing_class_def)

lemma instrumentation_step_None:
  "instrumentation_step t s (n, l) = None \<Longrightarrow> captured_function t n = None \<or> parent_owner t n = None"
  by (simp add: instrumentation_step_def Let_def split: if_splits)

lemma extract_instrumentation_facts_total:
  "wf_tree t \<Longrightarrow> \<exists>r. extract_instrumentation_facts t cs = Some r"
  unfolding extract_instrumentation_facts_def
  by (rule fold_option_total)
    (metis captured_function_total parent_owner_total prod.exhaust instrumentation_step_None)

text \<open>
  \<open>class FooTest : DatabaseTest()\<close>: node 1 is the \<open>class_declaration\<close>, node 2 its
  name, node 6 the \<open>type_identifier\<close> of the supertype inside
  \<open>delegation_specifier / constructor_invocation / user_type\<close> (nodes 3--5).
\<close>

definition class_tree :: tree where
  "class_tree = \<lparr>nodes = [
     \<lparr>node_type = ''source_file'', node_text = [], node_parent = None, node_children = [1],
      node_has_error = False\<rparr>,
     \<lparr>node_type = ''class_declaration'', node_text = [], node_parent = Some 0,
      node_children = [2, 3], node_has_error = False\<rparr>,
     \<lparr>node_type = ''type_identifier'', node_text = ''FooTest'', node_parent = Some 1,
      node_children = [], node_has_error = False\<rparr>,
     \<lparr>node_type = ''delegation_specifier'', node_text = [], node_parent = Some 1,
      node_children = [4], node_has_error = False\<rparr>,
     \<lparr>node_type = ''constructor_invocation'', node_text = [], node_parent = Some 3,
      node_children = [5], node_has_error = False\<rparr>,
     \<lparr>node_type = ''user_type'', node_text = [], node_parent = Some 4,
      node_children = [6], node_has_error = False\<rparr>,
     \<lparr>node_type = ''type_identifier'', node_text = ''DatabaseTest'', node_parent = Some 5,
      node_children = [], node_has_error = False\<rparr>],
   root_node = 0\<rparr>"

lemma class_tree_wf: "wf_tree class_tree"
  by (simp add: class_tree_def model_simps enumerate_eq_zip)

lemma class_tree_facts:
  "extract_instrumentation_facts class_tree [(2, ''class_name''), (6, ''parent_class'')] =
     Some \<lparr>import_paths = [], function_facts = [], class_facts = [(''FooTest'', [''DatabaseTest''])]\<rparr>"
  by (simp add: class_tree_def model_simps walk_up_Some)

subsection \<open>Properties of the extraction\<close>

text \<open>
  C4. The unit-test loop collects, in capture order and with duplicates, the text of every
  \<open>import_path\<close> capture and of every \<open>constructor_name\<close> capture, and one function
  record per \<open>func_name\<close> capture: its name and the attributed annotations, or no
  annotations when the name has no anchor.
\<close>

theorem unit_test_facts_spec:
  assumes "extract_unit_test_facts t captures = Some r"
  shows "import_paths r = map (ntext t) (captured_nodes captures ''import_path'') \<and>
    constructors r = map (ntext t) (captured_nodes captures ''constructor_name'') \<and>
    list_all2 (fact_of t) (captured_nodes captures ''func_name'') (function_facts r)"
  using unit_test_loop [OF assms [unfolded extract_unit_test_facts_def]] by simp

lemma expr_preview_unit_facts:
  "extract_unit_test_facts expr_preview_tree [(8, ''func_name'')] =
     Some \<lparr>import_paths = [],
       function_facts = [\<lparr>func_name = ''Greeting'', annotations = [''@Preview'', ''@Composable'']\<rparr>],
       constructors = []\<rparr>"
  by (simp add: expr_preview_tree_def model_simps find_anchor_Some inherit_annotations_Some)

theorem unit_test_facts_spec_witness:
  "list_all2 (fact_of expr_preview_tree) (captured_nodes [(8, ''func_name'')] ''func_name'')
     [\<lparr>func_name = ''Greeting'', annotations = [''@Preview'', ''@Composable'']\<rparr>]"
  using unit_test_facts_spec [OF expr_preview_unit_facts] by simp

text \<open>
  C5. The class dictionary of the instrumentation loop: its keys stay distinct, and they are
  exactly the texts of the \<open>class_name\<close> captures.
\<close>

theorem class_keys_spec:
  assumes "extract_instrumentation_facts t captures = Some r"
  shows "distinct (map fst (class_facts r)) \<and>
    fst ` set (class_facts r) = ntext t ` set (captured_nodes captures ''class_name'')"
  using instrumentation_loop [OF assms [unfolded extract_instrumentation_facts_def]] by simp

theorem class_keys_spec_witness:
  "distinct (map fst [(''FooTest'', [''DatabaseTest''])]) \<and>
   fst ` set [(''FooTest'', [''DatabaseTest''])] =
     ntext class_tree ` set (captured_nodes [(2, ''class_name''), (6, ''parent_class'')] ''class_name'')"
  using class_keys_spec [OF class_tree_facts] by simp
lemma class_parents_snoc:
  "class_parents t k (cs @ [(n, l)]) =
     (if k \<in> ntext t ` set (captured_nodes cs ''class_name'')
      then class_parents t k cs @ (if l = ''parent_class'' \<and> parent_owner t n = Some (Some k) then [ntext t n] else [])
      else [])"
proof (cases "k \<in> ntext t ` set (captured_nodes cs ''class_name'')")
  case True
  let ?P = "\<lambda>c. \<not> (snd c = ''class_name'' \<and> ntext t (fst c) = k)"
  let ?Q = "\<lambda>c. snd c = ''parent_class'' \<and> parent_owner t (fst c) = Some (Some k)"
  from True obtain c where "c \<in> set cs" "\<not> ?P c" by (auto simp: captured_nodes_def)
  then have app: "dropWhile ?P (cs @ [(n, l)]) = dropWhile ?P cs @ [(n, l)]" and ne: "dropWhile ?P cs \<noteq> []"
    by (auto simp: dropWhile_append1 dropWhile_eq_Nil_conv)
  from ne obtain d later where dw: "dropWhile ?P cs = d # later" by (meson neq_Nil_conv)
  have "class_parents t k cs = map (ntext t \<circ> fst) (filter ?Q later)"
    unfolding class_parents_def dw by simp
  moreover have "class_parents t k (cs @ [(n, l)]) = map (ntext t \<circ> fst) (filter ?Q (later @ [(n, l)]))"
    unfolding class_parents_def app dw by simp
  ultimately show ?thesis using True by simp
next
  case False
  let ?P = "\<lambda>c. \<not> (snd c = ''class_name'' \<and> ntext t (fst c) = k)"
  from False have "\<forall>c \<in> set cs. ?P c" by (auto simp: captured_nodes_def)
  then have "dropWhile ?P (cs @ [(n, l)]) = dropWhile ?P [(n, l)]" by (simp add: dropWhile_append2)
  with False show ?thesis by (simp add: class_parents_def)
qed

lemma add_class_map:
  "add_class (map (\<lambda>k. (k, f k)) ks) x = map (\<lambda>k. (k, if k \<in> set ks then f k else [])) (append_new ks x)"
  by (auto simp: add_class_def append_new_def image_image intro!: map_cong)

lemma attach_parent_map:
  "attach_parent (map (\<lambda>k. (k, f k)) ks) owner p =
     map (\<lambda>k. (k, f k @ (if owner = Some k then [p] else []))) ks"
  by (auto simp: attach_parent_def append_parent_def image_image split: option.splits intro!: map_cong)

lemma class_dict_loop:
  assumes "fold_option (instrumentation_step t) cs \<lparr>import_paths = [], function_facts = [], class_facts = []\<rparr> = Some r"
  shows "class_facts r = map (\<lambda>k. (k, class_parents t k cs)) (remdups_first (map (ntext t) (captured_nodes cs ''class_name'')))"
  using assms
proof (induction cs arbitrary: r rule: rev_induct)
  case Nil
  then show ?case by auto
next
  case (snoc c cs)
  obtain n l where c: "c = (n, l)" by fastforce
  from snoc.prems c obtain r0 where r0: "fold_option (instrumentation_step t) cs \<lparr>import_paths = [], function_facts = [], class_facts = []\<rparr> = Some r0"
    and step: "instrumentation_step t r0 (n, l) = Some r"
    by (auto simp: fold_option_append split: Option.bind_splits)
  let ?ks = "remdups_first (map (ntext t) (captured_nodes cs ''class_name''))"
  have IH: "class_facts r0 = map (\<lambda>k. (k, class_parents t k cs)) ?ks" by (rule snoc.IH [OF r0])
  have set_ks: "set ?ks = ntext t ` set (captured_nodes cs ''class_name'')"
    by (simp add: set_remdups_first)
  consider (cls) "l = ''class_name''" | (par) "l = ''parent_class''"
    | (other) "l \<noteq> ''class_name''" "l \<noteq> ''parent_class''" by blast
  then show ?case
  proof cases
    case cls
    with step have "class_facts r = add_class (class_facts r0) (ntext t n)"
      by (auto simp: instrumentation_step_def Let_def split: if_splits)
    with cls IH set_ks show ?thesis
      by (auto simp: c add_class_map class_parents_snoc captured_nodes_def remdups_first_snoc
          append_new_def intro!: map_cong)
  next
    case par
    with step obtain owner where owner: "parent_owner t n = Some owner"
      and "class_facts r = attach_parent (class_facts r0) owner (ntext t n)"
      by (auto simp: instrumentation_step_def Let_def)
    with par IH set_ks show ?thesis
      by (auto simp: c attach_parent_map class_parents_snoc captured_nodes_def intro!: map_cong)
  next
    case other
    with step have "class_facts r = class_facts r0"
      by (auto simp: instrumentation_step_def Let_def split: if_splits)
    with other IH set_ks show ?thesis
      by (auto simp: c class_parents_snoc captured_nodes_def intro!: map_cong)
  qed
qed

text \<open>
  C6. The class dictionary of the instrumentation loop, exactly: one entry per class name
  captured, in the order of first capture (a name captured again adds no entry), and the
  parents of each class are the texts of the \<open>parent_class\<close> captures that the enclosing
  class attributes to it and that come after its first \<open>class_name\<close> capture (a parent
  captured earlier is lost, although the specification creates the class fact
  "regardless of capture order").
\<close>

theorem class_dict_spec:
  assumes "extract_instrumentation_facts t captures = Some r"
  shows "class_facts r =
    map (\<lambda>k. (k, class_parents t k captures)) (remdups_first (map (ntext t) (captured_nodes captures ''class_name'')))"
  using assms unfolding extract_instrumentation_facts_def by (rule class_dict_loop)

text \<open>
  When the query engine yields the \<open>parent_class\<close> capture of
  \<open>class FooTest : DatabaseTest()\<close> before its \<open>class_name\<close> capture, the parent is
  lost; in capture order the same captures give \<open>FooTest\<close> the parent
  \<open>DatabaseTest\<close>.
\<close>

lemma parent_before_class_lost:
  "extract_instrumentation_facts class_tree [(6, ''parent_class''), (2, ''class_name'')] =
     Some \<lparr>import_paths = [], function_facts = [], class_facts = [(''FooTest'', [])]\<rparr> \<and>
   extract_instrumentation_facts class_tree [(2, ''class_name''), (6, ''parent_class'')] =
     Some \<lparr>import_paths = [], function_facts = [], class_facts = [(''FooTest'', [''DatabaseTest''])]\<rparr>"
  by (simp add: class_tree_def model_simps walk_up_Some)

text \<open>
  C7. The preview loop keeps one record per \<open>func_name\<close> capture that has an anchor,
  in capture order, with the name's text and its attributed annotations; names without an
  anchor are dropped.
\<close>

theorem preview_functions_spec:
  assumes "preview_functions t captures = Some fs"
  shows "list_all2 (\<lambda>n f. func_name f = ntext t n \<and> function_annotations t n = Some (Some (annotations f)))
    (filter (\<lambda>n. function_annotations t n \<noteq> Some None) (captured_nodes captures ''func_name'')) fs"
  using preview_loop [OF assms [unfolded preview_functions_def]] by simp

lemma expr_preview_functions:
  "preview_functions expr_preview_tree [(8, ''func_name'')] =
     Some [\<lparr>func_name = ''Greeting'', annotations = [''@Preview'', ''@Composable'']\<rparr>]"
  by (simp add: expr_preview_tree_def model_simps find_anchor_Some inherit_annotations_Some)

theorem class_dict_spec_witness:
  "map (\<lambda>k. (k, class_parents class_tree k [(6, ''parent_class''), (2, ''class_name''), (6, ''parent_class'')]))
     (remdups_first (map (ntext class_tree) (captured_nodes [(6, ''parent_class''), (2, ''class_name''), (6, ''parent_class'')] ''class_name''))) =
   [(''FooTest'', [''DatabaseTest''])]"
proof -
  have "extract_instrumentation_facts class_tree [(6, ''parent_class''), (2, ''class_name''), (6, ''parent_class'')] =
     Some \<lparr>import_paths = [], function_facts = [], class_facts = [(''FooTest'', [''DatabaseTest''])]\<rparr>"
    by (simp add: class_tree_def model_simps walk_up_Some)
  from class_dict_spec [OF this] show ?thesis by simp
qed

theorem preview_functions_spec_witness:
  "list_all2 (\<lambda>n f. func_name f = ntext expr_preview_tree n \<and>
      function_annotations expr_preview_tree n = Some (Some (annotations f)))
    (filter (\<lambda>n. function_annotations expr_preview_tree n \<noteq> Some None)
      (captured_nodes [(8, ''func_name'')] ''func_name''))
    [\<lparr>func_name = ''Greeting'', annotations = [''@Preview'', ''@Composable'']\<rparr>]"
  by (rule preview_functions_spec [OF expr_preview_functions])

end
