(* ===== verification/Diff_Facts.thy ===== *)
theory Diff_Facts
  imports Syntax_Tree
begin

text \<open>
  Fact extraction for the two diff tasks of \<^verbatim>\<open>src/run_validation.py\<close>
  (\<open>validate_material_diff\<close>, lines 266--297, and its copy in
  \<open>validate_plugin_diff\<close>, lines 315--346): every \<open>deletion\<close> or \<open>addition\<close>
  capture contributes its text without the leading marker, stripped of surrounding
  whitespace; the required lines are then looked for as substrings. The loop body cannot
  fail, so the loop is a plain \<open>fold\<close>.
\<close>

text \<open>\<open>content = text[1:].strip() if len(text) > 1 else ""\<close>\<close>

definition diff_line_content :: "string \<Rightarrow> string" where
  "diff_line_content text = (if 1 < length text then py_strip (drop 1 text) else [])"

record diff_results =
  deletions :: "string list"
  additions :: "string list"

definition diff_step :: "tree \<Rightarrow> diff_results \<Rightarrow> capture \<Rightarrow> diff_results" where
  "diff_step t results c =
     (case c of (node, capture_name) \<Rightarrow>
        let content = diff_line_content (ntext t node) in
        if capture_name = ''deletion'' then results\<lparr>deletions := deletions results @ [content]\<rparr>
        else if capture_name = ''addition'' then results\<lparr>additions := additions results @ [content]\<rparr>
        else results)"

definition extract_diff_facts :: "tree \<Rightarrow> capture list \<Rightarrow> diff_results" where
  "extract_diff_facts t captures =
     fold (\<lambda>c results. diff_step t results c) captures \<lparr>deletions = [], additions = []\<rparr>"

text \<open>\<open>all(any(req in line for line in lines) for req in required)\<close>\<close>

definition contains_all :: "string list \<Rightarrow> string list \<Rightarrow> bool" where
  "contains_all required lines = list_all (\<lambda>req. list_ex (\<lambda>line. py_str_in req line) lines) required"

declare diff_line_content_def [model_simps] diff_step_def [model_simps]
  extract_diff_facts_def [model_simps] contains_all_def [model_simps]

subsection \<open>What the loop collects\<close>

lemma diff_loop:
  "fold (\<lambda>c results. diff_step t results c) cs s =
     s\<lparr>deletions := deletions s @ map (diff_line_content \<circ> ntext t) (captured_nodes cs ''deletion''),
       additions := additions s @ map (diff_line_content \<circ> ntext t) (captured_nodes cs ''addition'')\<rparr>"
proof (induction cs arbitrary: s)
  case Nil
  then show ?case by simp
next
  case (Cons c cs)
  obtain n l where "c = (n, l)" by fastforce
  with Cons.IH show ?case by (simp add: diff_step_def Let_def)
qed

lemma extract_diff_facts_eq:
  "extract_diff_facts t cs =
     \<lparr>deletions = map (diff_line_content \<circ> ntext t) (captured_nodes cs ''deletion''),
      additions = map (diff_line_content \<circ> ntext t) (captured_nodes cs ''addition'')\<rparr>"
  by (simp add: extract_diff_facts_def diff_loop)

lemma contains_all_iff:
  "contains_all required lines \<longleftrightarrow> (\<forall>req \<in> set required. \<exists>line \<in> set lines. sublist req line)"
  by (simp add: contains_all_def list_all_iff list_ex_iff py_str_in_sublist)

subsection \<open>The content of a diff line\<close>

text \<open>
  C13. The content of a diff line is \<open>text[1:].strip()\<close>: the line after its one-character
  marker is exactly a whitespace prefix, the content and a whitespace suffix, and the
  content neither starts nor ends with whitespace when not empty. These determine the
  content: nothing but whitespace is removed, and all of it at both ends.
\<close>

theorem diff_line_content_stripped:
  "\<exists>ws1 ws2. drop 1 s = ws1 @ diff_line_content s @ ws2 \<and>
     list_all py_isspace ws1 \<and> list_all py_isspace ws2 \<and>
     (diff_line_content s \<noteq> [] \<longrightarrow>
        \<not> py_isspace (hd (diff_line_content s)) \<and> \<not> py_isspace (last (diff_line_content s)))"
proof (cases "1 < length s")
  case True
  then show ?thesis
    using py_strip_decomp [of "drop 1 s"] py_strip_no_space_ends [of "drop 1 s"]
    by (simp add: diff_line_content_def)
next
  case False
  then have "drop 1 s = []" and "diff_line_content s = []" by (simp_all add: diff_line_content_def)
  then show ?thesis by simp
qed

theorem diff_line_content_stripped_witness:
  "diff_line_content ''-  colors ( '' = ''colors ('' \<and>
   (\<exists>ws1 ws2. drop 1 ''-  colors ( '' = ws1 @ ''colors ('' @ ws2 \<and>
      list_all py_isspace ws1 \<and> list_all py_isspace ws2) \<and>
   \<not> py_isspace (hd ''colors ('') \<and> \<not> py_isspace (last ''colors ('')"
proof -
  have c: "diff_line_content ''-  colors ( '' = ''colors (''"
    by (simp add: model_simps)
  show ?thesis using diff_line_content_stripped [of "''-  colors ( ''"] unfolding c by auto
qed

end
