(* ===== verification/Validators.thy ===== *)
theory Validators
  imports Kotlin_Facts Diff_Facts
begin

text \<open>
  The task predicate evaluator: the five \<open>validate_*\<close> functions of
  \<^verbatim>\<open>src/run_validation.py\<close> (lines 8--354). Each parses its input with the parser it
  is given, runs its query from the root node, extracts facts (\<open>Kotlin_Facts\<close>,
  \<open>Diff_Facts\<close>) and returns the validations dictionary, modelled as the association
  list of (name, value) pairs in insertion order. A Kotlin validator returns
  \<open>None\<close> when an attribution walk does not stop; a diff validator always returns.
\<close>

type_synonym validations = "(string \<times> bool) list"

subsection \<open>The function predicates\<close>

text \<open>\<open>any('@Preview' in ann ...) and any('@Composable' in ann ...)\<close> on one function.\<close>

definition is_preview_composable :: "function_fact \<Rightarrow> bool" where
  "is_preview_composable func \<longleftrightarrow>
     list_ex (\<lambda>ann. py_str_in ''@Preview'' ann) (annotations func) \<and>
     list_ex (\<lambda>ann. py_str_in ''@Composable'' ann) (annotations func)"

text \<open>\<open>any("@Test" in a for a in f['annotations'])\<close>\<close>

definition is_test_function :: "function_fact \<Rightarrow> bool" where
  "is_test_function f \<longleftrightarrow> list_ex (\<lambda>a. py_str_in ''@Test'' a) (annotations f)"

subsection \<open>Kotlin validators\<close>

definition validate_preview_generation ::
  "parser \<Rightarrow> kotlin_query language \<Rightarrow> string \<Rightarrow> validations option" where
  "validate_preview_generation kotlin_parser kotlin_language kt_bytes =
     (let tree = kotlin_parser kt_bytes;
          correct_syntax = \<not> tree_has_error tree
      in do {
        all_functions \<leftarrow> preview_functions tree (kotlin_language Preview_query tree (root_node tree));
        let total_preview_composable_functions = length (filter is_preview_composable all_functions);
        Some [(''correct_syntax'', correct_syntax),
              (''has_preview_and_composable'', 0 < total_preview_composable_functions)]
      })"

definition required_unit_test_imports :: "string list" where
  "required_unit_test_imports =
     [''com.google.samples.apps.nowinandroid.core.model.data.FollowableTopic'',
      ''com.google.samples.apps.nowinandroid.core.model.data.Topic'']"

definition validate_unit_test_generation ::
  "parser \<Rightarrow> kotlin_query language \<Rightarrow> string \<Rightarrow> validations option" where
  "validate_unit_test_generation kotlin_parser kotlin_language kt_bytes =
     (let tree = kotlin_parser kt_bytes;
          correct_syntax = \<not> tree_has_error tree
      in do {
        results \<leftarrow> extract_unit_test_facts tree (kotlin_language Unit_test_query tree (root_node tree));
        let test_functions_count = length (filter is_test_function (function_facts results));
        Some [(''correct_syntax'', correct_syntax),
              (''has_all_required_imports'',
                 list_all (\<lambda>req_import. req_import \<in> set (import_paths results)) required_unit_test_imports),
              (''has_use_case_constructor'', ''GetFollowableTopicsUseCase'' \<in> set (constructors results)),
              (''has_exactly_two_test_functions'', test_functions_count = 2)]
      })"

definition required_topic_entity_import :: string where
  "required_topic_entity_import = ''com.google.samples.apps.nowinandroid.core.database.model.TopicEntity''"

definition validate_instrumentation_test_generation ::
  "parser \<Rightarrow> kotlin_query language \<Rightarrow> string \<Rightarrow> validations option" where
  "validate_instrumentation_test_generation kotlin_parser kotlin_language kt_bytes =
     (let tree = kotlin_parser kt_bytes;
          correct_syntax = \<not> tree_has_error tree
      in do {
        results \<leftarrow> extract_instrumentation_facts tree
                     (kotlin_language Instrumentation_query tree (root_node tree));
        let test_functions_count = length (filter is_test_function (function_facts results));
        Some [(''correct_syntax'', correct_syntax),
              (''has_topic_entity_import'', required_topic_entity_import \<in> set (import_paths results)),
              (''implements_database_test'',
                 list_ex (\<lambda>(name, parents). ''DatabaseTest'' \<in> set parents) (class_facts results)),
              (''has_at_least_5_tests'', 5 \<le> test_functions_count)]
      })"

subsection \<open>Diff validators\<close>

definition material_required_deletions :: "string list" where
  "material_required_deletions =
     [''colors = TopAppBarDefaults.centerAlignedTopAppBarColors('',
      ''colors: TopAppBarColors = TopAppBarDefaults.centerAlignedTopAppBarColors(),'']"

definition material_required_additions :: "string list" where
  "material_required_additions =
     [''colors = TopAppBarDefaults.topAppBarColors('',
      ''colors: TopAppBarColors = TopAppBarDefaults.topAppBarColors(),'']"

definition validate_material_diff :: "string \<Rightarrow> parser \<Rightarrow> query \<Rightarrow> validations" where
  "validate_material_diff diff_text diff_parser diff_query =
     (let tree = diff_parser diff_text;
          facts = extract_diff_facts tree (diff_query tree (root_node tree))
      in [(''correct_syntax'', \<not> tree_has_error tree),
          (''contains_all_deletions'', contains_all material_required_deletions (deletions facts)),
          (''contains_all_additions'', contains_all material_required_additions (additions facts))])"

definition plugin_required_deletions :: "string list" where
  "plugin_required_deletions =
     [''import org.jetbrains.kotlin.gradle.dsl.KotlinTopLevelExtension'',
      ''private inline fun <reified T : KotlinTopLevelExtension> Project.configureKotlin() = configure<T> {'']"

definition plugin_required_additions :: "string list" where
  "plugin_required_additions =
     [''import org.jetbrains.kotlin.gradle.dsl.KotlinBaseExtension'',
      ''private inline fun <reified T : KotlinBaseExtension> Project.configureKotlin() = configure<T> {'']"

definition validate_plugin_diff :: "string \<Rightarrow> parser \<Rightarrow> query \<Rightarrow> validations" where
  "validate_plugin_diff diff_text diff_parser diff_query =
     (let tree = diff_parser diff_text;
          facts = extract_diff_facts tree (diff_query tree (root_node tree))
      in [(''correct_syntax'', \<not> tree_has_error tree),
          (''contains_all_deletions'', contains_all plugin_required_deletions (deletions facts)),
          (''contains_all_additions'', contains_all plugin_required_additions (additions facts))])"

declare is_preview_composable_def [model_simps] is_test_function_def [model_simps]
  validate_preview_generation_def [model_simps] required_unit_test_imports_def [model_simps]
  validate_unit_test_generation_def [model_simps] required_topic_entity_import_def [model_simps]
  validate_instrumentation_test_generation_def [model_simps]
  material_required_deletions_def [model_simps] material_required_additions_def [model_simps]
  validate_material_diff_def [model_simps] plugin_required_deletions_def [model_simps]
  plugin_required_additions_def [model_simps] validate_plugin_diff_def [model_simps]

subsection \<open>The validators in terms of the captures\<close>

definition has_annotation :: "tree \<Rightarrow> string \<Rightarrow> node_id \<Rightarrow> bool" where
  "has_annotation t marker n =
     (case function_annotations t n of Some (Some anns) \<Rightarrow> list_ex (sublist marker) anns | _ \<Rightarrow> False)"

lemma fact_of_test: "fact_of t n f \<Longrightarrow> is_test_function f \<longleftrightarrow> has_annotation t ''@Test'' n"
  by (auto simp: fact_of_def is_test_function_def has_annotation_def list_ex_iff py_str_in_sublist)

lemma preview_fact_composable:
  "func_name f = ntext t n \<and> function_annotations t n = Some (Some (annotations f)) \<Longrightarrow>
     is_preview_composable f \<longleftrightarrow> has_annotation t ''@Preview'' n \<and> has_annotation t ''@Composable'' n"
  by (auto simp: is_preview_composable_def has_annotation_def list_ex_iff py_str_in_sublist)

lemma has_annotation_anchored: "has_annotation t m n \<Longrightarrow> function_annotations t n \<noteq> Some None"
  by (auto simp: has_annotation_def)

lemma preview_composable_exists:
  assumes "preview_functions t cs = Some fs"
  shows "(0 < length (filter is_preview_composable fs)) \<longleftrightarrow>
    (\<exists>n \<in> set (captured_nodes cs ''func_name''). has_annotation t ''@Preview'' n \<and> has_annotation t ''@Composable'' n)"
proof -
  let ?Q = "\<lambda>n. has_annotation t ''@Preview'' n \<and> has_annotation t ''@Composable'' n"
  have rel: "list_all2 (\<lambda>n f. func_name f = ntext t n \<and> function_annotations t n = Some (Some (annotations f)))
      (filter (\<lambda>n. function_annotations t n \<noteq> Some None) (captured_nodes cs ''func_name'')) fs"
    using preview_loop [OF assms [unfolded preview_functions_def]] by simp
  have "(\<exists>f \<in> set fs. is_preview_composable f) \<longleftrightarrow>
      (\<exists>n \<in> set (filter (\<lambda>n. function_annotations t n \<noteq> Some None) (captured_nodes cs ''func_name'')). ?Q n)"
    using rel by (rule list_all2_ex_iff) (rule preview_fact_composable)
  moreover have "(0 < length (filter is_preview_composable fs)) \<longleftrightarrow> (\<exists>f \<in> set fs. is_preview_composable f)"
    by (rule length_filter_pos_iff)
  ultimately show ?thesis by (auto dest: has_annotation_anchored)
qed

lemma test_count_eq:
  assumes "list_all2 (fact_of t) (captured_nodes cs ''func_name'') fs"
  shows "length (filter is_test_function fs) =
    length (filter (has_annotation t ''@Test'') (captured_nodes cs ''func_name''))"
  using assms by (rule list_all2_count_eq) (rule fact_of_test)

lemma list_all_mem_iff: "list_all (\<lambda>x. x \<in> set ys) xs \<longleftrightarrow> set xs \<subseteq> set ys"
  by (auto simp: list_all_iff)

lemma validate_unit_test_generation_eq:
  "validate_unit_test_generation p lang s =
     map_option (\<lambda>r. [(''correct_syntax'', \<not> tree_has_error (p s)),
        (''has_all_required_imports'', set required_unit_test_imports \<subseteq> set (import_paths r)),
        (''has_use_case_constructor'', ''GetFollowableTopicsUseCase'' \<in> set (constructors r)),
        (''has_exactly_two_test_functions'', length (filter is_test_function (function_facts r)) = 2)])
      (extract_unit_test_facts (p s) (lang Unit_test_query (p s) (root_node (p s))))"
  by (simp add: validate_unit_test_generation_def list_all_mem_iff Let_def split: Option.bind_split)

text \<open>
  C8. The unit-test validator, end to end: \<open>has_all_required_imports\<close> holds iff both
  required paths are texts of \<open>import_path\<close> captures, \<open>has_use_case_constructor\<close>
  iff some \<open>constructor_name\<close> capture reads \<open>GetFollowableTopicsUseCase\<close>, and
  \<open>has_exactly_two_test_functions\<close> iff exactly two \<open>func_name\<close> captures are
  attributed an annotation containing \<open>@Test\<close>; \<open>correct_syntax\<close> is the negated error
  flag of the root.
\<close>

theorem unit_test_validation_spec:
  assumes "validate_unit_test_generation p lang s = Some vs"
    and "t = p s" and "caps = lang Unit_test_query t (root_node t)"
  shows "vs = [(''correct_syntax'', \<not> tree_has_error t),
    (''has_all_required_imports'', set required_unit_test_imports \<subseteq> ntext t ` set (captured_nodes caps ''import_path'')),
    (''has_use_case_constructor'', ''GetFollowableTopicsUseCase'' \<in> ntext t ` set (captured_nodes caps ''constructor_name'')),
    (''has_exactly_two_test_functions'', length (filter (has_annotation t ''@Test'') (captured_nodes caps ''func_name'')) = 2)]"
proof -
  from assms obtain r where r: "extract_unit_test_facts t caps = Some r"
    and vs: "vs = [(''correct_syntax'', \<not> tree_has_error t),
        (''has_all_required_imports'', set required_unit_test_imports \<subseteq> set (import_paths r)),
        (''has_use_case_constructor'', ''GetFollowableTopicsUseCase'' \<in> set (constructors r)),
        (''has_exactly_two_test_functions'', length (filter is_test_function (function_facts r)) = 2)]"
    by (auto simp: validate_unit_test_generation_eq)
  from unit_test_loop [OF r [unfolded extract_unit_test_facts_def]]
  have "import_paths r = map (ntext t) (captured_nodes caps ''import_path'')"
    and "constructors r = map (ntext t) (captured_nodes caps ''constructor_name'')"
    and "list_all2 (fact_of t) (captured_nodes caps ''func_name'') (function_facts r)"
    by simp_all
  with vs show ?thesis by (simp add: test_count_eq)
qed

lemma distinct_map_of_ex:
  assumes "distinct (map fst cs)"
  shows "(\<exists>k ps. map_of cs k = Some ps \<and> P ps) \<longleftrightarrow> list_ex (\<lambda>(k, ps). P ps) cs"
  using assms by (auto simp: list_ex_iff dest: map_of_SomeD intro: map_of_is_SomeI)

lemma validate_instrumentation_test_generation_eq:
  "validate_instrumentation_test_generation p lang s =
     map_option (\<lambda>r. [(''correct_syntax'', \<not> tree_has_error (p s)),
        (''has_topic_entity_import'', required_topic_entity_import \<in> set (import_paths r)),
        (''implements_database_test'', list_ex (\<lambda>(name, parents). ''DatabaseTest'' \<in> set parents) (class_facts r)),
        (''has_at_least_5_tests'', 5 \<le> length (filter is_test_function (function_facts r)))])
      (extract_instrumentation_facts (p s) (lang Instrumentation_query (p s) (root_node (p s))))"
  by (simp add: validate_instrumentation_test_generation_def Let_def split: Option.bind_split)

text \<open>
  C9. The instrumentation validator, end to end: \<open>has_topic_entity_import\<close> holds iff
  the required path is the text of an \<open>import_path\<close> capture,
  \<open>implements_database_test\<close> iff some class of the class dictionary (read as a map) has
  \<open>DatabaseTest\<close> among its parents, and \<open>has_at_least_5_tests\<close> iff at least five
  \<open>func_name\<close> captures are attributed an annotation containing \<open>@Test\<close>.
\<close>

theorem instrumentation_validation_spec:
  assumes "validate_instrumentation_test_generation p lang s = Some vs"
    and "t = p s" and "caps = lang Instrumentation_query t (root_node t)"
  shows "\<exists>r. extract_instrumentation_facts t caps = Some r \<and>
    vs = [(''correct_syntax'', \<not> tree_has_error t),
      (''has_topic_entity_import'', required_topic_entity_import \<in> ntext t ` set (captured_nodes caps ''import_path'')),
      (''implements_database_test'', \<exists>k ps. map_of (class_facts r) k = Some ps \<and> ''DatabaseTest'' \<in> set ps),
      (''has_at_least_5_tests'', 5 \<le> length (filter (has_annotation t ''@Test'') (captured_nodes caps ''func_name'')))]"
proof -
  from assms obtain r where r: "extract_instrumentation_facts t caps = Some r"
    and vs: "vs = [(''correct_syntax'', \<not> tree_has_error t),
        (''has_topic_entity_import'', required_topic_entity_import \<in> set (import_paths r)),
        (''implements_database_test'', list_ex (\<lambda>(name, parents). ''DatabaseTest'' \<in> set parents) (class_facts r)),
        (''has_at_least_5_tests'', 5 \<le> length (filter is_test_function (function_facts r)))]"
    by (auto simp: validate_instrumentation_test_generation_eq)
  from instrumentation_loop [OF r [unfolded extract_instrumentation_facts_def]]
  have imps: "import_paths r = map (ntext t) (captured_nodes caps ''import_path'')"
    and fs: "\<exists>fs. function_facts r = fs \<and> list_all2 (fact_of t) (captured_nodes caps ''func_name'') fs"
    and keys: "distinct (map fst (class_facts r))"
    by simp_all
  from fs have "length (filter is_test_function (function_facts r)) =
      length (filter (has_annotation t ''@Test'') (captured_nodes caps ''func_name''))"
    by (auto simp: test_count_eq)
  with r vs imps distinct_map_of_ex [OF keys] show ?thesis by auto
qed

lemma validate_preview_generation_eq:
  "validate_preview_generation p lang s =
     map_option (\<lambda>fs. [(''correct_syntax'', \<not> tree_has_error (p s)),
        (''has_preview_and_composable'', 0 < length (filter is_preview_composable fs))])
      (preview_functions (p s) (lang Preview_query (p s) (root_node (p s))))"
  by (simp add: validate_preview_generation_def Let_def split: Option.bind_split)

text \<open>
  C10. The preview validator, end to end: \<open>has_preview_and_composable\<close> holds iff one
  \<open>func_name\<close> capture is attributed both an annotation containing \<open>@Preview\<close> and an
  annotation containing \<open>@Composable\<close> (the same function carries both).
\<close>

theorem preview_validation_spec:
  assumes "validate_preview_generation p lang s = Some vs"
    and "t = p s" and "caps = lang Preview_query t (root_node t)"
  shows "vs = [(''correct_syntax'', \<not> tree_has_error t),
    (''has_preview_and_composable'', \<exists>n \<in> set (captured_nodes caps ''func_name'').
        has_annotation t ''@Preview'' n \<and> has_annotation t ''@Composable'' n)]"
proof -
  from assms obtain fs where fs: "preview_functions t caps = Some fs"
    and vs: "vs = [(''correct_syntax'', \<not> tree_has_error t),
        (''has_preview_and_composable'', 0 < length (filter is_preview_composable fs))]"
    by (auto simp: validate_preview_generation_eq)
  with preview_composable_exists [OF fs] show ?thesis by simp
qed

lemma kotlin_validators_total:
  assumes "wf_tree (p s)"
  shows "validate_preview_generation p lang s \<noteq> None \<and> validate_unit_test_generation p lang s \<noteq> None \<and>
    validate_instrumentation_test_generation p lang s \<noteq> None"
  using preview_functions_total [OF assms] extract_unit_test_facts_total [OF assms]
    extract_instrumentation_facts_total [OF assms]
  by (auto simp: validate_preview_generation_eq validate_unit_test_generation_eq
      validate_instrumentation_test_generation_eq)

text \<open>
  C11. Totality of the evaluator: on a well-formed tree every Kotlin validator returns, and
  each validator returns exactly its task's fixed list of validation names, in order,
  whatever the captures and whether or not the tree has syntax errors.
\<close>

theorem validators_total_names:
  assumes "wf_tree (p s)"
  shows "map_option (map fst) (validate_preview_generation p lang s) =
      Some [''correct_syntax'', ''has_preview_and_composable''] \<and>
    map_option (map fst) (validate_unit_test_generation p lang s) =
      Some [''correct_syntax'', ''has_all_required_imports'', ''has_use_case_constructor'',
            ''has_exactly_two_test_functions''] \<and>
    map_option (map fst) (validate_instrumentation_test_generation p lang s) =
      Some [''correct_syntax'', ''has_topic_entity_import'', ''implements_database_test'',
            ''has_at_least_5_tests''] \<and>
    map fst (validate_material_diff s p q) =
      [''correct_syntax'', ''contains_all_deletions'', ''contains_all_additions''] \<and>
    map fst (validate_plugin_diff s p q) =
      [''correct_syntax'', ''contains_all_deletions'', ''contains_all_additions'']"
proof (intro conjI)
  obtain fs where "preview_functions (p s) (lang Preview_query (p s) (root_node (p s))) = Some fs"
    using preview_functions_total [OF assms] by blast
  then show "map_option (map fst) (validate_preview_generation p lang s) =
      Some [''correct_syntax'', ''has_preview_and_composable'']"
    by (simp add: validate_preview_generation_eq)
  obtain r where "extract_unit_test_facts (p s) (lang Unit_test_query (p s) (root_node (p s))) = Some r"
    using extract_unit_test_facts_total [OF assms] by blast
  then show "map_option (map fst) (validate_unit_test_generation p lang s) =
      Some [''correct_syntax'', ''has_all_required_imports'', ''has_use_case_constructor'',
            ''has_exactly_two_test_functions'']"
    by (simp add: validate_unit_test_generation_eq)
  obtain r' where "extract_instrumentation_facts (p s)
      (lang Instrumentation_query (p s) (root_node (p s))) = Some r'"
    using extract_instrumentation_facts_total [OF assms] by blast
  then show "map_option (map fst) (validate_instrumentation_test_generation p lang s) =
      Some [''correct_syntax'', ''has_topic_entity_import'', ''implements_database_test'',
            ''has_at_least_5_tests'']"
    by (simp add: validate_instrumentation_test_generation_eq)
qed (simp_all add: validate_material_diff_def validate_plugin_diff_def Let_def)

text \<open>
  C12. The diff validators, end to end: \<open>contains_all_deletions\<close> holds iff every required
  deletion is a contiguous substring of the stripped content of some \<open>deletion\<close> capture,
  and likewise for additions; substring rather than whole-line matching.
\<close>

theorem diff_validation_spec:
  assumes "t = p d" and "caps = q t (root_node t)"
  shows "validate_material_diff d p q = [(''correct_syntax'', \<not> tree_has_error t),
      (''contains_all_deletions'', \<forall>req \<in> set material_required_deletions.
          \<exists>n \<in> set (captured_nodes caps ''deletion''). sublist req (diff_line_content (ntext t n))),
      (''contains_all_additions'', \<forall>req \<in> set material_required_additions.
          \<exists>n \<in> set (captured_nodes caps ''addition''). sublist req (diff_line_content (ntext t n)))] \<and>
    validate_plugin_diff d p q = [(''correct_syntax'', \<not> tree_has_error t),
      (''contains_all_deletions'', \<forall>req \<in> set plugin_required_deletions.
          \<exists>n \<in> set (captured_nodes caps ''deletion''). sublist req (diff_line_content (ntext t n))),
      (''contains_all_additions'', \<forall>req \<in> set plugin_required_additions.
          \<exists>n \<in> set (captured_nodes caps ''addition''). sublist req (diff_line_content (ntext t n)))]"
  using assms
  by (simp add: validate_material_diff_def validate_plugin_diff_def Let_def extract_diff_facts_eq
      contains_all_iff)

subsection \<open>Concrete trees for the scenarios of the specification\<close>

text \<open>
  Two functions \<open>@Preview fun A()\<close> and \<open>@Composable fun B()\<close>: the two annotations
  are on different declarations.
\<close>

definition two_fun_tree :: tree where
  "two_fun_tree = \<lparr>nodes = [
     \<lparr>node_type = ''source_file'', node_text = [], node_parent = None, node_children = [1, 5],
      node_has_error = False\<rparr>,
     \<lparr>node_type = ''function_declaration'', node_text = [], node_parent = Some 0,
      node_children = [2, 4], node_has_error = False\<rparr>,
     \<lparr>node_type = ''modifiers'', node_text = [], node_parent = Some 1, node_children = [3],
      node_has_error = False\<rparr>,
     \<lparr>node_type = ''annotation'', node_text = ''@Preview'', node_parent = Some 2,
      node_children = [], node_has_error = False\<rparr>,
     \<lparr>node_type = ''simple_identifier'', node_text = ''A'', node_parent = Some 1,
      node_children = [], node_has_error = False\<rparr>,
     \<lparr>node_type = ''function_declaration'', node_text = [], node_parent = Some 0,
      node_children = [6, 8], node_has_error = False\<rparr>,
     \<lparr>node_type = ''modifiers'', node_text = [], node_parent = Some 5, node_children = [7],
      node_has_error = False\<rparr>,
     \<lparr>node_type = ''annotation'', node_text = ''@Composable'', node_parent = Some 6,
      node_children = [], node_has_error = False\<rparr>,
     \<lparr>node_type = ''simple_identifier'', node_text = ''B'', node_parent = Some 5,
      node_children = [], node_has_error = False\<rparr>],
   root_node = 0\<rparr>"

text \<open>
  A test file with both required imports (nodes 2 and 4) and two \<open>@Test\<close> functions
  (names at nodes 8 and 12), but no \<open>GetFollowableTopicsUseCase()\<close> property.
\<close>

definition unit_tree :: tree where
  "unit_tree = \<lparr>nodes = [
     \<lparr>node_type = ''source_file'', node_text = [], node_parent = None,
      node_children = [1, 3, 5, 9], node_has_error = False\<rparr>,
     \<lparr>node_type = ''import_header'', node_text = [], node_parent = Some 0, node_children = [2],
      node_has_error = False\<rparr>,
     \<lparr>node_type = ''identifier'',
      node_text = ''com.google.samples.apps.nowinandroid.core.model.data.FollowableTopic'',
      node_parent = Some 1, node_children = [], node_has_error = False\<rparr>,
     \<lparr>node_type = ''import_header'', node_text = [], node_parent = Some 0, node_children = [4],
      node_has_error = False\<rparr>,
     \<lparr>node_type = ''identifier'', node_text = ''com.google.samples.apps.nowinandroid.core.model.data.Topic'',
      node_parent = Some 3, node_children = [], node_has_error = False\<rparr>,
     \<lparr>node_type = ''function_declaration'', node_text = [], node_parent = Some 0,
      node_children = [6, 8], node_has_error = False\<rparr>,
     \<lparr>node_type = ''modifiers'', node_text = [], node_parent = Some 5, node_children = [7],
      node_has_error = False\<rparr>,
     \<lparr>node_type = ''annotation'', node_text = ''@Test'', node_parent = Some 6, node_children = [],
      node_has_error = False\<rparr>,
     \<lparr>node_type = ''simple_identifier'', node_text = ''first'', node_parent = Some 5,
      node_children = [], node_has_error = False\<rparr>,
     \<lparr>node_type = ''function_declaration'', node_text = [], node_parent = Some 0,
      node_children = [10, 12], node_has_error = False\<rparr>,
     \<lparr>node_type = ''modifiers'', node_text = [], node_parent = Some 9, node_children = [11],
      node_has_error = False\<rparr>,
     \<lparr>node_type = ''annotation'', node_text = ''@Test'', node_parent = Some 10, node_children = [],
      node_has_error = False\<rparr>,
     \<lparr>node_type = ''simple_identifier'', node_text = ''second'', node_parent = Some 9,
      node_children = [], node_has_error = False\<rparr>],
   root_node = 0\<rparr>"

definition unit_caps :: "capture list" where
  "unit_caps = [(2, ''import_path''), (4, ''import_path''), (8, ''func_name''), (12, ''func_name'')]"

text \<open>A material diff whose lines carry indentation and trailing text around the required ones.\<close>

definition material_diff_tree :: tree where
  "material_diff_tree = \<lparr>nodes = [
     \<lparr>node_type = ''source'', node_text = [], node_parent = None, node_children = [1, 2, 3, 4],
      node_has_error = False\<rparr>,
     \<lparr>node_type = ''deletion'', node_text = ''-    colors = TopAppBarDefaults.centerAlignedTopAppBarColors('',
      node_parent = Some 0, node_children = [], node_has_error = False\<rparr>,
     \<lparr>node_type = ''deletion'',
      node_text = ''-  colors: TopAppBarColors = TopAppBarDefaults.centerAlignedTopAppBarColors(), // old'',
      node_parent = Some 0, node_children = [], node_has_error = False\<rparr>,
     \<lparr>node_type = ''addition'', node_text = ''+    colors = TopAppBarDefaults.topAppBarColors('',
      node_parent = Some 0, node_children = [], node_has_error = False\<rparr>,
     \<lparr>node_type = ''addition'', node_text = ''+  colors: TopAppBarColors = TopAppBarDefaults.topAppBarColors(),'',
      node_parent = Some 0, node_children = [], node_has_error = False\<rparr>],
   root_node = 0\<rparr>"

definition material_caps :: "capture list" where
  "material_caps = [(1, ''deletion''), (2, ''deletion''), (3, ''addition''), (4, ''addition'')]"

lemma unit_tree_validations:
  "validate_unit_test_generation (\<lambda>_. unit_tree) (\<lambda>_ _ _. unit_caps) s =
     Some [(''correct_syntax'', True), (''has_all_required_imports'', True),
           (''has_use_case_constructor'', False), (''has_exactly_two_test_functions'', True)]"
  by (simp add: unit_tree_def unit_caps_def model_simps find_anchor_Some inherit_annotations_Some)

lemma two_fun_validations:
  "validate_preview_generation (\<lambda>_. two_fun_tree) (\<lambda>_ _ _. [(4, ''func_name''), (8, ''func_name'')]) s =
     Some [(''correct_syntax'', True), (''has_preview_and_composable'', False)]"
  by (simp add: two_fun_tree_def model_simps find_anchor_Some inherit_annotations_Some)

lemma class_tree_validations:
  "validate_instrumentation_test_generation (\<lambda>_. class_tree)
     (\<lambda>_ _ _. [(2, ''class_name''), (6, ''parent_class'')]) s =
   Some [(''correct_syntax'', True), (''has_topic_entity_import'', False),
         (''implements_database_test'', True), (''has_at_least_5_tests'', False)]"
  by (simp add: class_tree_def model_simps walk_up_Some)


lemma unit_tree_wf: "wf_tree unit_tree"
  by (simp add: unit_tree_def model_simps enumerate_eq_zip)

theorem unit_test_validation_spec_witness:
  "[(''correct_syntax'', True), (''has_all_required_imports'', True),
    (''has_use_case_constructor'', False), (''has_exactly_two_test_functions'', True)] =
   [(''correct_syntax'', \<not> tree_has_error unit_tree),
    (''has_all_required_imports'',
       set required_unit_test_imports \<subseteq> ntext unit_tree ` set (captured_nodes unit_caps ''import_path'')),
    (''has_use_case_constructor'',
       ''GetFollowableTopicsUseCase'' \<in> ntext unit_tree ` set (captured_nodes unit_caps ''constructor_name'')),
    (''has_exactly_two_test_functions'',
       length (filter (has_annotation unit_tree ''@Test'') (captured_nodes unit_caps ''func_name'')) = 2)]"
  by (rule unit_test_validation_spec [OF unit_tree_validations refl refl])

theorem instrumentation_validation_spec_witness:
  "\<exists>r. extract_instrumentation_facts class_tree [(2, ''class_name''), (6, ''parent_class'')] = Some r \<and>
    [(''correct_syntax'', True), (''has_topic_entity_import'', False),
     (''implements_database_test'', True), (''has_at_least_5_tests'', False)] =
    [(''correct_syntax'', \<not> tree_has_error class_tree),
     (''has_topic_entity_import'', required_topic_entity_import \<in>
        ntext class_tree ` set (captured_nodes [(2, ''class_name''), (6, ''parent_class'')] ''import_path'')),
     (''implements_database_test'', \<exists>k ps. map_of (class_facts r) k = Some ps \<and> ''DatabaseTest'' \<in> set ps),
     (''has_at_least_5_tests'', 5 \<le> length (filter (has_annotation class_tree ''@Test'')
        (captured_nodes [(2, ''class_name''), (6, ''parent_class'')] ''func_name'')))]"
  by (rule instrumentation_validation_spec [OF class_tree_validations refl refl])

theorem preview_validation_spec_witness:
  "[(''correct_syntax'', True), (''has_preview_and_composable'', False)] =
   [(''correct_syntax'', \<not> tree_has_error two_fun_tree),
    (''has_preview_and_composable'', \<exists>n \<in> set (captured_nodes [(4, ''func_name''), (8, ''func_name'')] ''func_name'').
        has_annotation two_fun_tree ''@Preview'' n \<and> has_annotation two_fun_tree ''@Composable'' n)]"
  by (rule preview_validation_spec [OF two_fun_validations refl refl])

theorem validators_total_names_witness:
  "wf_tree unit_tree \<and>
   map_option (map fst) (validate_unit_test_generation (\<lambda>_. unit_tree) (\<lambda>_ _ _. unit_caps) []) =
     Some [''correct_syntax'', ''has_all_required_imports'', ''has_use_case_constructor'',
           ''has_exactly_two_test_functions'']"
  using validators_total_names [of "\<lambda>_. unit_tree" "[]" "\<lambda>_ _ _. unit_caps" "\<lambda>_ _. []"] unit_tree_wf
  by simp

theorem diff_validation_spec_witness:
  "validate_material_diff [] (\<lambda>_. material_diff_tree) (\<lambda>_ _. material_caps) =
     [(''correct_syntax'', True), (''contains_all_deletions'', True), (''contains_all_additions'', True)]"
  by (simp add: diff_validation_spec [OF refl refl] material_diff_tree_def material_caps_def
      material_required_deletions_def material_required_additions_def model_simps)

text \<open>
  The specification's preview scenarios: \<open>@Composable @Preview\<close> on one
  expression-style declaration gives \<open>has_preview_and_composable = true\<close>; the same two
  annotations on two different functions give \<open>false\<close>.
\<close>

lemma preview_scenarios:
  "validate_preview_generation (\<lambda>_. expr_preview_tree) (\<lambda>_ _ _. [(8, ''func_name'')]) s =
     Some [(''correct_syntax'', True), (''has_preview_and_composable'', True)] \<and>
   validate_preview_generation (\<lambda>_. two_fun_tree) (\<lambda>_ _ _. [(4, ''func_name''), (8, ''func_name'')]) s =
     Some [(''correct_syntax'', True), (''has_preview_and_composable'', False)]"
  using two_fun_validations
  by (simp add: expr_preview_tree_def model_simps find_anchor_Some inherit_annotations_Some)

text \<open>
  Substring tolerance, the specification's scenario: deletion and addition lines with
  leading indentation and trailing text still satisfy the material diff's required lines.
\<close>

lemma material_substring_scenario:
  "validate_material_diff s (\<lambda>_. material_diff_tree) (\<lambda>_ _. material_caps) =
     [(''correct_syntax'', True), (''contains_all_deletions'', True), (''contains_all_additions'', True)]"
  by (simp add: material_diff_tree_def material_caps_def model_simps)

end
