(* ===== verification/Dispatch.thy ===== *)
theory Dispatch
  imports Validators
begin

text \<open>
  The artifact dispatcher of \<^verbatim>\<open>src/run_validation.py\<close>: \<open>process_diff_file\<close>
  (lines 357--375) and \<open>process_kotlin_file\<close> (lines 378--398) select a validator by the
  task string, and the body of the \<open>try\<close> block of \<open>process_all_files\<close> (lines
  429--443) selects the task family from the two membership lists of line 419--420, reads
  the file and calls them. Exceptions are values of \<open>py_error\<close>; the outcome of one
  item is an \<open>item_result\<close>: skipped (the \<open>continue\<close> of an unknown task), raised, or
  validated. The file system, parsers and queries are the fields of an \<open>environment\<close>.
\<close>

definition process_diff_file :: "string \<Rightarrow> string \<Rightarrow> parser \<Rightarrow> query \<Rightarrow> py_error + validations" where
  "process_diff_file diff_text task diff_parser diff_query =
     (if task = ''test4-deprecated-material'' then Inr (validate_material_diff diff_text diff_parser diff_query)
      else if task = ''test5-deprecated-plugin'' then Inr (validate_plugin_diff diff_text diff_parser diff_query)
      else Inl (ValueError (''Unknown diff task: '' @ task)))"

definition process_kotlin_file ::
  "string \<Rightarrow> string \<Rightarrow> parser \<Rightarrow> kotlin_query language \<Rightarrow> (py_error + validations) option" where
  "process_kotlin_file kt_bytes task kotlin_parser kotlin_language =
     (if task = ''test1-preview'' then
        map_option Inr (validate_preview_generation kotlin_parser kotlin_language kt_bytes)
      else if task = ''test2-unit-test'' then
        map_option Inr (validate_unit_test_generation kotlin_parser kotlin_language kt_bytes)
      else if task = ''test3-instrumentation-test'' then
        map_option Inr (validate_instrumentation_test_generation kotlin_parser kotlin_language kt_bytes)
      else Some (Inl (ValueError (''Unknown Kotlin task: '' @ task))))"

text \<open>The task-family lists of \<open>process_all_files\<close>, as written in the source.\<close>

definition kotlin_tasks :: "string list" where
  "kotlin_tasks = [''test1-preview'', ''test1-unit-test'', ''test3-instrumentation_test'']"

definition diff_tasks :: "string list" where
  "diff_tasks = [''test4-deprecated-material'', ''test5-deprecated-plugin'']"

text \<open>One manifest entry: the model name is \<open>None\<close> for a JSON \<open>null\<close> and otherwise
  its \<open>str\<close>; the task is its \<open>str\<close>; the path is \<open>str(Path(...))\<close>, the normalised
  path the file is opened with and printed as.\<close>

record file_mapping =
  mapping_model_name :: "string option"
  mapping_task :: string
  file_path :: string

text \<open>
  The arguments of \<open>process_all_files\<close> that the loop body reads, and the file system:
  \<open>read_file path\<close> is the content of \<open>Path(path).read_text()\<close> (equally
  \<open>read_bytes()\<close>), or the exception reading raises.
\<close>

record environment =
  read_file :: "string \<Rightarrow> py_error + string"
  kotlin_parser :: parser
  kotlin_language :: "kotlin_query language"
  diff_parser :: "parser option"
  diff_query :: "query option"

datatype item_result = Skipped | Raised py_error | Validated validations

definition of_outcome :: "py_error + validations \<Rightarrow> item_result" where
  "of_outcome r = (case r of Inl e \<Rightarrow> Raised e | Inr v \<Rightarrow> Validated v)"

definition diff_parsers_missing :: py_error where
  "diff_parsers_missing = ValueError ''diff_parser and diff_query are required for diff tasks''"

text \<open>The \<open>try\<close> block for one mapping (lines 423--443); \<open>None\<close>: a validator ran forever.\<close>

definition run_item :: "environment \<Rightarrow> file_mapping \<Rightarrow> item_result option" where
  "run_item env mapping =
     (let task = mapping_task mapping; path = file_path mapping in
      if task \<in> set diff_tasks then
        (case (diff_parser env, diff_query env) of
           (Some p, Some q) \<Rightarrow>
             (case read_file env path of
                Inl e \<Rightarrow> Some (Raised e)
              | Inr diff_text \<Rightarrow> Some (of_outcome (process_diff_file diff_text task p q)))
         | _ \<Rightarrow> Some (Raised diff_parsers_missing))
      else if task \<in> set kotlin_tasks then
        (case read_file env path of
           Inl e \<Rightarrow> Some (Raised e)
         | Inr kt_bytes \<Rightarrow>
             map_option of_outcome
               (process_kotlin_file kt_bytes task (kotlin_parser env) (kotlin_language env)))
      else Some Skipped)"

declare process_diff_file_def [model_simps] process_kotlin_file_def [model_simps]
  kotlin_tasks_def [model_simps] diff_tasks_def [model_simps] of_outcome_def [model_simps]
  diff_parsers_missing_def [model_simps] run_item_def [model_simps]

subsection \<open>Which task strings reach which validator\<close>

text \<open>
  The unit-test and instrumentation tasks are never validated by the batch: an item
  whose task is \<open>test2-unit-test\<close> or \<open>test3-instrumentation-test\<close> (the names
  \<open>process_kotlin_file\<close> dispatches on) is in neither family list of
  \<open>process_all_files\<close>, so it is skipped whatever the environment and the file.
\<close>

lemma dispatched_tasks_skipped:
  "run_item env (m\<lparr>mapping_task := ''test2-unit-test''\<rparr>) = Some Skipped \<and>
   run_item env (m\<lparr>mapping_task := ''test3-instrumentation-test''\<rparr>) = Some Skipped"
  by (simp add: run_item_def kotlin_tasks_def diff_tasks_def)

text \<open>
  C14. For an item of the Kotlin family whose file is readable, only \<open>test1-preview\<close>
  reaches a validator; the two other names of the family list, \<open>test1-unit-test\<close> and
  \<open>test3-instrumentation_test\<close>, are rejected by \<open>process_kotlin_file\<close> with
  \<open>ValueError("Unknown Kotlin task: ...")\<close>.
\<close>

theorem kotlin_family_outcome:
  assumes "read_file env (file_path m) = Inr s" and "mapping_task m \<in> set kotlin_tasks"
  shows "run_item env m =
    (if mapping_task m = ''test1-preview''
     then map_option Validated (validate_preview_generation (kotlin_parser env) (kotlin_language env) s)
     else Some (Raised (ValueError (''Unknown Kotlin task: '' @ mapping_task m))))"
  using assms
  by (auto simp: run_item_def process_kotlin_file_def of_outcome_def kotlin_tasks_def diff_tasks_def
      option.map_comp comp_def)

text \<open>
  C15. A missing diff collaborator fails only the item: a diff-family item processed
  without a diff parser or without a diff query raises the \<open>ValueError\<close> of line 432
  inside the \<open>try\<close> block, which the batch records as an error row, whereas the
  specification calls it a configuration error fatal to the run.
\<close>

theorem missing_diff_collaborator_raises:
  assumes "mapping_task m \<in> set diff_tasks" and "diff_parser env = None \<or> diff_query env = None"
  shows "run_item env m = Some (Raised (ValueError ''diff_parser and diff_query are required for diff tasks''))"
  using assms by (auto simp: run_item_def diff_parsers_missing_def split: option.splits)

lemma run_item_read_error:
  assumes "read_file env (file_path m) = Inl e"
    and "mapping_task m \<in> set kotlin_tasks \<or>
         (mapping_task m \<in> set diff_tasks \<and> diff_parser env \<noteq> None \<and> diff_query env \<noteq> None)"
  shows "run_item env m = Some (Raised e)"
  using assms by (auto simp: run_item_def kotlin_tasks_def diff_tasks_def split: option.splits)

lemma process_kotlin_file_total:
  assumes "wf_tree (p s)"
  shows "process_kotlin_file s task p lang \<noteq> None"
  using kotlin_validators_total [of p s lang] assms by (simp add: process_kotlin_file_def)

lemma run_item_total:
  assumes "\<And>s. wf_tree (kotlin_parser env s)"
  shows "run_item env m \<noteq> None"
proof -
  have "\<exists>z. process_kotlin_file s task (kotlin_parser env) (kotlin_language env) = Some z" for s task
    using process_kotlin_file_total [of "kotlin_parser env" s task "kotlin_language env"] assms by blast
  then show ?thesis
    unfolding run_item_def Let_def by (auto split: option.splits sum.splits prod.splits)
qed

lemma of_outcome_not_Skipped [simp]: "of_outcome r \<noteq> Skipped"
  by (cases r) (simp_all add: of_outcome_def)

lemma run_item_skipped:
  "run_item env m = Some Skipped \<longleftrightarrow> mapping_task m \<notin> set diff_tasks \<and> mapping_task m \<notin> set kotlin_tasks"
  unfolding run_item_def Let_def
  by (auto split: option.splits sum.splits prod.splits)

text \<open>An environment with a readable file, a Kotlin parser and no diff collaborators.\<close>

definition sample_env :: environment where
  "sample_env = \<lparr>read_file = \<lambda>_. Inr ''@Composable @Preview fun Greeting() {}'',
     kotlin_parser = \<lambda>_. expr_preview_tree, kotlin_language = \<lambda>_ _ _. [(8, ''func_name'')],
     diff_parser = None, diff_query = None\<rparr>"

definition sample_mapping :: file_mapping where
  "sample_mapping = \<lparr>mapping_model_name = Some ''model-a'', mapping_task = ''test1-unit-test'',
     file_path = ''out/model-a/UnitTest.kt''\<rparr>"

theorem kotlin_family_outcome_witness:
  "run_item sample_env sample_mapping = Some (Raised (ValueError ''Unknown Kotlin task: test1-unit-test''))"
  using kotlin_family_outcome [of sample_env sample_mapping "''@Composable @Preview fun Greeting() {}''"]
  by (simp add: sample_env_def sample_mapping_def kotlin_tasks_def)

theorem missing_diff_collaborator_raises_witness:
  "run_item sample_env (sample_mapping\<lparr>mapping_task := ''test4-deprecated-material''\<rparr>) =
     Some (Raised (ValueError ''diff_parser and diff_query are required for diff tasks''))"
  by (rule missing_diff_collaborator_raises) (simp_all add: sample_env_def diff_tasks_def)

end
