(* ===== verification/Batch.thy ===== *)
theory Batch
  imports Dispatch "HOL-Library.Multiset"
begin

text \<open>
  The batch reporter \<open>process_all_files\<close> of \<^verbatim>\<open>src/run_validation.py\<close> (lines
  401--484): the loop over the file mappings appends one report row per item whose task
  is in a family list (an error row when the \<open>try\<close> block raised), skips the others
  (\<open>continue\<close>), then creates the output directory and writes the CSV. The loop is a
  \<open>fold_option\<close> over the mappings; the directory step is \<open>os.makedirs\<close> applied to
  \<open>os.path.dirname(output_csv)\<close>, both written out as Python defines them. Writing the
  CSV file is not modelled: the function returns the rows it would write.
\<close>

record report_row =
  model_name :: "string option"
  task :: string
  is_valid :: bool
  success_validation_count :: nat
  failed_validation_count :: nat
  success_validation_list :: string
  failed_validation_list :: string

text \<open>The row of an item whose validations were computed (lines 445--458).\<close>

definition validation_row :: "file_mapping \<Rightarrow> validations \<Rightarrow> report_row" where
  "validation_row mapping validations =
     (let success_validations = map fst (filter snd validations);
          failed_validations = map fst (filter (\<lambda>kv. \<not> snd kv) validations)
      in \<lparr>model_name = mapping_model_name mapping, task = mapping_task mapping,
          is_valid = (length failed_validations = 0),
          success_validation_count = length success_validations,
          failed_validation_count = length failed_validations,
          success_validation_list =
            (if success_validations \<noteq> [] then py_join '', '' success_validations else ''None''),
          failed_validation_list =
            (if failed_validations \<noteq> [] then py_join '', '' failed_validations else ''None'')\<rparr>)"

text \<open>The row of an item whose \<open>try\<close> block raised (lines 460--470).\<close>

definition error_row :: "file_mapping \<Rightarrow> py_error \<Rightarrow> report_row" where
  "error_row mapping e =
     \<lparr>model_name = mapping_model_name mapping, task = mapping_task mapping, is_valid = False,
      success_validation_count = 0, failed_validation_count = 0,
      success_validation_list = ''None'', failed_validation_list = ''Error: '' @ py_str e\<rparr>"

definition record_item :: "file_mapping \<Rightarrow> item_result \<Rightarrow> report_row list \<Rightarrow> report_row list" where
  "record_item mapping r results =
     (case r of
        Skipped \<Rightarrow> results
      | Raised e \<Rightarrow> results @ [error_row mapping e]
      | Validated v \<Rightarrow> results @ [validation_row mapping v])"

text \<open>\<open>for mapping in file_mappings: ...\<close> (lines 417--470).\<close>

definition process_items :: "environment \<Rightarrow> file_mapping list \<Rightarrow> report_row list option" where
  "process_items env file_mappings =
     fold_option (\<lambda>results mapping. map_option (\<lambda>r. record_item mapping r results) (run_item env mapping))
       file_mappings []"

text \<open>
  \<open>posixpath.dirname\<close>: the part of the path up to its last \<open>/\<close>, with trailing
  slashes removed unless it consists of slashes only.
\<close>

definition os_path_dirname :: "string \<Rightarrow> string" where
  "os_path_dirname p =
     (let i = length p - length (takeWhile (\<lambda>c. c \<noteq> CHR ''/'') (rev p));
          head = take i p
      in if head \<noteq> [] \<and> head \<noteq> replicate (length head) (CHR ''/'')
         then rev (dropWhile (\<lambda>c. c = CHR ''/'') (rev head)) else head)"

text \<open>
  \<open>os.makedirs(name, exist_ok=True)\<close>: the empty name raises
  \<open>FileNotFoundError: [Errno 2] No such file or directory: ''\<close>; any other directory is
  created or already exists (failures of the file system are not modelled).
\<close>

definition os_makedirs :: "string \<Rightarrow> py_error + unit" where
  "os_makedirs name =
     (if name = [] then Inl (OSError (''[Errno 2] No such file or directory: '' @ [CHR 0x27, CHR 0x27]))
      else Inr ())"

text \<open>After the loop: \<open>os.makedirs(os.path.dirname(output_csv), exist_ok=True)\<close>, then the
  rows are written and returned (line 472--484).\<close>

definition write_output :: "string \<Rightarrow> report_row list \<Rightarrow> py_error + report_row list" where
  "write_output output_csv results =
     (case os_makedirs (os_path_dirname output_csv) of Inl e \<Rightarrow> Inl e | Inr _ \<Rightarrow> Inr results)"

definition process_all_files :: "environment \<Rightarrow> file_mapping list \<Rightarrow> string \<Rightarrow> (py_error + report_row list) option" where
  "process_all_files env file_mappings output_csv = do {
     results \<leftarrow> process_items env file_mappings;
     Some (write_output output_csv results) }"

text \<open>The default of the \<open>output_csv\<close> parameter and of the \<open>--output\<close> option.\<close>

definition default_output_csv :: string where
  "default_output_csv = ''validation_results.csv''"

declare validation_row_def [model_simps] error_row_def [model_simps] record_item_def [model_simps]
  process_items_def [model_simps] os_path_dirname_def [model_simps] os_makedirs_def [model_simps]
  write_output_def [model_simps] process_all_files_def [model_simps] default_output_csv_def [model_simps]

text \<open>The rows one item contributes, and the output of its \<open>try\<close> block.\<close>

definition item_rows :: "file_mapping \<Rightarrow> item_result \<Rightarrow> report_row list" where
  "item_rows mapping r =
     (case r of Skipped \<Rightarrow> [] | Raised e \<Rightarrow> [error_row mapping e] | Validated v \<Rightarrow> [validation_row mapping v])"

definition item_output :: "environment \<Rightarrow> file_mapping \<Rightarrow> report_row list option" where
  "item_output env mapping = map_option (item_rows mapping) (run_item env mapping)"

text \<open>An item of a task outside both family lists.\<close>

definition skipped_mapping :: file_mapping where
  "skipped_mapping = sample_mapping\<lparr>mapping_task := ''test2-unit-test''\<rparr>"

declare item_rows_def [model_simps] item_output_def [model_simps] skipped_mapping_def [model_simps]

subsection \<open>The loop as a list of per-item outputs\<close>

lemma record_item_rows: "record_item mapping r results = results @ item_rows mapping r"
  by (cases r) (simp_all add: record_item_def item_rows_def)

lemma those_append:
  "those (xs @ ys) = do { a \<leftarrow> those xs; b \<leftarrow> those ys; Some (a @ b) }"
  by (induction xs) (auto split: option.splits Option.bind_splits)

lemma those_map_Some:
  "those (map f xs) = Some ys \<longleftrightarrow> (\<forall>x \<in> set xs. f x \<noteq> None) \<and> ys = map (\<lambda>x. the (f x)) xs"
  by (induction xs arbitrary: ys) (auto split: option.splits)

lemma process_loop:
  "fold_option (\<lambda>results mapping. map_option (\<lambda>r. record_item mapping r results) (run_item env mapping))
     ms acc = map_option (\<lambda>rs. acc @ concat rs) (those (map (item_output env) ms))"
proof (induction ms arbitrary: acc)
  case Nil
  then show ?case by simp
next
  case (Cons m ms)
  show ?case
  proof (cases "run_item env m")
    case None
    then show ?thesis by (simp add: item_output_def)
  next
    case (Some r)
    with Cons.IH [of "acc @ item_rows m r"] show ?thesis
      by (simp add: item_output_def record_item_rows option.map_comp comp_def split: option.splits)
  qed
qed

lemma process_items_eq:
  "process_items env ms = map_option concat (those (map (item_output env) ms))"
  by (simp add: process_items_def process_loop)

lemma mset_concat_map:
  "mset (concat (map g xs)) = sum_mset (image_mset (\<lambda>x. mset (g x)) (mset xs))"
  by (induction xs) simp_all
lemma process_items_Cons:
  "process_items env (m # ms) = do { r \<leftarrow> item_output env m; rs \<leftarrow> process_items env ms; Some (r @ rs) }"
  by (cases "item_output env m"; cases "those (map (item_output env) ms)") (simp_all add: process_items_eq)

lemma process_items_total:
  assumes "\<And>s. wf_tree (kotlin_parser env s)"
  shows "process_items env ms \<noteq> None"
proof -
  have "\<forall>m \<in> set ms. item_output env m \<noteq> None"
    using run_item_total [OF assms] by (simp add: item_output_def)
  then show ?thesis
    using those_map_Some [of "item_output env" ms] by (auto simp: process_items_eq)
qed

lemma item_rows_run_item:
  assumes "run_item env m = Some r"
  shows "map (\<lambda>row. (model_name row, task row)) (item_rows m r) =
    (if mapping_task m \<in> set diff_tasks \<or> mapping_task m \<in> set kotlin_tasks
     then [(mapping_model_name m, mapping_task m)] else [])"
proof (cases r)
  case Skipped
  with assms show ?thesis by (simp add: item_rows_def run_item_skipped)
next
  case (Raised e)
  with assms run_item_skipped [of env m] show ?thesis
    by (auto simp: item_rows_def error_row_def)
next
  case (Validated v)
  with assms run_item_skipped [of env m] show ?thesis
    by (auto simp: item_rows_def validation_row_def Let_def)
qed

lemma os_path_dirname_empty_iff: "os_path_dirname p = [] \<longleftrightarrow> CHR ''/'' \<notin> set p"
proof -
  define k where "k = length (takeWhile (\<lambda>c. c \<noteq> CHR ''/'') (rev p))"
  have k_le: "k \<le> length p" by (simp add: k_def length_takeWhile_le [of _ "rev p", simplified])
  have "take (length p - k) p = [] \<longleftrightarrow> CHR ''/'' \<notin> set p"
  proof
    assume "take (length p - k) p = []"
    then have "k = length p" using k_le by (auto simp: k_def)
    then have "takeWhile (\<lambda>c. c \<noteq> CHR ''/'') (rev p) = rev p"
      by (metis k_def length_rev takeWhile_eq_take take_all_iff order_refl)
    then show "CHR ''/'' \<notin> set p" by (metis set_rev set_takeWhileD)
  next
    assume "CHR ''/'' \<notin> set p"
    then have tw: "takeWhile (\<lambda>c. c \<noteq> CHR ''/'') (rev p) = rev p"
      by (subst takeWhile_eq_all_conv) auto
    show "take (length p - k) p = []" unfolding k_def tw by simp
  qed
  moreover have "rev (dropWhile (\<lambda>c. c = CHR ''/'') (rev h)) \<noteq> []"
    if "h \<noteq> replicate (length h) (CHR ''/'')" for h :: string
  proof
    assume "rev (dropWhile (\<lambda>c. c = CHR ''/'') (rev h)) = []"
    then have "\<forall>x \<in> set h. x = CHR ''/''" by (simp add: dropWhile_eq_Nil_conv)
    then have "h = replicate (length h) (CHR ''/'')" by (simp add: replicate_length_same)
    with that show False by contradiction
  qed
  ultimately show ?thesis
    unfolding os_path_dirname_def Let_def k_def [symmetric] by (metis (no_types, lifting))
qed
lemma count_true_filter: "count_list (map snd vs) True = length (filter snd vs)"
  by (induction vs) auto

lemma sample_items:
  "process_items sample_env [sample_mapping, skipped_mapping] =
     Some [error_row sample_mapping (ValueError ''Unknown Kotlin task: test1-unit-test'')]"
  by (simp add: sample_env_def sample_mapping_def skipped_mapping_def model_simps)

subsection \<open>Properties of the batch\<close>

text \<open>
  C16. Items are isolated: the rows of a batch are the rows of its first part followed by
  those of the rest, so an item that raised contributes its error row and does not stop or
  change the processing of the items after it.
\<close>

theorem batch_isolation:
  "process_items env (xs @ ys) = do { a \<leftarrow> process_items env xs; b \<leftarrow> process_items env ys; Some (a @ b) }"
  by (simp add: process_items_eq those_append map_option_bind bind_map_option o_def
      split: Option.bind_splits)

text \<open>
  C17. The order of the manifest does not change which rows are written: permuting the
  file mappings permutes the rows.
\<close>

theorem batch_permutation:
  assumes "mset xs = mset ys"
  shows "map_option mset (process_items env xs) = map_option mset (process_items env ys)"
proof -
  have "set xs = set ys" using assms by (metis set_mset_mset)
  then have same: "(\<forall>m \<in> set xs. item_output env m \<noteq> None) = (\<forall>m \<in> set ys. item_output env m \<noteq> None)"
    by simp
  have rows: "mset (concat (map (\<lambda>m. the (item_output env m)) xs)) =
              mset (concat (map (\<lambda>m. the (item_output env m)) ys))"
    by (simp add: mset_concat_map assms)
  show ?thesis
  proof (cases "\<forall>m \<in> set xs. item_output env m \<noteq> None")
    case True
    then show ?thesis using same rows
      by (simp add: process_items_eq those_map_Some [THEN iffD2])
  next
    case False
    then have "those (map (item_output env) xs) = None" "those (map (item_output env) ys) = None"
      using same those_map_Some [of "item_output env"] by (metis option.exhaust)+
    then show ?thesis by (simp add: process_items_eq)
  qed
qed
text \<open>
  C18. One row per item of a known task family, in the order of the manifest, carrying the
  item's model name and task; an item of any other task gets no row (the \<open>continue\<close>
  of line 443), whereas the specification promises a row for every item. In particular
  the task values the docstring of \<open>process_all_files\<close> tells callers to pass
  (lines 407--409: \<open>preview_generation\<close>, \<open>unit_test_generation\<close>,
  \<open>instrumentation_test_generation\<close>, \<open>material_diff\<close>, \<open>plugin_diff\<close>) are in
  neither family list, so items carrying them get no row at all.
\<close>

theorem rows_per_item:
  assumes "process_items env ms = Some rows"
  shows "map (\<lambda>row. (model_name row, task row)) rows =
    map (\<lambda>m. (mapping_model_name m, mapping_task m))
      (filter (\<lambda>m. mapping_task m \<in> set diff_tasks \<or> mapping_task m \<in> set kotlin_tasks) ms)"
  using assms
proof (induction ms arbitrary: rows)
  case Nil
  then show ?case by (simp add: process_items_def)
next
  case (Cons m ms)
  then obtain r rs where "run_item env m = Some r" "process_items env ms = Some rs"
    and "rows = item_rows m r @ rs"
    by (auto simp: process_items_Cons item_output_def split: Option.bind_splits)
  with Cons.IH item_rows_run_item [of env m r] show ?case by simp
qed

text \<open>
  C19. An item whose file cannot be read yields the error row of lines 460--470 (not valid,
  both counts 0, the message after \<open>Error: \<close>), and the batch goes on with the next
  items as if the failed item were absent.
\<close>

theorem read_error_row:
  assumes "read_file env (file_path m) = Inl e"
    and "mapping_task m \<in> set kotlin_tasks \<or>
         (mapping_task m \<in> set diff_tasks \<and> diff_parser env \<noteq> None \<and> diff_query env \<noteq> None)"
  shows "process_items env (m # ms) =
    map_option (\<lambda>rows.
      \<lparr>model_name = mapping_model_name m, task = mapping_task m, is_valid = False,
       success_validation_count = 0, failed_validation_count = 0,
       success_validation_list = ''None'', failed_validation_list = ''Error: '' @ py_str e\<rparr> # rows)
    (process_items env ms)"
  using run_item_read_error [OF assms]
  by (cases "process_items env ms") (simp_all add: process_items_Cons item_output_def item_rows_def error_row_def)
text \<open>
  C20. The row of a validated item: it is valid exactly when every validation passed, its
  success count is the number of passed validations, and the two counts add up to the
  number of validations.
\<close>

theorem validation_row_spec:
  "is_valid (validation_row m vs) = list_all snd vs \<and>
   success_validation_count (validation_row m vs) = count_list (map snd vs) True \<and>
   success_validation_count (validation_row m vs) + failed_validation_count (validation_row m vs) = length vs"
  by (simp add: validation_row_def Let_def count_true_filter filter_empty_conv list_all_iff
      sum_length_filter_compl)

text \<open>
  The specification's unit-test scenario as a row: a file with both required imports,
  two \<open>@Test\<close> functions and no use-case constructor call is reported not valid, with
  three passed validations, one failed, and the failed list naming
  \<open>has_use_case_constructor\<close>.
\<close>

lemma unit_test_row_scenario:
  "\<exists>vs. process_kotlin_file s ''test2-unit-test'' (\<lambda>_. unit_tree) (\<lambda>_ _ _. unit_caps) = Some (Inr vs) \<and>
     validation_row m vs =
       \<lparr>model_name = mapping_model_name m, task = mapping_task m, is_valid = False,
        success_validation_count = 3, failed_validation_count = 1,
        success_validation_list = ''correct_syntax, has_all_required_imports, has_exactly_two_test_functions'',
        failed_validation_list = ''has_use_case_constructor''\<rparr>"
  by (simp add: process_kotlin_file_def unit_tree_validations validation_row_def)

text \<open>
  C22. The batch terminates: when the Kotlin parser returns well-formed trees, every
  validator loop ends, so \<open>process_all_files\<close> returns for every manifest and output path.
\<close>

theorem process_all_files_terminates:
  assumes "\<forall>s. wf_tree (kotlin_parser env s)"
  shows "\<exists>r. process_all_files env ms output_csv = Some r"
  using process_items_total [of env ms] assms by (auto simp: process_all_files_def write_output_def)

text \<open>
  C23. The output directory step: after the loop, \<open>os.makedirs(os.path.dirname(output_csv))\<close>
  succeeds exactly when the output path has a directory part; a bare file name, the
  default \<open>validation_results.csv\<close> included, raises \<open>FileNotFoundError\<close> and no CSV is
  written.
\<close>

theorem output_directory_error:
  assumes "process_items env ms = Some rows"
  shows "process_all_files env ms output_csv =
    Some (if CHR ''/'' \<in> set output_csv then Inr rows
          else Inl (OSError (''[Errno 2] No such file or directory: '' @ [CHR 0x27, CHR 0x27])))"
  using assms os_path_dirname_empty_iff [of output_csv]
  by (simp add: process_all_files_def write_output_def os_makedirs_def)

subsection \<open>Witnesses\<close>

theorem batch_permutation_witness:
  "map_option mset (process_items sample_env [sample_mapping, skipped_mapping]) =
   map_option mset (process_items sample_env [skipped_mapping, sample_mapping])"
  by (rule batch_permutation) simp

theorem rows_per_item_witness:
  "map (\<lambda>row. (model_name row, task row)) (the (process_items sample_env [sample_mapping, skipped_mapping])) =
   [(Some ''model-a'', ''test1-unit-test'')]"
  unfolding sample_items using rows_per_item [OF sample_items]
  by (simp add: sample_mapping_def skipped_mapping_def kotlin_tasks_def diff_tasks_def)

theorem read_error_row_witness:
  "process_items (sample_env\<lparr>read_file := \<lambda>_. Inl (OSError ''No such file'')\<rparr>) [sample_mapping] =
   Some [\<lparr>model_name = Some ''model-a'', task = ''test1-unit-test'', is_valid = False,
          success_validation_count = 0, failed_validation_count = 0,
          success_validation_list = ''None'', failed_validation_list = ''Error: No such file''\<rparr>]"
  using read_error_row [of "sample_env\<lparr>read_file := \<lambda>_. Inl (OSError ''No such file'')\<rparr>"
      sample_mapping "OSError ''No such file''" "[]"]
  by (simp add: sample_mapping_def kotlin_tasks_def process_items_def)

theorem process_all_files_terminates_witness:
  "\<exists>r. process_all_files sample_env [sample_mapping] default_output_csv = Some r"
  by (rule process_all_files_terminates) (simp add: sample_env_def expr_preview_tree_wf)

theorem output_directory_error_witness:
  "process_all_files sample_env [] default_output_csv =
     Some (Inl (OSError (''[Errno 2] No such file or directory: '' @ [CHR 0x27, CHR 0x27]))) \<and>
   process_all_files sample_env [] ''build/validation_results.csv'' = Some (Inr [])"
  using output_directory_error [of sample_env "[]" "[]"] by (simp add: process_items_def default_output_csv_def)

end
