(* ===== verification/Csv.thy ===== *)
theory Csv
  imports Prelude
begin

text \<open>
  The parts of Python's \<open>csv\<close> module the program relies on, for the default
  \<open>excel\<close> dialect (delimiter \<open>,\<close>, quote character \<open>"\<close>, doubled quotes, line
  terminator CR LF, \<open>QUOTE_MINIMAL\<close>, no escape character, \<open>strict = False\<close>): the
  writer's \<open>writerow\<close> and the reader's state machine (\<open>parse_process_char\<close> of
  CPython's \<open>_csv.c\<close>) over a file opened with \<open>newline=''\<close>, whose lines end after
  LF, after CR LF, and after a CR not followed by LF. The main result is the round trip:
  reading what the writer wrote gives back the rows.
\<close>

abbreviation cr :: char where "cr \<equiv> CHR 0x0D"
abbreviation lf :: char where "lf \<equiv> CHR 0x0A"
abbreviation dquote :: char where "dquote \<equiv> CHR 0x22"
abbreviation comma :: char where "comma \<equiv> CHR 0x2C"

subsection \<open>Writer\<close>

definition csv_special :: "char \<Rightarrow> bool" where
  "csv_special c \<longleftrightarrow> c = comma \<or> c = dquote \<or> c = cr \<or> c = lf"

definition csv_needs_quotes :: "string \<Rightarrow> bool" where
  "csv_needs_quotes s = list_ex csv_special s"

definition csv_escape :: "string \<Rightarrow> string" where
  "csv_escape s = concat (map (\<lambda>c. if c = dquote then [dquote, dquote] else [c]) s)"

definition csv_field :: "string \<Rightarrow> string" where
  "csv_field s = (if csv_needs_quotes s then dquote # csv_escape s @ [dquote] else s)"

text \<open>
  \<open>writer.writerow(fields)\<close>: the fields joined by the delimiter and the line terminator;
  a record consisting of one empty field is written as \<open>""\<close>.
\<close>

definition csv_writerow :: "string list \<Rightarrow> string" where
  "csv_writerow fields =
     (if fields = [[]] then [dquote, dquote] else py_join [comma] (map csv_field fields)) @ [cr, lf]"

subsection \<open>Reader\<close>

datatype csv_state = Start_record | Start_field | In_field | In_quoted_field
  | Quote_in_quoted_field | Eat_crnl

datatype csv_event = Chr char | EOL

text \<open>
  The line iteration of the file as events: each character, and \<open>EOL\<close> after each line,
  which \<open>Reader_iternext\<close> feeds to the state machine at the end of a line.
\<close>

fun line_events :: "string \<Rightarrow> csv_event list" where
  "line_events [] = []"
| "line_events (c # cs) =
     Chr c # (if c = lf \<or> (c = cr \<and> (cs = [] \<or> hd cs \<noteq> lf)) then [EOL] else []) @ line_events cs"

definition file_events :: "string \<Rightarrow> csv_event list" where
  "file_events s = line_events s @ (if s \<noteq> [] \<and> last s \<noteq> cr \<and> last s \<noteq> lf then [EOL] else [])"

text \<open>
  The reader's fields (\<open>state\<close>, the current \<open>field\<close>, the record's \<open>fields\<close>) and
  the records returned so far by the iterator.
\<close>

record csv_reader =
  rd_state :: csv_state
  rd_field :: string
  rd_fields :: "string list"
  rd_rows :: "string list list"

definition parse_save_field :: "csv_reader \<Rightarrow> csv_reader" where
  "parse_save_field r = r\<lparr>rd_fields := rd_fields r @ [rd_field r], rd_field := []\<rparr>"

definition parse_add_char :: "char \<Rightarrow> csv_reader \<Rightarrow> csv_reader" where
  "parse_add_char c r = r\<lparr>rd_field := rd_field r @ [c]\<rparr>"

definition csv_newline_error :: py_error where
  "csv_newline_error = CsvError
     (''new-line character seen in unquoted field - do you need to open the file with newline=''
      @ [CHR 0x27, CHR 0x27] @ ''?'')"

text \<open>\<open>START_FIELD\<close>, also reached from \<open>START_RECORD\<close> by the fall-through.\<close>

definition start_field :: "csv_reader \<Rightarrow> csv_event \<Rightarrow> csv_reader" where
  "start_field r e =
     (case e of
        EOL \<Rightarrow> (parse_save_field r)\<lparr>rd_state := Start_record\<rparr>
      | Chr c \<Rightarrow>
          if c = lf \<or> c = cr then (parse_save_field r)\<lparr>rd_state := Eat_crnl\<rparr>
          else if c = dquote then r\<lparr>rd_state := In_quoted_field\<rparr>
          else if c = comma then (parse_save_field r)\<lparr>rd_state := Start_field\<rparr>
          else (parse_add_char c r)\<lparr>rd_state := In_field\<rparr>)"

definition end_field :: "csv_reader \<Rightarrow> csv_event \<Rightarrow> csv_reader" where
  "end_field r e = (parse_save_field r)\<lparr>rd_state := (if e = EOL then Start_record else Eat_crnl)\<rparr>"

definition parse_process_char :: "csv_reader \<Rightarrow> csv_event \<Rightarrow> py_error + csv_reader" where
  "parse_process_char r e =
     (case rd_state r of
        Start_record \<Rightarrow>
          (case e of
             EOL \<Rightarrow> Inr r
           | Chr c \<Rightarrow> if c = lf \<or> c = cr then Inr (r\<lparr>rd_state := Eat_crnl\<rparr>) else Inr (start_field r e))
      | Start_field \<Rightarrow> Inr (start_field r e)
      | In_field \<Rightarrow>
          (case e of
             EOL \<Rightarrow> Inr (end_field r e)
           | Chr c \<Rightarrow>
               if c = lf \<or> c = cr then Inr (end_field r e)
               else if c = comma then Inr ((parse_save_field r)\<lparr>rd_state := Start_field\<rparr>)
               else Inr (parse_add_char c r))
      | In_quoted_field \<Rightarrow>
          (case e of
             EOL \<Rightarrow> Inr r
           | Chr c \<Rightarrow>
               if c = dquote then Inr (r\<lparr>rd_state := Quote_in_quoted_field\<rparr>)
               else Inr (parse_add_char c r))
      | Quote_in_quoted_field \<Rightarrow>
          (case e of
             EOL \<Rightarrow> Inr (end_field r e)
           | Chr c \<Rightarrow>
               if c = dquote then Inr ((parse_add_char c r)\<lparr>rd_state := In_quoted_field\<rparr>)
               else if c = comma then Inr ((parse_save_field r)\<lparr>rd_state := Start_field\<rparr>)
               else if c = lf \<or> c = cr then Inr (end_field r e)
               else Inr ((parse_add_char c r)\<lparr>rd_state := In_field\<rparr>))
      | Eat_crnl \<Rightarrow>
          (case e of
             EOL \<Rightarrow> Inr (r\<lparr>rd_state := Start_record\<rparr>)
           | Chr c \<Rightarrow> if c = lf \<or> c = cr then Inr r else Inl csv_newline_error))"

text \<open>
  One event as the iterator sees it: after the \<open>EOL\<close> of a line, a reader back in
  \<open>START_RECORD\<close> returns its record and is reset (\<open>parse_reset\<close>).
\<close>

definition reader_step :: "csv_reader \<Rightarrow> csv_event \<Rightarrow> py_error + csv_reader" where
  "reader_step r e =
     (case parse_process_char r e of
        Inl err \<Rightarrow> Inl err
      | Inr r' \<Rightarrow>
          Inr (if e = EOL \<and> rd_state r' = Start_record
               then r'\<lparr>rd_fields := [], rd_field := [], rd_rows := rd_rows r' @ [rd_fields r']\<rparr>
               else r'))"

definition reader_reset :: csv_reader where
  "reader_reset = \<lparr>rd_state = Start_record, rd_field = [], rd_fields = [], rd_rows = []\<rparr>"

text \<open>At the end of the input a pending field (or an open quoted field) ends the last record.\<close>

definition reader_finish :: "csv_reader \<Rightarrow> string list list" where
  "reader_finish r =
     (if rd_field r \<noteq> [] \<or> rd_state r = In_quoted_field
      then rd_rows r @ [rd_fields (parse_save_field r)] else rd_rows r)"

text \<open>\<open>list(csv.reader(f))\<close>.\<close>

definition csv_read :: "string \<Rightarrow> py_error + string list list" where
  "csv_read s = map_sum id reader_finish (fold_error reader_step (file_events s) reader_reset)"

text \<open>The state after the characters of a written field, before its delimiter.\<close>

definition pending_state :: "string \<Rightarrow> csv_state" where
  "pending_state f =
     (if csv_needs_quotes f then Quote_in_quoted_field else if f = [] then Start_field else In_field)"

declare csv_special_def [model_simps] csv_needs_quotes_def [model_simps] csv_escape_def [model_simps]
  csv_field_def [model_simps] csv_writerow_def [model_simps] file_events_def [model_simps]
  parse_save_field_def [model_simps] parse_add_char_def [model_simps] start_field_def [model_simps]
  end_field_def [model_simps] parse_process_char_def [model_simps] reader_step_def [model_simps]
  reader_reset_def [model_simps] reader_finish_def [model_simps] csv_read_def [model_simps]

subsection \<open>The reader inverts the writer\<close>

lemma line_events_append:
  assumes "xs = [] \<or> last xs \<noteq> cr"
  shows "line_events (xs @ ys) = line_events xs @ line_events ys"
  using assms
proof (induction xs)
  case Nil
  then show ?case by simp
next
  case (Cons c cs)
  then show ?case by (cases cs) auto
qed

lemma line_events_plain:
  "\<forall>c \<in> set xs. c \<noteq> cr \<and> c \<noteq> lf \<Longrightarrow> line_events xs = map Chr xs"
  by (induction xs) auto

lemma reader_step_quoted:
  "rd_state r = In_quoted_field \<Longrightarrow> c \<noteq> dquote \<Longrightarrow>
     reader_step r (Chr c) = Inr (r\<lparr>rd_field := rd_field r @ [c]\<rparr>)"
  "rd_state r = In_quoted_field \<Longrightarrow> reader_step r EOL = Inr r"
  "rd_state r = In_quoted_field \<Longrightarrow> reader_step r (Chr dquote) = Inr (r\<lparr>rd_state := Quote_in_quoted_field\<rparr>)"
  "rd_state r = Quote_in_quoted_field \<Longrightarrow>
     reader_step r (Chr dquote) = Inr (r\<lparr>rd_field := rd_field r @ [dquote], rd_state := In_quoted_field\<rparr>)"
  by (simp_all add: reader_step_def parse_process_char_def parse_add_char_def)

lemma quoted_run:
  "rd_state r = In_quoted_field \<Longrightarrow>
   fold_error reader_step (line_events (csv_escape s @ dquote # rest)) r =
   fold_error reader_step (line_events rest) (r\<lparr>rd_field := rd_field r @ s, rd_state := Quote_in_quoted_field\<rparr>)"
proof (induction s arbitrary: r)
  case Nil
  then show ?case by (simp add: csv_escape_def reader_step_quoted)
next
  case (Cons c s)
  show ?case
  proof (cases "c = dquote")
    case True
    with Cons.prems show ?thesis
      using Cons.IH [of "r\<lparr>rd_state := Quote_in_quoted_field, rd_field := rd_field r @ [dquote],
          rd_state := In_quoted_field\<rparr>"]
      by (simp add: csv_escape_def reader_step_quoted)
  next
    case False
    with Cons.prems show ?thesis
      using Cons.IH [of "r\<lparr>rd_field := rd_field r @ [c]\<rparr>"]
      by (simp add: csv_escape_def reader_step_quoted)
  qed
qed
lemma rd_update_order:
  "r\<lparr>rd_state := a, rd_field := b\<rparr> = r\<lparr>rd_field := b, rd_state := a\<rparr>"
  by (cases r) simp

lemma plain_run:
  "rd_state r = In_field \<Longrightarrow> \<not> list_ex csv_special xs \<Longrightarrow>
   fold_error reader_step (map Chr xs) r = Inr (r\<lparr>rd_field := rd_field r @ xs\<rparr>)"
proof (induction xs arbitrary: r)
  case Nil
  then show ?case by simp
next
  case (Cons c xs)
  then show ?case
    using Cons.IH [of "r\<lparr>rd_field := rd_field r @ [c]\<rparr>"]
    by (simp add: reader_step_def parse_process_char_def parse_add_char_def csv_special_def)
qed

lemma field_run:
  assumes "rd_state r = Start_field"
  shows "fold_error reader_step (line_events (csv_field f @ sep # rest)) r =
    fold_error reader_step (line_events (sep # rest))
      (r\<lparr>rd_field := rd_field r @ f, rd_state := pending_state f\<rparr>)"
proof (cases "csv_needs_quotes f")
  case True
  have "line_events (csv_field f @ sep # rest) = Chr dquote # line_events (csv_escape f @ dquote # sep # rest)"
    using True by (simp add: csv_field_def)
  moreover have "reader_step r (Chr dquote) = Inr (r\<lparr>rd_state := In_quoted_field\<rparr>)"
    using assms by (simp add: reader_step_def parse_process_char_def start_field_def)
  ultimately show ?thesis
    using True quoted_run [of "r\<lparr>rd_state := In_quoted_field\<rparr>" f "sep # rest"]
    by (simp add: pending_state_def)
next
  case False
  show ?thesis
  proof (cases f)
    case Nil
    have "r\<lparr>rd_state := Start_field\<rparr> = r" using assms by (cases r) simp
    with Nil show ?thesis by (simp add: csv_field_def pending_state_def csv_needs_quotes_def)
  next
    case (Cons c cs)
    have plain: "\<not> list_ex csv_special (c # cs)" using False Cons by (simp add: csv_needs_quotes_def)
    then have "line_events (csv_field f @ sep # rest) = Chr c # map Chr cs @ line_events (sep # rest)"
      using False Cons line_events_append [of "c # cs" "sep # rest"] line_events_plain [of "c # cs"]
      by (auto simp: csv_field_def csv_special_def list_ex_iff)
    moreover have "reader_step r (Chr c) = Inr (r\<lparr>rd_field := rd_field r @ [c], rd_state := In_field\<rparr>)"
      using assms plain by (simp add: reader_step_def parse_process_char_def start_field_def
          parse_add_char_def csv_special_def)
    ultimately show ?thesis
      using plain_run [of "r\<lparr>rd_field := rd_field r @ [c], rd_state := In_field\<rparr>" cs] plain False Cons
      by (simp add: fold_error_append pending_state_def rd_update_order)
  qed
qed

lemma separator_step:
  assumes "rd_state r \<in> {Start_field, In_field, Quote_in_quoted_field}"
  shows "reader_step r (Chr comma) = Inr ((parse_save_field r)\<lparr>rd_state := Start_field\<rparr>)"
    and "reader_step r (Chr cr) = Inr ((parse_save_field r)\<lparr>rd_state := Eat_crnl\<rparr>)"
  using assms by (auto simp: reader_step_def parse_process_char_def start_field_def end_field_def)

lemma pending_state_in: "pending_state f \<in> {Start_field, In_field, Quote_in_quoted_field}"
  by (simp add: pending_state_def)
lemma fields_run:
  assumes "fs \<noteq> []" and "rd_state r = Start_field" and "rd_field r = []"
  shows "fold_error reader_step (line_events (py_join [comma] (map csv_field fs) @ cr # lf # rest)) r =
    fold_error reader_step (line_events (lf # rest))
      (r\<lparr>rd_fields := rd_fields r @ fs, rd_field := [], rd_state := Eat_crnl\<rparr>)"
  using assms
proof (induction fs arbitrary: r)
  case Nil
  then show ?case by simp
next
  case (Cons f gs)
  show ?case
  proof (cases gs)
    case Nil
    then show ?thesis
      using Cons.prems field_run [of r f cr "lf # rest"] pending_state_in [of f]
        separator_step(2) [of "r\<lparr>rd_field := f, rd_state := pending_state f\<rparr>"]
      by (simp add: parse_save_field_def)
  next
    case (Cons g hs)
    let ?r = "r\<lparr>rd_fields := rd_fields r @ [f], rd_field := [], rd_state := Start_field\<rparr>"
    have "fold_error reader_step (line_events (py_join [comma] (map csv_field (f # gs)) @ cr # lf # rest)) r =
          fold_error reader_step (line_events (py_join [comma] (map csv_field gs) @ cr # lf # rest)) ?r"
      using Cons Cons.prems field_run [of r f comma] pending_state_in [of f]
        separator_step(1) [of "r\<lparr>rd_field := f, rd_state := pending_state f\<rparr>"]
      by (simp add: parse_save_field_def)
    also have "\<dots> = fold_error reader_step (line_events (lf # rest))
        (?r\<lparr>rd_fields := rd_fields ?r @ gs, rd_field := [], rd_state := Eat_crnl\<rparr>)"
      using Cons by (intro Cons.IH) simp_all
    finally show ?thesis by simp
  qed
qed

lemma first_char:
  assumes "fs \<noteq> []" and "fs \<noteq> [[]]"
  obtains c cs where "py_join [comma] (map csv_field fs) = c # cs" and "c \<noteq> cr" and "c \<noteq> lf"
proof -
  obtain f gs where fs: "fs = f # gs" using assms(1) by (cases fs) auto
  show ?thesis
  proof (cases f)
    case Nil
    then have "gs \<noteq> []" using assms(2) fs by auto
    with Nil fs show ?thesis
      using that by (cases gs) (auto simp: csv_field_def csv_needs_quotes_def)
  next
    case (Cons d ds)
    show ?thesis
    proof (cases "csv_needs_quotes f")
      case True
      with fs that show ?thesis by (cases gs) (auto simp: csv_field_def)
    next
      case False
      with Cons fs that show ?thesis
        by (cases gs) (auto simp: csv_field_def csv_needs_quotes_def csv_special_def)
    qed
  qed
qed

lemma start_record_step:
  "rd_state r = Start_record \<Longrightarrow> c \<noteq> cr \<Longrightarrow> c \<noteq> lf \<Longrightarrow>
   reader_step r (Chr c) = reader_step (r\<lparr>rd_state := Start_field\<rparr>) (Chr c)"
  by (simp add: reader_step_def parse_process_char_def start_field_def parse_save_field_def
      parse_add_char_def)

lemma row_run:
  assumes "rd_state r = Start_record" and "rd_field r = []" and "rd_fields r = []"
  shows "fold_error reader_step (line_events (csv_writerow fs @ rest)) r =
    fold_error reader_step (line_events rest) (r\<lparr>rd_rows := rd_rows r @ [fs]\<rparr>)"
proof -
  consider "fs = []" | "fs = [[]]" | "fs \<noteq> []" "fs \<noteq> [[]]" by blast
  then show ?thesis
  proof cases
    case 1
    with assms show ?thesis
      by (cases r) (simp add: csv_writerow_def reader_step_def parse_process_char_def)
  next
    case 2
    with assms show ?thesis
      by (cases r) (simp add: csv_writerow_def reader_step_def parse_process_char_def start_field_def
          end_field_def parse_save_field_def)
  next
    case 3
    then obtain c cs where c: "py_join [comma] (map csv_field fs) = c # cs" "c \<noteq> cr" "c \<noteq> lf"
      by (rule first_char)
    let ?body = "py_join [comma] (map csv_field fs) @ cr # lf # rest"
    have w: "csv_writerow fs @ rest = ?body" using 3 by (simp add: csv_writerow_def)
    have "fold_error reader_step (line_events ?body) r =
          fold_error reader_step (line_events ?body) (r\<lparr>rd_state := Start_field\<rparr>)"
      using c assms start_record_step [of r c] by simp
    also have "\<dots> = fold_error reader_step (line_events (lf # rest))
                     (r\<lparr>rd_fields := rd_fields r @ fs, rd_field := [], rd_state := Eat_crnl\<rparr>)"
      using 3 assms fields_run [of fs "r\<lparr>rd_state := Start_field\<rparr>" rest] by simp
    also have "\<dots> = fold_error reader_step (line_events rest) (r\<lparr>rd_rows := rd_rows r @ [fs]\<rparr>)"
      using assms by (cases r) (simp add: reader_step_def parse_process_char_def)
    finally show ?thesis using w by simp
  qed
qed
lemma csv_writerow_last: "csv_writerow fs \<noteq> [] \<and> last (csv_writerow fs) = lf"
  by (simp add: csv_writerow_def)

lemma rows_run:
  assumes "rd_state r = Start_record" and "rd_field r = []" and "rd_fields r = []"
  shows "fold_error reader_step (line_events (concat (map csv_writerow rows))) r =
    Inr (r\<lparr>rd_rows := rd_rows r @ rows\<rparr>)"
  using assms
proof (induction rows arbitrary: r)
  case Nil
  then show ?case by simp
next
  case (Cons fs rows)
  then show ?case
    using row_run [of r fs "concat (map csv_writerow rows)"]
      Cons.IH [of "r\<lparr>rd_rows := rd_rows r @ [fs]\<rparr>"]
    by simp
qed

lemma concat_writerow_last:
  "concat (map csv_writerow rows) = [] \<or> last (concat (map csv_writerow rows)) = lf"
  by (induction rows) (auto simp: csv_writerow_last last_append)

text \<open>
  The round trip: reading what the writer wrote gives back the rows, whatever their fields
  contain (delimiters, quotes, line breaks, empty fields, empty records).
\<close>

lemma csv_read_writerows: "csv_read (concat (map csv_writerow rows)) = Inr rows"
proof -
  have "file_events (concat (map csv_writerow rows)) = line_events (concat (map csv_writerow rows))"
    using concat_writerow_last [of rows] by (auto simp: file_events_def)
  then show ?thesis
    using rows_run [of reader_reset rows]
    by (simp add: csv_read_def reader_reset_def reader_finish_def)
qed

end
