(* ===== verification/Report.thy ===== *)
theory Report
  imports Batch Csv
begin

text \<open>
  The CSV file \<open>process_all_files\<close> writes (lines 474--481 of
  \<^verbatim>\<open>src/run_validation.py\<close>): a \<open>csv.DictWriter\<close> with the seven report columns,
  the header, then one record per result row, each value converted by \<open>str\<close>.
\<close>

definition py_str_bool :: "bool \<Rightarrow> string" where
  "py_str_bool b = (if b then ''True'' else ''False'')"

definition report_fieldnames :: "string list" where
  "report_fieldnames = [''model_name'', ''task'', ''is_valid'', ''success_validation_count'',
     ''failed_validation_count'', ''success_validation_list'', ''failed_validation_list'']"

text \<open>\<open>DictWriter._dict_to_list\<close> on a result dictionary: its values in the order of the
  field names, which are exactly its keys; a \<open>None\<close> model name is written as the
  empty field.\<close>

definition row_values :: "report_row \<Rightarrow> string list" where
  "row_values r =
     [csv_str_or_none (model_name r), task r, py_str_bool (is_valid r), py_str_nat (success_validation_count r),
      py_str_nat (failed_validation_count r), success_validation_list r, failed_validation_list r]"

definition report_csv :: "report_row list \<Rightarrow> string" where
  "report_csv results = csv_writerow report_fieldnames @ concat (map (\<lambda>r. csv_writerow (row_values r)) results)"

text \<open>\<open>process_all_files\<close> with the file it writes: the returned rows and the content of
  \<open>output_csv\<close>.\<close>

definition write_report ::
  "environment \<Rightarrow> file_mapping list \<Rightarrow> string \<Rightarrow> (py_error + report_row list \<times> string) option" where
  "write_report env file_mappings output_csv =
     map_option (map_sum id (\<lambda>results. (results, report_csv results)))
       (process_all_files env file_mappings output_csv)"

declare py_str_bool_def [model_simps] report_fieldnames_def [model_simps] row_values_def [model_simps]
  report_csv_def [model_simps] write_report_def [model_simps]

text \<open>
  C24. The report reads back: parsing the written file with \<open>csv.reader\<close> gives the header
  and, for every result in order, its seven values, whatever the validation lists and error
  messages contain (the comma-joined lists are quoted by the writer).
\<close>

theorem report_roundtrip:
  "csv_read (report_csv results) = Inr (report_fieldnames # map row_values results)"
proof -
  have "report_csv results = concat (map csv_writerow (report_fieldnames # map row_values results))"
    by (simp add: report_csv_def comp_def)
  then show ?thesis by (simp only: csv_read_writerows)
qed

text \<open>
  An empty manifest is not an error: \<open>process_all_files\<close> writes a report holding
  only the header (when the output path has a directory part), whereas the specification
  makes an empty manifest fatal at startup.
\<close>

lemma empty_manifest_report:
  assumes "CHR ''/'' \<in> set output_csv"
  shows "write_report env [] output_csv = Some (Inr ([], csv_writerow report_fieldnames))"
  using assms os_path_dirname_empty_iff [of output_csv]
  by (simp add: write_report_def report_csv_def process_all_files_def write_output_def process_items_def os_makedirs_def)

end
