(* ===== verification/Main_Entry.thy ===== *)
theory Main_Entry
  imports Report
begin

text \<open>
  The command-line entry point of \<^verbatim>\<open>src/run_validation.py\<close> (lines 487--537) and
  the part of \<open>process_all_files\<close> that reads each manifest entry (lines 422--427,
  outside the \<open>try\<close> block). The manifest is the value \<open>json.load\<close> returns, a
  \<open>json\<close> term whose objects are already dictionaries (distinct keys, insertion order);
  the loaded value and the two command-line options are inputs, as are the parsers and
  the query, which \<open>__main__\<close> always creates, the diff ones included. What the run
  prints to standard output is returned beside its outcome.
\<close>

datatype json = JNull | JBool bool | JInt int | JStr string | JArr "json list"
  | JObj "(string \<times> json) list"

definition py_type_name :: "json \<Rightarrow> string" where
  "py_type_name j =
     (case j of JNull \<Rightarrow> ''NoneType'' | JBool _ \<Rightarrow> ''bool'' | JInt _ \<Rightarrow> ''int'' | JStr _ \<Rightarrow> ''str''
      | JArr _ \<Rightarrow> ''list'' | JObj _ \<Rightarrow> ''dict'')"

definition py_str_int :: "int \<Rightarrow> string" where
  "py_str_int i = (if i < 0 then CHR ''-'' # py_str_nat (nat (- i)) else py_str_nat (nat i))"

text \<open>\<open>repr\<close> of a loaded value, and \<open>str\<close>, which differs only on strings.\<close>

fun py_repr_json :: "json \<Rightarrow> string" where
  "py_repr_json JNull = ''None''"
| "py_repr_json (JBool b) = py_str_bool b"
| "py_repr_json (JInt i) = py_str_int i"
| "py_repr_json (JStr s) = py_repr_str s"
| "py_repr_json (JArr xs) = ''['' @ py_join '', '' (map py_repr_json xs) @ '']''"
| "py_repr_json (JObj kvs) =
     ''{'' @ py_join '', '' (map (\<lambda>(k, v). py_repr_str k @ '': '' @ py_repr_json v) kvs) @ ''}''"

definition py_str_json :: "json \<Rightarrow> string" where
  "py_str_json j = (case j of JStr s \<Rightarrow> s | _ \<Rightarrow> py_repr_json j)"

text \<open>\<open>for mapping in file_mappings\<close>: the elements of a list, the keys of a dictionary,
  the characters of a string; other values are not iterable.\<close>

definition py_iter :: "json \<Rightarrow> py_error + json list" where
  "py_iter j =
     (case j of
        JArr xs \<Rightarrow> Inr xs
      | JObj kvs \<Rightarrow> Inr (map (\<lambda>kv. JStr (fst kv)) kvs)
      | JStr s \<Rightarrow> Inr (map (\<lambda>c. JStr [c]) s)
      | _ \<Rightarrow> Inl (TypeError ([CHR 0x27] @ py_type_name j @ [CHR 0x27] @ '' object is not iterable'')))"

text \<open>\<open>mapping[key]\<close> with a string key.\<close>

definition py_getitem :: "json \<Rightarrow> string \<Rightarrow> py_error + json" where
  "py_getitem j key =
     (case j of
        JObj kvs \<Rightarrow> (case map_of kvs key of None \<Rightarrow> Inl (KeyError key) | Some v \<Rightarrow> Inr v)
      | JArr _ \<Rightarrow> Inl (TypeError ''list indices must be integers or slices, not str'')
      | JStr _ \<Rightarrow> Inl (TypeError (''string indices must be integers, not '' @ [CHR 0x27] @ ''str'' @ [CHR 0x27]))
      | _ \<Rightarrow> Inl (TypeError ([CHR 0x27] @ py_type_name j @ [CHR 0x27] @ '' object is not subscriptable'')))"

text \<open>\<open>Path(value)\<close>: only a string is a path here (lists and numbers raise).\<close>

definition py_path :: "json \<Rightarrow> py_error + string" where
  "py_path j =
     (case j of
        JStr s \<Rightarrow> Inr s
      | _ \<Rightarrow> Inl (TypeError (''argument should be a str or an os.PathLike object where __fspath__ returns a str, not ''
                             @ [CHR 0x27] @ py_type_name j @ [CHR 0x27])))"

text \<open>
  \<open>str(Path(p))\<close> on POSIX, as the file is opened and as \<open>Error processing {file_path}\<close>
  prints it: the
  components without empty and \<open>.\<close> parts, after the root (\<open>//\<close> is kept as a root,
  three or more slashes are one); \<open>.\<close> for an empty path.
\<close>

fun split_on :: "char \<Rightarrow> string \<Rightarrow> string \<Rightarrow> string list" where
  "split_on c cur [] = [rev cur]"
| "split_on c cur (x # xs) = (if x = c then rev cur # split_on c [] xs else split_on c (x # cur) xs)"

definition py_str_path :: "string \<Rightarrow> string" where
  "py_str_path p =
     (let root = (if p = [] \<or> hd p \<noteq> CHR ''/'' then []
                  else if take 2 p = ''//'' \<and> take 3 p \<noteq> ''///'' then ''//'' else ''/'');
          parts = filter (\<lambda>x. x \<noteq> [] \<and> x \<noteq> ''.'') (split_on (CHR ''/'') [] p);
          s = root @ py_join ''/'' parts
      in if s = [] then ''.'' else s)"

text \<open>
  Lines 423--425. The task is used through \<open>str\<close> (printed, in the row) and through
  comparisons with the family lists, which a non-string value never passes, so it is kept
  as its \<open>str\<close>. The model name is kept as its \<open>str\<close> too, except that \<open>null\<close> is
  kept as \<open>None\<close>, which prints as \<open>None\<close> but is written to the CSV file as the empty
  field. \<open>Path(...)\<close> is kept as its normalised string, the path the file is read from.
\<close>

definition mapping_of_json :: "json \<Rightarrow> py_error + file_mapping" where
  "mapping_of_json mapping =
     (case py_getitem mapping ''model_name'' of
        Inl e \<Rightarrow> Inl e
      | Inr name_value \<Rightarrow>
          (case py_getitem mapping ''task'' of
             Inl e \<Rightarrow> Inl e
           | Inr task_value \<Rightarrow>
               (case py_getitem mapping ''file_path'' of
                  Inl e \<Rightarrow> Inl e
                | Inr fp \<Rightarrow>
                    (case py_path fp of
                       Inl e \<Rightarrow> Inl e
                     | Inr path \<Rightarrow>
                         Inr \<lparr>mapping_model_name = (if name_value = JNull then None else Some (py_str_json name_value)),
                              mapping_task = py_str_json task_value, file_path = py_str_path path\<rparr>))))"

definition print_line :: "string \<Rightarrow> string" where
  "print_line s = s @ [lf]"

text \<open>What one item prints (lines 427, 442 and 461).\<close>

definition item_log :: "file_mapping \<Rightarrow> item_result \<Rightarrow> string" where
  "item_log mapping r =
     print_line (''Processing '' @ py_str_or_none (mapping_model_name mapping) @ '' - '' @ mapping_task mapping @ ''...'') @
     (case r of
        Skipped \<Rightarrow> print_line (''Unknown task: '' @ mapping_task mapping)
      | Raised e \<Rightarrow> print_line (''Error processing '' @ file_path mapping @ '': '' @ py_str e)
      | Validated _ \<Rightarrow> [])"

text \<open>The loop of \<open>process_all_files\<close> over the loaded entries, with what it has printed
  so far: an entry that cannot be read ends the whole run with its exception; \<open>None\<close>
  when a validator runs forever.\<close>

fun process_entries ::
  "environment \<Rightarrow> json list \<Rightarrow> string \<times> report_row list \<Rightarrow> (string \<times> (py_error + report_row list)) option" where
  "process_entries env [] (out, results) = Some (out, Inr results)"
| "process_entries env (entry # entries) (out, results) =
     (case mapping_of_json entry of
        Inl e \<Rightarrow> Some (out, Inl e)
      | Inr mapping \<Rightarrow> do {
          r \<leftarrow> run_item env mapping;
          process_entries env entries (out @ item_log mapping r, record_item mapping r results) })"

text \<open>The whole function, with its standard output (the last line is printed after the
  file was written, line 483).\<close>

definition process_all_files_json ::
  "environment \<Rightarrow> json \<Rightarrow> string \<Rightarrow> (string \<times> (py_error + report_row list)) option" where
  "process_all_files_json env file_mappings output_csv =
     (case py_iter file_mappings of
        Inl e \<Rightarrow> Some ([], Inl e)
      | Inr entries \<Rightarrow>
          map_option (\<lambda>(out, res).
              case res of
                Inl e \<Rightarrow> (out, Inl e)
              | Inr results \<Rightarrow>
                  (case write_output output_csv results of
                     Inl e \<Rightarrow> (out, Inl e)
                   | Inr rows \<Rightarrow> (out @ print_line ([lf] @ ''Results written to '' @ output_csv), Inr rows)))
            (process_entries env entries ([], [])))"

subsection \<open>\<open>__main__\<close>\<close>

record cli_args =
  mappings_arg :: string
  output_arg :: string

text \<open>The collaborators \<open>__main__\<close> builds (lines 513--523): both diff collaborators exist.\<close>

definition main_environment ::
  "(string \<Rightarrow> py_error + string) \<Rightarrow> parser \<Rightarrow> kotlin_query language \<Rightarrow> parser \<Rightarrow> query \<Rightarrow> environment" where
  "main_environment read kp kl dp dq =
     \<lparr>read_file = read, kotlin_parser = kp, kotlin_language = kl, diff_parser = Some dp, diff_query = Some dq\<rparr>"

text \<open>The summary printed for each result (lines 535--538).\<close>

definition summary_output :: "report_row list \<Rightarrow> string" where
  "summary_output results =
     concat (map (\<lambda>r.
       py_str_or_none (model_name r) @ '' - '' @ task r @ '': Valid='' @ py_str_bool (is_valid r) @ [lf] @
       ''  Success ('' @ py_str_nat (success_validation_count r) @ ''): '' @ success_validation_list r @ [lf] @
       ''  Failed ('' @ py_str_nat (failed_validation_count r) @ ''): '' @ failed_validation_list r @ [lf, lf])
       results)"

text \<open>
  A run: the loaded manifest (or the exception of loading it), the processing, and on
  success the returned rows and the content of the CSV file; with everything printed to
  standard output, the summary of lines 535--538 last.
\<close>

definition main ::
  "(string \<Rightarrow> py_error + json) \<Rightarrow> environment \<Rightarrow> cli_args \<Rightarrow> ((py_error + report_row list \<times> string) \<times> string) option" where
  "main load_json env args =
     (case load_json (mappings_arg args) of
        Inl e \<Rightarrow> Some (Inl e, [])
      | Inr file_mappings \<Rightarrow>
          map_option (\<lambda>(out, res).
              case res of
                Inl e \<Rightarrow> (Inl e, out)
              | Inr results \<Rightarrow> (Inr (results, report_csv results), out @ summary_output results))
            (process_all_files_json env file_mappings (output_arg args)))"

declare py_type_name_def [model_simps] py_str_int_def [model_simps] py_str_json_def [model_simps]
  py_iter_def [model_simps] py_getitem_def [model_simps] py_path_def [model_simps]
  mapping_of_json_def [model_simps] py_str_path_def [model_simps] print_line_def [model_simps]
  item_log_def [model_simps] process_all_files_json_def [model_simps]
  main_environment_def [model_simps] summary_output_def [model_simps] main_def [model_simps]

text \<open>A well-formed manifest entry.\<close>

definition sample_entry :: json where
  "sample_entry = JObj [(''model_name'', JStr ''model-a''), (''task'', JStr ''test1-unit-test''),
     (''file_path'', JStr ''out/model-a/UnitTest.kt'')]"

subsection \<open>The run on loaded manifests\<close>

lemma process_entries_mappings:
  assumes "list_all2 (\<lambda>entry mapping. mapping_of_json entry = Inr mapping) entries mappings"
  shows "map_option snd (process_entries env entries (out, acc)) =
    map_option Inr (fold_option (\<lambda>results mapping. map_option (\<lambda>r. record_item mapping r results) (run_item env mapping)) mappings acc)"
  using assms
proof (induction arbitrary: out acc rule: list_all2_induct)
  case Nil
  then show ?case by simp
next
  case (Cons entry entries mapping mappings)
  then show ?case by (cases "run_item env mapping") simp_all
qed

lemma process_entries_stdout:
  assumes "list_all2 (\<lambda>entry mapping. mapping_of_json entry = Inr mapping) entries mappings"
    and "list_all2 (\<lambda>mapping r. run_item env mapping = Some r) mappings rs"
  shows "map_option fst (process_entries env entries (out, acc)) = Some (out @ concat (map2 item_log mappings rs))"
  using assms
proof (induction entries arbitrary: mappings rs out acc)
  case Nil
  then show ?case by simp
next
  case (Cons entry entries)
  then obtain mapping ms r rs' where "mappings = mapping # ms" "rs = r # rs'"
    by (auto simp: list_all2_Cons1)
  with Cons show ?case
    using Cons.IH [of ms rs' "out @ item_log mapping r" "record_item mapping r acc"] by auto
qed

lemma run_items_total:
  assumes "\<forall>s. wf_tree (kotlin_parser env s)"
  shows "\<exists>rs. list_all2 (\<lambda>mapping r. run_item env mapping = Some r) mappings rs"
proof (induction mappings)
  case Nil
  then show ?case by simp
next
  case (Cons mapping mappings)
  obtain r where "run_item env mapping = Some r" using run_item_total assms by blast
  with Cons show ?case by (auto simp: list_all2_Cons1)
qed

lemma process_entries_prefix:
  assumes "list_all2 (\<lambda>entry mapping. mapping_of_json entry = Inr mapping) entries mappings"
    and "\<forall>s. wf_tree (kotlin_parser env s)"
  shows "\<exists>acc'. process_entries env (entries @ rest) acc = process_entries env rest acc'"
  using assms(1)
proof (induction arbitrary: acc rule: list_all2_induct)
  case Nil
  have "process_entries env ([] @ rest) acc = process_entries env rest acc" by simp
  then show ?case by blast
next
  case (Cons entry entries mapping mappings)
  obtain r where "run_item env mapping = Some r" using run_item_total assms(2) by blast
  with Cons show ?case by (cases acc) simp
qed

text \<open>
  C30. A manifest entry that lacks a key, or is not a dictionary, ends the whole run with
  its exception (the lookups of lines 423--425 are outside the \<open>try\<close> block): even when
  every earlier item was processed, no row is returned and no report is written. The
  specification catches every exception raised while reading an item.
\<close>

theorem entry_error_aborts_run:
  assumes "list_all2 (\<lambda>entry mapping. mapping_of_json entry = Inr mapping) entries mappings"
    and "mapping_of_json bad = Inl e" and "\<forall>s. wf_tree (kotlin_parser env s)"
  shows "map_option snd (process_all_files_json env (JArr (entries @ bad # rest)) output_csv) = Some (Inl e)"
proof -
  obtain acc' where "process_entries env (entries @ bad # rest) ([], []) = process_entries env (bad # rest) acc'"
    using process_entries_prefix [OF assms(1,3)] by blast
  with assms(2) show ?thesis by (cases acc') (simp add: process_all_files_json_def py_iter_def)
qed

text \<open>
  C32. What \<open>process_all_files\<close> prints on a manifest of well-formed entries: the lines
  of each item in manifest order (\<open>Processing ...\<close>, then \<open>Unknown task: ...\<close> for
  a skipped item or \<open>Error processing ...\<close> with the exception's message for a failed
  one), and then the results line, exactly when the output path has a directory part
  (otherwise \<open>os.makedirs\<close> raises before it is printed).
\<close>

theorem process_all_files_stdout:
  assumes "list_all2 (\<lambda>entry mapping. mapping_of_json entry = Inr mapping) entries mappings"
    and "list_all2 (\<lambda>mapping r. run_item env mapping = Some r) mappings rs"
  shows "map_option fst (process_all_files_json env (JArr entries) output_csv) =
    Some (concat (map2 item_log mappings rs) @
          (if CHR ''/'' \<in> set output_csv then print_line ([lf] @ ''Results written to '' @ output_csv) else []))"
proof -
  have out: "map_option fst (process_entries env entries ([], [])) = Some (concat (map2 item_log mappings rs))"
    using process_entries_stdout [OF assms, of "[]" "[]"] by simp
  have res: "map_option snd (process_entries env entries ([], [])) =
      map_option Inr (fold_option (\<lambda>results mapping. map_option (\<lambda>r. record_item mapping r results) (run_item env mapping)) mappings [])"
    by (rule process_entries_mappings [OF assms(1)])
  from out obtain r where pe: "process_entries env entries ([], []) = Some (concat (map2 item_log mappings rs), r)"
    by auto
  with res have "map_option Inr (fold_option (\<lambda>results mapping. map_option (\<lambda>r. record_item mapping r results)
      (run_item env mapping)) mappings []) = Some r" by simp
  then obtain rows where "r = Inr rows" by (auto simp: map_option_eq_Some)
  with pe show ?thesis
    using os_path_dirname_empty_iff [of output_csv]
    by (simp add: process_all_files_json_def py_iter_def write_output_def os_makedirs_def)
qed

text \<open>
  C31. On a manifest that is a list of well-formed entries, a run of \<open>__main__\<close> is the
  batch of the modelled \<open>process_all_files\<close> on the entries' mappings (the same rows,
  the same CSV file), and when it succeeds its standard output ends with the line that
  names the written file followed by the printed summary of the rows.
\<close>

theorem main_refines_batch:
  assumes "load_json (mappings_arg args) = Inr (JArr entries)"
    and "list_all2 (\<lambda>entry mapping. mapping_of_json entry = Inr mapping) entries mappings"
  shows "map_option fst (main load_json env args) = write_report env mappings (output_arg args) \<and>
    (\<forall>rows content out. main load_json env args = Some (Inr (rows, content), out) \<longrightarrow>
       (\<exists>log. out = log @ print_line ([lf] @ ''Results written to '' @ output_arg args) @ summary_output rows))"
proof -
  have pe: "map_option snd (process_entries env entries ([], [])) = map_option Inr (process_items env mappings)"
    using process_entries_mappings [OF assms(2)] by (simp add: process_items_def)
  show ?thesis
  proof (cases "process_entries env entries ([], [])")
    case None
    with pe assms(1) show ?thesis
      by (simp add: main_def process_all_files_json_def py_iter_def write_report_def process_all_files_def)
  next
    case (Some r)
    with pe obtain out results where "r = (out, Inr results)" "process_items env mappings = Some results"
      by (cases r; cases "process_items env mappings") auto
    with Some assms(1) show ?thesis
      by (cases "write_output (output_arg args) results")
         (auto simp: main_def process_all_files_json_def py_iter_def write_report_def process_all_files_def)
  qed
qed

theorem entry_error_aborts_run_witness:
  "map_option snd (process_all_files_json sample_env (JArr [sample_entry, JObj [(''model_name'', JStr ''m''), (''task'', JStr ''t'')]])
     ''build/validation_results.csv'') = Some (Inl (KeyError ''file_path''))"
  using entry_error_aborts_run [of "[sample_entry]" "[sample_mapping]" "JObj [(''model_name'', JStr ''m''), (''task'', JStr ''t'')]"
      "KeyError ''file_path''" sample_env "[]" "''build/validation_results.csv''"]
  by (simp add: sample_entry_def sample_mapping_def sample_env_def expr_preview_tree_wf model_simps)

theorem process_all_files_stdout_witness:
  "map_option fst (process_all_files_json sample_env (JArr [sample_entry]) ''build/out.csv'') =
    Some (''Processing model-a - test1-unit-test...'' @ [lf] @
          ''Error processing out/model-a/UnitTest.kt: Unknown Kotlin task: test1-unit-test'' @ [lf] @
          [lf] @ ''Results written to build/out.csv'' @ [lf])"
  using process_all_files_stdout [of "[sample_entry]" "[sample_mapping]" sample_env
      "[Raised (ValueError ''Unknown Kotlin task: test1-unit-test'')]" "''build/out.csv''"]
  by (simp add: sample_entry_def sample_mapping_def sample_env_def expr_preview_tree_wf model_simps)

theorem main_refines_batch_witness:
  "map_option fst (main (\<lambda>_. Inr (JArr [sample_entry])) sample_env \<lparr>mappings_arg = ''mappings.json'', output_arg = ''build/out.csv''\<rparr>) =
    write_report sample_env [sample_mapping] ''build/out.csv'' \<and>
   (\<exists>rows content out log.
      main (\<lambda>_. Inr (JArr [sample_entry])) sample_env \<lparr>mappings_arg = ''mappings.json'', output_arg = ''build/out.csv''\<rparr>
        = Some (Inr (rows, content), out) \<and>
      out = log @ print_line ([lf] @ ''Results written to '' @ ''build/out.csv'') @ summary_output rows)"
  using main_refines_batch [of "\<lambda>_. Inr (JArr [sample_entry])" "\<lparr>mappings_arg = ''mappings.json'', output_arg = ''build/out.csv''\<rparr>"
      "[sample_entry]" "[sample_mapping]" sample_env]
  by (simp add: sample_entry_def sample_mapping_def sample_env_def expr_preview_tree_wf model_simps)

end
