(* ===== verification/Cli.thy ===== *)
theory Cli
  imports Main_Entry
begin

text \<open>
  The command line of \<^verbatim>\<open>src/run_validation.py\<close> (lines 493--509): an
  \<open>argparse.ArgumentParser\<close> with a required \<open>--mappings\<close> option, an \<open>--output\<close>
  option defaulting to \<open>validation_results.csv\<close>, and the automatic \<open>-h\<close>/\<open>--help\<close>.
  \<open>parse_cli\<close> follows \<open>parse_args\<close>: every argument is first classified
  (\<open>_parse_optional\<close>: exact option, \<open>--opt=value\<close>, unique prefix, negative number or
  string with a space as a positional, otherwise an unknown option), then consumed from
  left to right; afterwards the required option is checked and leftover arguments are
  reported. The model covers the arguments on which Python 3.8 to 3.12 agree; an argument
  list holding \<open>--\<close> or a single-dash argument that extends \<open>-h\<close> (such as \<open>-hx\<close>),
  whose treatment changed between those versions, is reported as outside the model.
\<close>

datatype cli_action = Help_action | Mappings_action | Output_action

definition option_string_actions :: "(string \<times> cli_action) list" where
  "option_string_actions =
     [(''-h'', Help_action), (''--help'', Help_action), (''--mappings'', Mappings_action),
      (''--output'', Output_action)]"

definition action_name :: "cli_action \<Rightarrow> string" where
  "action_name a =
     (case a of Help_action \<Rightarrow> ''-h/--help'' | Mappings_action \<Rightarrow> ''--mappings'' | Output_action \<Rightarrow> ''--output'')"

datatype arg_class = Positional | Optional cli_action "string option" | Unknown_optional

definition is_digit :: "char \<Rightarrow> bool" where
  "is_digit c \<longleftrightarrow> (48::nat) \<le> of_char c \<and> (of_char c :: nat) \<le> 57"

text \<open>\<open>_negative_number_matcher\<close>: \<open>^-\d+$|^-\d*\.\d+$\<close>.\<close>

definition looks_negative :: "string \<Rightarrow> bool" where
  "looks_negative s =
     (case s of
        [] \<Rightarrow> False
      | c # r \<Rightarrow>
          c = CHR ''-'' \<and>
          ((r \<noteq> [] \<and> list_all is_digit r) \<or>
           (let a = takeWhile (\<lambda>x. x \<noteq> CHR ''.'') r; b = dropWhile (\<lambda>x. x \<noteq> CHR ''.'') r
            in list_all is_digit a \<and> b \<noteq> [] \<and> tl b \<noteq> [] \<and> list_all is_digit (tl b))))"

text \<open>\<open>_get_option_tuples\<close> for a \<open>--\<close> argument: the options the part before \<open>=\<close>
  abbreviates, with the text after \<open>=\<close> as explicit argument.\<close>

definition long_matches :: "string \<Rightarrow> (cli_action \<times> string option) list" where
  "long_matches s =
     (let option_prefix = takeWhile (\<lambda>c. c \<noteq> CHR ''='') s;
          explicit_arg = (if CHR ''='' \<in> set s then Some (tl (dropWhile (\<lambda>c. c \<noteq> CHR ''='') s)) else None)
      in map (\<lambda>oa. (snd oa, explicit_arg)) (filter (\<lambda>oa. prefix option_prefix (fst oa)) option_string_actions))"

definition ambiguous_message :: "string \<Rightarrow> string" where
  "ambiguous_message s =
     ''ambiguous option: '' @ s @ '' could match '' @
     py_join '', '' (map fst (filter (\<lambda>oa. prefix (takeWhile (\<lambda>c. c \<noteq> CHR ''='') s) (fst oa)) option_string_actions))"

text \<open>\<open>_parse_optional\<close>; \<open>Inl\<close> is the error for an ambiguous abbreviation.\<close>

definition parse_optional :: "string \<Rightarrow> string + arg_class" where
  "parse_optional s =
     (if s = [] \<or> hd s \<noteq> CHR ''-'' then Inr Positional
      else case map_of option_string_actions s of
        Some a \<Rightarrow> Inr (Optional a None)
      | None \<Rightarrow>
          if length s = 1 then Inr Positional
          else
            (case (if CHR ''='' \<in> set s then map_of option_string_actions (takeWhile (\<lambda>c. c \<noteq> CHR ''='') s) else None) of
               Some a \<Rightarrow> Inr (Optional a (Some (tl (dropWhile (\<lambda>c. c \<noteq> CHR ''='') s))))
             | None \<Rightarrow>
                 (let tuples = (if take 2 s = ''--'' then long_matches s else [])
                  in if 1 < length tuples then Inl (ambiguous_message s)
                     else if length tuples = 1 then Inr (Optional (fst (hd tuples)) (snd (hd tuples)))
                     else if looks_negative s \<or> CHR '' '' \<in> set s then Inr Positional
                     else Inr Unknown_optional)))"

fun classify_args :: "string list \<Rightarrow> string + arg_class list" where
  "classify_args [] = Inr []"
| "classify_args (s # ss) =
     (case parse_optional s of
        Inl msg \<Rightarrow> Inl msg
      | Inr c \<Rightarrow> (case classify_args ss of Inl msg \<Rightarrow> Inl msg | Inr cs \<Rightarrow> Inr (c # cs)))"

record cli_state =
  seen_mappings :: "string option"
  seen_output :: "string option"
  extras :: "string list"

definition store_action :: "cli_action \<Rightarrow> string \<Rightarrow> cli_state \<Rightarrow> cli_state" where
  "store_action a v st =
     (case a of Mappings_action \<Rightarrow> st\<lparr>seen_mappings := Some v\<rparr>
      | Output_action \<Rightarrow> st\<lparr>seen_output := Some v\<rparr>
      | Help_action \<Rightarrow> st)"

datatype cli_result = Cli_args cli_args | Cli_help | Cli_error string | Cli_unmodelled

text \<open>After the arguments: the required option, the leftovers (\<open>parse_args\<close>), the default.\<close>

definition cli_finish :: "cli_state \<Rightarrow> cli_result" where
  "cli_finish st =
     (case seen_mappings st of
        None \<Rightarrow> Cli_error ''the following arguments are required: --mappings''
      | Some m \<Rightarrow>
          if extras st \<noteq> [] then Cli_error (''unrecognized arguments: '' @ py_join '' '' (extras st))
          else Cli_args \<lparr>mappings_arg = m,
                         output_arg = (case seen_output st of None \<Rightarrow> default_output_csv | Some out \<Rightarrow> out)\<rparr>)"

text \<open>\<open>consume_optional\<close> and the leftovers: a store option takes its explicit argument or
  the next argument when that is a positional; help prints and exits at once.\<close>

fun consume_args :: "(string \<times> arg_class) list \<Rightarrow> cli_state \<Rightarrow> cli_result" where
  "consume_args [] st = cli_finish st"
| "consume_args ((s, Positional) # rest) st = consume_args rest (st\<lparr>extras := extras st @ [s]\<rparr>)"
| "consume_args ((s, Unknown_optional) # rest) st = consume_args rest (st\<lparr>extras := extras st @ [s]\<rparr>)"
| "consume_args ((s, Optional Help_action None) # rest) st = Cli_help"
| "consume_args ((s, Optional Help_action (Some x)) # rest) st =
     Cli_error (''argument -h/--help: ignored explicit argument '' @ py_repr_str x)"
| "consume_args ((s, Optional a (Some x)) # rest) st = consume_args rest (store_action a x st)"
| "consume_args ((s, Optional a None) # (v, Positional) # rest) st = consume_args rest (store_action a v st)"
| "consume_args ((s, Optional a None) # rest) st =
     Cli_error (''argument '' @ action_name a @ '': expected one argument'')"

definition cli_in_model :: "string list \<Rightarrow> bool" where
  "cli_in_model argv = list_all (\<lambda>s. s \<noteq> ''--'' \<and> (prefix ''-h'' s \<longrightarrow> s = ''-h'')) argv"

definition parse_cli :: "string list \<Rightarrow> cli_result" where
  "parse_cli argv =
     (if \<not> cli_in_model argv then Cli_unmodelled
      else case classify_args argv of
        Inl msg \<Rightarrow> Cli_error msg
      | Inr classes \<Rightarrow> consume_args (zip argv classes) \<lparr>seen_mappings = None, seen_output = None, extras = []\<rparr>)"

subsection \<open>The script\<close>

text \<open>What a run of the script ends with: a usage error (exit status 2), the help (exit
  status 0), an exception with what was printed before it, or the rows, the CSV file and
  the standard output.\<close>

datatype program_outcome = Usage_error string | Help_shown | Outside_model
  | Raised_exception py_error string | Completed "report_row list" string string

definition run_program :: "string list \<Rightarrow> (string \<Rightarrow> py_error + json) \<Rightarrow> environment \<Rightarrow> program_outcome option" where
  "run_program argv load_json env =
     (case parse_cli argv of
        Cli_error msg \<Rightarrow> Some (Usage_error msg)
      | Cli_help \<Rightarrow> Some Help_shown
      | Cli_unmodelled \<Rightarrow> Some Outside_model
      | Cli_args args \<Rightarrow>
          map_option (\<lambda>(r, out). case r of Inl e \<Rightarrow> Raised_exception e out | Inr (rows, content) \<Rightarrow> Completed rows content out)
            (main load_json env args))"

declare option_string_actions_def [model_simps] action_name_def [model_simps] is_digit_def [model_simps]
  looks_negative_def [model_simps] long_matches_def [model_simps] ambiguous_message_def [model_simps]
  parse_optional_def [model_simps] store_action_def [model_simps] cli_finish_def [model_simps]
  cli_in_model_def [model_simps] parse_cli_def [model_simps] run_program_def [model_simps]

subsection \<open>Properties of the command line\<close>

text \<open>The behaviours of the parser on the usual mistakes, as Python reports them.\<close>

lemma cli_errors:
  "parse_cli [''--output'', ''x''] = Cli_error ''the following arguments are required: --mappings''"
  "parse_cli [''--mappings'', ''--output'', ''x''] = Cli_error ''argument --mappings: expected one argument''"
  "parse_cli [''--mappings'', ''m'', ''extra'', ''-x''] = Cli_error ''unrecognized arguments: extra -x''"
  "parse_cli [''--=x''] = Cli_error ''ambiguous option: --=x could match --help, --mappings, --output''"
  "parse_cli [''-h'', ''--mappings''] = Cli_help"
  by (simp_all add: model_simps)

text \<open>
  C28. The command line round trip: for any two strings, the arguments
  \<open>--mappings=M --output=O\<close> parse to exactly those options, whatever the strings
  contain (dashes, spaces, equals signs, the empty string).
\<close>

theorem parse_cli_roundtrip:
  "parse_cli [''--mappings='' @ m, ''--output='' @ out] = Cli_args \<lparr>mappings_arg = m, output_arg = out\<rparr>"
  by (simp add: model_simps)

lemma parse_cli_mappings_only:
  "parse_cli [''--mappings='' @ m] = Cli_args \<lparr>mappings_arg = m, output_arg = default_output_csv\<rparr>"
  by (simp add: model_simps del: default_output_csv_def)

text \<open>
  C21. Running the script without \<open>--output\<close> on a manifest of well-formed entries
  processes every item, printing each item's lines, and then fails: the documented
  default \<open>validation_results.csv\<close> has no directory part, so \<open>os.makedirs('')\<close>
  raises \<open>FileNotFoundError\<close>, no report is written and the results line and the
  summary are never printed.
\<close>

theorem default_invocation_fails:
  assumes "load_json m = Inr (JArr entries)"
    and "list_all2 (\<lambda>entry mapping. mapping_of_json entry = Inr mapping) entries mappings"
    and "\<forall>s. wf_tree (kotlin_parser env s)"
  shows "\<exists>rs. list_all2 (\<lambda>mapping r. run_item env mapping = Some r) mappings rs \<and>
    run_program [''--mappings='' @ m] load_json env =
      Some (Raised_exception (OSError (''[Errno 2] No such file or directory: '' @ [CHR 0x27, CHR 0x27]))
        (concat (map2 item_log mappings rs)))"
proof -
  obtain rs where rs: "list_all2 (\<lambda>mapping r. run_item env mapping = Some r) mappings rs"
    using run_items_total [OF assms(3)] by blast
  obtain rows where rows: "process_items env mappings = Some rows"
    using process_items_total [of env mappings] assms(3) by blast
  have "process_entries env entries ([], []) = Some (concat (map2 item_log mappings rs), Inr rows)"
    using process_entries_mappings [OF assms(2), of env "[]" "[]"]
      process_entries_stdout [OF assms(2) rs, of "[]" "[]"] rows
    by (cases "process_entries env entries ([], [])") (auto simp: process_items_def)
  then have "main load_json env \<lparr>mappings_arg = m, output_arg = default_output_csv\<rparr> =
      Some (Inl (OSError (''[Errno 2] No such file or directory: '' @ [CHR 0x27, CHR 0x27])),
        concat (map2 item_log mappings rs))"
    using assms(1) by (simp add: main_def process_all_files_json_def py_iter_def write_output_def
        default_output_csv_def os_path_dirname_def os_makedirs_def)
  then have "run_program [''--mappings='' @ m] load_json env =
      Some (Raised_exception (OSError (''[Errno 2] No such file or directory: '' @ [CHR 0x27, CHR 0x27]))
        (concat (map2 item_log mappings rs)))"
    unfolding run_program_def parse_cli_mappings_only by simp
  with rs show ?thesis by blast
qed

theorem default_invocation_fails_witness:
  "run_program [''--mappings=mappings.json''] (\<lambda>_. Inr (JArr [sample_entry])) sample_env =
    Some (Raised_exception (OSError (''[Errno 2] No such file or directory: '' @ [CHR 0x27, CHR 0x27]))
      (''Processing model-a - test1-unit-test...'' @ [lf] @
       ''Error processing out/model-a/UnitTest.kt: Unknown Kotlin task: test1-unit-test'' @ [lf]))"
  using default_invocation_fails [of "\<lambda>_. Inr (JArr [sample_entry])" "''mappings.json''" "[sample_entry]" "[sample_mapping]" sample_env]
  by (auto simp: sample_entry_def sample_mapping_def sample_env_def expr_preview_tree_wf model_simps list_all2_Cons1)

end
