(* ===== verification/Merge.thy ===== *)
theory Merge
  imports Csv "HOL-Library.AList"
begin

text \<open>
  The CSV merge script \<^verbatim>\<open>src/merge_csv.py\<close>: it collects the files
  \<open>build/test*/execution-results.csv\<close>, reads each with \<open>csv.DictReader\<close>, prefixes every
  row with the name of its directory as \<open>test_name\<close>, and writes all rows with a
  \<open>csv.DictWriter\<close> whose header is \<open>test_name\<close> followed by the first file's columns.
  The directory listing is an input (its order is the order \<open>Path.glob\<close> yields);
  Python dictionaries are association lists with Python's insertion-order semantics; the
  outcome says whether the output file was written, and how far, and the script's
  printed line comes with it.
\<close>

record dir_entry =
  entry_dir :: string
  entry_file :: string
  entry_content :: string

text \<open>\<open>BUILD_DIR.glob("test*/execution-results.csv")\<close> (lines 9--11), with each file's content.\<close>

definition merge_glob :: "dir_entry list \<Rightarrow> (string \<times> string) list" where
  "merge_glob entries =
     map (\<lambda>e. (entry_dir e, entry_content e))
       (filter (\<lambda>e. prefix ''test'' (entry_dir e) \<and> entry_file e = ''execution-results.csv'') entries)"

subsection \<open>\<open>csv.DictReader\<close>\<close>

text \<open>Keys and values of a row dictionary: \<open>restkey\<close> and \<open>restval\<close> are \<open>None\<close>.\<close>

datatype csv_key = Key string | Restkey
datatype csv_value = Str string | Restvals "string list" | Restval

type_synonym row_dict = "(csv_key \<times> csv_value) list"

text \<open>\<open>DictReader.__next__\<close>: \<open>dict(zip(fieldnames, row))\<close>, then the surplus values under
  \<open>restkey\<close> or the missing keys set to \<open>restval\<close>.\<close>

definition dict_reader_row :: "string list \<Rightarrow> string list \<Rightarrow> row_dict" where
  "dict_reader_row fieldnames row =
     (let d = fold (\<lambda>kv d. dict_set d (Key (fst kv)) (Str (snd kv))) (zip fieldnames row) [];
          lf = length fieldnames; lr = length row
      in if lf < lr then dict_set d Restkey (Restvals (drop lf row))
         else if lr < lf then fold (\<lambda>k d. dict_set d (Key k) Restval) (drop lr fieldnames) d
         else d)"

text \<open>The field names (the first record, \<open>None\<close> for an empty file) and the rows; blank
  records are skipped.\<close>

definition dict_reader :: "string list list \<Rightarrow> string list option \<times> row_dict list" where
  "dict_reader rows =
     (case rows of
        [] \<Rightarrow> (None, [])
      | fieldnames # data \<Rightarrow> (Some fieldnames, map (dict_reader_row fieldnames) (filter (\<lambda>row. row \<noteq> []) data)))"

subsection \<open>The merge loop (lines 16--30)\<close>

text \<open>\<open>{"test_name": test_name, **row}\<close>\<close>

definition with_test_name :: "string \<Rightarrow> row_dict \<Rightarrow> row_dict" where
  "with_test_name test_name row = fold (\<lambda>kv d. dict_set d (fst kv) (snd kv)) row [(Key ''test_name'', Str test_name)]"

text \<open>\<open>["test_name"] + reader.fieldnames\<close> when the first file is empty.\<close>

definition none_concat_error :: py_error where
  "none_concat_error = TypeError (''can only concatenate list (not '' @ [dquote] @ ''NoneType'' @ [dquote] @ '') to list'')"

definition merge_step ::
  "string list option \<times> row_dict list \<Rightarrow> string \<times> string \<Rightarrow> py_error + (string list option \<times> row_dict list)" where
  "merge_step acc csv_file =
     (case acc of (header, merged_rows) \<Rightarrow>
      case csv_file of (test_name, content) \<Rightarrow>
      case csv_read content of
        Inl e \<Rightarrow> Inl e
      | Inr rows \<Rightarrow>
          (case dict_reader rows of (fieldnames, data) \<Rightarrow>
           case header of
             None \<Rightarrow>
               (case fieldnames of
                  None \<Rightarrow> Inl none_concat_error
                | Some fs \<Rightarrow> Inr (Some (''test_name'' # fs), merged_rows @ map (with_test_name test_name) data))
           | Some h \<Rightarrow> Inr (Some h, merged_rows @ map (with_test_name test_name) data)))"

subsection \<open>\<open>csv.DictWriter\<close> (lines 33--36)\<close>

text \<open>\<open>repr\<close> of a key for the error message.\<close>

definition py_repr_key :: "csv_key \<Rightarrow> string" where
  "py_repr_key k = (case k of Restkey \<Rightarrow> ''None'' | Key s \<Rightarrow> py_repr_str s)"

text \<open>
  \<open>DictWriter._dict_to_list\<close> with \<open>extrasaction='raise'\<close> and \<open>restval=''\<close>: a key
  outside the field names raises \<open>ValueError\<close> (Python lists the keys of a set, in no
  fixed order; the model lists them in the dictionary's order); \<open>None\<close> is written as
  the empty string. Only \<open>restkey\<close> holds a list of values, and it is never a field name.
\<close>

definition dict_to_list :: "string list \<Rightarrow> row_dict \<Rightarrow> py_error + string list" where
  "dict_to_list fieldnames rowdict =
     (let wrong_fields = filter (\<lambda>k. k \<notin> Key ` set fieldnames) (map fst rowdict)
      in if wrong_fields \<noteq> []
         then Inl (ValueError (''dict contains fields not in fieldnames: '' @
                                py_join '', '' (map py_repr_key wrong_fields)))
         else Inr (map (\<lambda>k. case map_of rowdict (Key k) of
                               Some (Str s) \<Rightarrow> s
                             | _ \<Rightarrow> []) fieldnames))"

text \<open>\<open>writer.writerows(merged_rows)\<close>: the rows written before the first one that raises.\<close>

fun write_rows :: "string list \<Rightarrow> row_dict list \<Rightarrow> string \<times> py_error option" where
  "write_rows fieldnames [] = ([], None)"
| "write_rows fieldnames (d # ds) =
     (case dict_to_list fieldnames d of
        Inl e \<Rightarrow> ([], Some e)
      | Inr vals \<Rightarrow> (case write_rows fieldnames ds of (txt, err) \<Rightarrow> (csv_writerow vals @ txt, err)))"

datatype merge_outcome = Not_written py_error | Partially_written string py_error | Written string

definition no_files_error :: py_error where
  "no_files_error = OSError ''No execution-results.csv files found.''"

definition merge_csv :: "dir_entry list \<Rightarrow> merge_outcome" where
  "merge_csv entries =
     (let csv_files = merge_glob entries in
      if csv_files = [] then Not_written no_files_error
      else
        (case fold_error merge_step csv_files (None, []) of
           Inl e \<Rightarrow> Not_written e
         | Inr (header, merged_rows) \<Rightarrow>
             (case header of
                None \<Rightarrow> Partially_written [] (TypeError ''zip argument #1 must support iteration'')
              | Some h \<Rightarrow>
                  (case write_rows h merged_rows of
                     (txt, None) \<Rightarrow> Written (csv_writerow h @ txt)
                   | (txt, Some e) \<Rightarrow> Partially_written (csv_writerow h @ txt) e))))"

text \<open>The script with its standard output: the line of line 38, printed once the file
  is written (\<open>OUTPUT_FILE\<close> prints as \<open>build/merged-execution-results.csv\<close>).\<close>

definition merge_script :: "dir_entry list \<Rightarrow> merge_outcome \<times> string" where
  "merge_script entries =
     (case merge_csv entries of
        Written txt \<Rightarrow>
          (Written txt, ''Merged '' @ py_str_nat (length (merge_glob entries)) @
             '' CSV files into build/merged-execution-results.csv'' @ [lf])
      | r \<Rightarrow> (r, []))"

declare merge_glob_def [model_simps] dict_reader_row_def [model_simps]
  dict_reader_def [model_simps] with_test_name_def [model_simps] none_concat_error_def [model_simps]
  merge_step_def [model_simps] py_repr_key_def [model_simps] dict_to_list_def [model_simps]
  no_files_error_def [model_simps] merge_csv_def [model_simps] merge_script_def [model_simps]

text \<open>The values of a row read under a header at least as long: the missing ones are \<open>restval\<close>.\<close>

definition padded_values :: "string list \<Rightarrow> string list \<Rightarrow> csv_value list" where
  "padded_values fieldnames row = map Str row @ replicate (length fieldnames - length row) Restval"

text \<open>The non-blank rows of all files with the name of their directory, in order.\<close>

definition merged_pairs :: "(string \<times> string) list \<Rightarrow> string list list list \<Rightarrow> (string \<times> string list) list" where
  "merged_pairs csv_files parsed =
     concat (map2 (\<lambda>csv_file rows. map (\<lambda>row. (fst csv_file, row)) (filter (\<lambda>row. row \<noteq> []) rows)) csv_files parsed)"


text \<open>A listing with two result directories, one of them with a blank line and a short row.\<close>

definition sample_listing :: "dir_entry list" where
  "sample_listing =
     [\<lparr>entry_dir = ''test1'', entry_file = ''execution-results.csv'', entry_content = ''a,b'' @ [cr, lf] @ ''1,2'' @ [cr, lf]\<rparr>,
      \<lparr>entry_dir = ''other'', entry_file = ''execution-results.csv'', entry_content = []\<rparr>,
      \<lparr>entry_dir = ''test2'', entry_file = ''execution-results.csv'', entry_content = ''a,b'' @ [cr, lf] @ [cr, lf] @ ''3'' @ [cr, lf]\<rparr>]"


subsection \<open>The merge as a concatenation\<close>

lemma fold_dict_set_fresh:
  assumes "distinct (map fst d @ map (\<lambda>x. fst (g x)) xs)"
  shows "fold (\<lambda>x d. dict_set d (fst (g x)) (snd (g x))) xs d = d @ map g xs"
  using assms
proof (induction xs arbitrary: d)
  case Nil
  then show ?case by simp
next
  case (Cons x xs)
  then have "fst (g x) \<notin> set (map fst d)" by auto
  then have "dict_set d (fst (g x)) (snd (g x)) = d @ [g x]" by (simp add: dict_set_def)
  with Cons show ?case by simp
qed

lemma map_of_zip_lookups:
  "length ks = length vs \<Longrightarrow> distinct ks \<Longrightarrow> map (map_of (zip ks vs)) ks = map Some vs"
proof (induction ks vs rule: list_induct2)
  case Nil
  then show ?case by simp
next
  case (Cons k ks v vs)
  from Cons.prems have "k \<notin> set ks" by simp
  then have "map (\<lambda>a. if a = k then Some v else map_of (zip ks vs) a) ks = map (map_of (zip ks vs)) ks"
    by (intro map_cong) auto
  with Cons show ?case by simp
qed

lemma length_padded_values:
  "length row \<le> length fieldnames \<Longrightarrow> length (padded_values fieldnames row) = length fieldnames"
  by (simp add: padded_values_def)

lemma distinct_map_Key: "distinct (map Key xs) = distinct xs"
  by (simp add: distinct_map inj_on_def)

lemma dict_reader_row_padded:
  assumes "distinct fieldnames" and "length row \<le> length fieldnames"
  shows "dict_reader_row fieldnames row = zip (map Key fieldnames) (padded_values fieldnames row)"
proof -
  let ?lr = "length row" and ?g = "\<lambda>kv. (Key (fst kv), Str (snd kv))"
  have "zip fieldnames row = zip (take ?lr fieldnames) row"
    using take_zip [of ?lr fieldnames row] by simp
  then have take_part: "map ?g (zip fieldnames row) = zip (map Key (take ?lr fieldnames)) (map Str row)"
    by (simp add: zip_map_map case_prod_beta)
  have "map fst (map ?g (zip fieldnames row)) = map Key (map fst (zip fieldnames row))"
    by simp
  also have "\<dots> = map Key (take ?lr fieldnames)"
    using assms(2) by (simp add: map_fst_zip_take min_absorb2)
  finally have keys: "map fst (map ?g (zip fieldnames row)) = map Key (take ?lr fieldnames)" .
  have "fold (\<lambda>kv d. dict_set d (Key (fst kv)) (Str (snd kv))) (zip fieldnames row) [] = map ?g (zip fieldnames row)"
    using fold_dict_set_fresh [of "[]" ?g "zip fieldnames row"] keys assms(1)
    by (simp add: distinct_map_Key comp_def)
  moreover have "fold (\<lambda>k d. dict_set d (Key k) Restval) (drop ?lr fieldnames) (map ?g (zip fieldnames row)) =
      map ?g (zip fieldnames row) @ map (\<lambda>k. (Key k, Restval)) (drop ?lr fieldnames)"
  proof -
    have "map Key (take ?lr fieldnames) @ map Key (drop ?lr fieldnames) = map Key fieldnames"
      by (simp flip: map_append)
    then have "distinct (map fst (map ?g (zip fieldnames row)) @ map (\<lambda>k. fst (Key k, Restval)) (drop ?lr fieldnames))"
      using assms(1) unfolding keys by (simp add: distinct_map_Key del: map_map)
    from fold_dict_set_fresh [where g = "\<lambda>k. (Key k, Restval)", OF this] show ?thesis by simp
  qed
  moreover have "zip (map Key fieldnames) (padded_values fieldnames row) =
      zip (map Key (take ?lr fieldnames)) (map Str row) @ map (\<lambda>k. (Key k, Restval)) (drop ?lr fieldnames)"
  proof -
    have "zip (map Key fieldnames) (padded_values fieldnames row) =
          zip (map Key (take ?lr fieldnames)) (map Str row) @
          zip (map Key (drop ?lr fieldnames)) (replicate (length fieldnames - ?lr) Restval)"
      by (simp add: padded_values_def zip_append2 take_map drop_map)
    also have "zip (map Key (drop ?lr fieldnames)) (replicate (length fieldnames - ?lr) Restval) =
               map (\<lambda>k. (Key k, Restval)) (drop ?lr fieldnames)"
      by (simp add: zip_replicate2 comp_def)
    finally show ?thesis .
  qed
  ultimately show ?thesis
    using assms(2) take_part by (simp add: dict_reader_row_def Let_def)
qed
lemma with_test_name_fresh:
  assumes "''test_name'' \<notin> set fieldnames" and "distinct fieldnames"
    and "length vals = length fieldnames"
  shows "with_test_name t (zip (map Key fieldnames) vals) = (Key ''test_name'', Str t) # zip (map Key fieldnames) vals"
proof -
  have "distinct (map fst [(Key ''test_name'', Str t)] @ map (\<lambda>x. fst x) (zip (map Key fieldnames) vals))"
    using assms by (auto simp: distinct_map_Key)
  from fold_dict_set_fresh [where g = "\<lambda>x. x", OF this] show ?thesis
    by (simp add: with_test_name_def)
qed

lemma dict_to_list_padded:
  assumes "''test_name'' \<notin> set fieldnames" and "distinct fieldnames"
    and "length row \<le> length fieldnames"
  shows "dict_to_list (''test_name'' # fieldnames)
           ((Key ''test_name'', Str t) # zip (map Key fieldnames) (padded_values fieldnames row)) =
         Inr (t # row @ replicate (length fieldnames - length row) [])"
proof -
  let ?vals = "padded_values fieldnames row"
  let ?d = "zip (map Key fieldnames) ?vals"
  have len: "length ?vals = length fieldnames" using assms(3) by (rule length_padded_values)
  have keys: "map fst ?d = map Key fieldnames" using len by simp
  have lookups: "map (map_of ?d) (map Key fieldnames) = map Some ?vals"
    using len assms(2) by (intro map_of_zip_lookups) (simp_all add: distinct_map_Key)
  have "map (\<lambda>k. case map_of ((Key ''test_name'', Str t) # ?d) (Key k) of Some (Str s) \<Rightarrow> s | _ \<Rightarrow> []) fieldnames =
        map (\<lambda>v. case v of Some (Str s) \<Rightarrow> s | _ \<Rightarrow> []) (map (map_of ?d) (map Key fieldnames))"
    using assms(1) by (auto intro!: map_cong)
  also have "\<dots> = row @ replicate (length fieldnames - length row) []"
    unfolding lookups by (simp add: padded_values_def comp_def)
  finally show ?thesis
    using keys by (simp add: dict_to_list_def)
qed

lemma merge_loop:
  assumes "list_all2 (\<lambda>csv_file rows. csv_read (snd csv_file) = Inr (fieldnames # rows)) csv_files parsed"
  shows "fold_error merge_step csv_files (Some header, acc) =
    Inr (Some header, acc @ map (\<lambda>p. with_test_name (fst p) (dict_reader_row fieldnames (snd p)))
                              (merged_pairs csv_files parsed))"
  using assms
proof (induction arbitrary: acc rule: list_all2_induct)
  case Nil
  then show ?case by (simp add: merged_pairs_def)
next
  case (Cons csv_file csv_files rows parsed)
  then show ?case
    by (cases csv_file) (simp add: merge_step_def dict_reader_def merged_pairs_def comp_def)
qed

lemma merge_first_step:
  assumes "csv_read (snd csv_file) = Inr (fieldnames # rows)"
  shows "merge_step (None, []) csv_file =
    Inr (Some (''test_name'' # fieldnames),
         map (\<lambda>p. with_test_name (fst p) (dict_reader_row fieldnames (snd p))) (merged_pairs [csv_file] [rows]))"
  using assms by (cases csv_file) (simp add: merge_step_def dict_reader_def merged_pairs_def comp_def)

lemma merged_pairs_Cons:
  "merged_pairs (f # fs) (r # rs) = merged_pairs [f] [r] @ merged_pairs fs rs"
  by (simp add: merged_pairs_def)
lemma write_rows_map:
  assumes "\<forall>x \<in> set xs. dict_to_list fieldnames (f x) = Inr (g x)"
  shows "write_rows fieldnames (map f xs) = (concat (map (\<lambda>x. csv_writerow (g x)) xs), None)"
  using assms by (induction xs) simp_all

lemma set_merged_pairs:
  "length csv_files = length parsed \<Longrightarrow> p \<in> set (merged_pairs csv_files parsed) \<Longrightarrow>
   \<exists>rows \<in> set parsed. snd p \<in> set rows"
  by (auto simp: merged_pairs_def set_zip)

text \<open>
  C25. The merge concatenates: when every file found parses to the same header (distinct
  names, no \<open>test_name\<close> column) and no row is longer than the header, the output is
  the header \<open>test_name\<close> followed by the common columns, then every non-blank row of
  every file in the order found, prefixed by its directory name and padded with empty
  fields; the script then prints the number of files merged.
\<close>

theorem merge_concatenates:
  assumes "merge_glob entries = csv_files" and "csv_files \<noteq> []"
    and "list_all2 (\<lambda>csv_file rows. csv_read (snd csv_file) = Inr (fieldnames # rows)) csv_files parsed"
    and "distinct fieldnames" and "''test_name'' \<notin> set fieldnames"
    and "\<forall>rows \<in> set parsed. \<forall>row \<in> set rows. length row \<le> length fieldnames"
  shows "merge_script entries =
    (Written (csv_writerow (''test_name'' # fieldnames) @
      concat (map (\<lambda>p. csv_writerow (fst p # snd p @ replicate (length fieldnames - length (snd p)) []))
                  (merged_pairs csv_files parsed))),
     ''Merged '' @ py_str_nat (length csv_files) @ '' CSV files into build/merged-execution-results.csv'' @ [lf])"
proof -
  obtain f fs r rs where files: "csv_files = f # fs" and parsed: "parsed = r # rs"
    using assms(2,3) by (cases csv_files; cases parsed) auto
  have first: "csv_read (snd f) = Inr (fieldnames # r)" and rest: "list_all2 (\<lambda>csv_file rows. csv_read (snd csv_file) = Inr (fieldnames # rows)) fs rs"
    using assms(3) files parsed by simp_all
  let ?row = "\<lambda>p. with_test_name (fst p) (dict_reader_row fieldnames (snd p))"
  have loop: "fold_error merge_step csv_files (None, []) =
      Inr (Some (''test_name'' # fieldnames), map ?row (merged_pairs csv_files parsed))"
    using merge_first_step [OF first] merge_loop [OF rest, of "''test_name'' # fieldnames"]
    by (simp add: files parsed merged_pairs_Cons [of f fs r rs])
  have "\<forall>p \<in> set (merged_pairs csv_files parsed).
          dict_to_list (''test_name'' # fieldnames) (?row p) =
          Inr (fst p # snd p @ replicate (length fieldnames - length (snd p)) [])"
  proof
    fix p assume "p \<in> set (merged_pairs csv_files parsed)"
    then have "length (snd p) \<le> length fieldnames"
      using set_merged_pairs [of csv_files parsed p] assms(3,6) list_all2_lengthD by blast
    then show "dict_to_list (''test_name'' # fieldnames) (?row p) =
          Inr (fst p # snd p @ replicate (length fieldnames - length (snd p)) [])"
      using assms(4,5) dict_reader_row_padded with_test_name_fresh dict_to_list_padded length_padded_values
      by simp
  qed
  then have "write_rows (''test_name'' # fieldnames) (map ?row (merged_pairs csv_files parsed)) =
      (concat (map (\<lambda>p. csv_writerow (fst p # snd p @ replicate (length fieldnames - length (snd p)) []))
                   (merged_pairs csv_files parsed)), None)"
    by (rule write_rows_map)
  then show ?thesis
    using loop assms(1,2) by (simp add: merge_script_def merge_csv_def)
qed

lemma keys_dict_set_image: "fst ` set (dict_set d k v) = insert k (fst ` set d)"
proof -
  have "set (map fst (dict_set d k v)) = insert k (set (map fst d))"
    unfolding keys_dict_set by auto
  then show ?thesis by simp
qed

lemma keys_fold_dict_set:
  "fst ` set (fold (\<lambda>x d. dict_set d (g x) (h x)) xs d) = fst ` set d \<union> g ` set xs"
  by (induction xs arbitrary: d) (auto simp: keys_dict_set_image)

lemma keys_dict_reader_row:
  "Key ` set fieldnames \<subseteq> fst ` set (dict_reader_row fieldnames row)"
proof -
  let ?d = "fold (\<lambda>kv d. dict_set d (Key (fst kv)) (Str (snd kv))) (zip fieldnames row) []"
  let ?lr = "length row" and ?lf = "length fieldnames"
  have z: "set (map fst (zip fieldnames row)) = set (take ?lr fieldnames)"
    unfolding map_fst_zip_take by (auto simp: min_def)
  have "fst ` set ?d = Key ` fst ` set (zip fieldnames row)"
    using keys_fold_dict_set [of "\<lambda>kv. Key (fst kv)" "\<lambda>kv. Str (snd kv)" "zip fieldnames row" "[]"]
    by (simp add: image_image)
  then have d: "fst ` set ?d = Key ` set (take ?lr fieldnames)"
    using z by simp
  consider (more) "?lf < ?lr" | (less) "?lr < ?lf" | (eq) "?lr = ?lf" by linarith
  then show ?thesis
  proof cases
    case more
    then have "dict_reader_row fieldnames row = dict_set ?d Restkey (Restvals (drop ?lf row))"
      by (simp add: dict_reader_row_def Let_def)
    moreover have "take ?lr fieldnames = fieldnames" using more by simp
    ultimately show ?thesis using d by (auto simp: keys_dict_set_image)
  next
    case less
    then have "dict_reader_row fieldnames row = fold (\<lambda>k d. dict_set d (Key k) Restval) (drop ?lr fieldnames) ?d"
      by (simp add: dict_reader_row_def Let_def)
    moreover have "fst ` set (fold (\<lambda>k d. dict_set d (Key k) Restval) (drop ?lr fieldnames) ?d) =
        fst ` set ?d \<union> Key ` set (drop ?lr fieldnames)"
      by (rule keys_fold_dict_set)
    moreover have "set fieldnames = set (take ?lr fieldnames) \<union> set (drop ?lr fieldnames)"
      by (metis append_take_drop_id set_append)
    ultimately show ?thesis using d by auto
  next
    case eq
    then have "dict_reader_row fieldnames row = ?d" by (simp add: dict_reader_row_def Let_def)
    moreover have "take ?lr fieldnames = fieldnames" using eq by simp
    ultimately show ?thesis using d by simp
  qed
qed

lemma keys_with_test_name: "fst ` set d \<subseteq> fst ` set (with_test_name t d)"
  using keys_fold_dict_set [of fst snd d "[(Key ''test_name'', Str t)]"]
  by (auto simp: with_test_name_def)

lemma dict_to_list_extra_key:
  assumes "Key x \<in> fst ` set d" and "x \<notin> set fieldnames"
  shows "\<exists>msg. dict_to_list fieldnames d = Inl (ValueError msg)"
proof -
  have "Key x \<notin> Key ` set fieldnames" using assms(2) by auto
  then have "Key x \<in> set (filter (\<lambda>k. k \<notin> Key ` set fieldnames) (map fst d))"
    using assms(1) by simp
  then have "filter (\<lambda>k. k \<notin> Key ` set fieldnames) (map fst d) \<noteq> []"
    by (metis empty_iff list.set(1))
  then show ?thesis by (simp add: dict_to_list_def Let_def)
qed

lemma write_rows_prefix:
  assumes "\<forall>x \<in> set xs. dict_to_list fieldnames (f x) = Inr (g x)"
  shows "write_rows fieldnames (map f xs @ ys) =
    (case write_rows fieldnames ys of (txt, err) \<Rightarrow> (concat (map (\<lambda>x. csv_writerow (g x)) xs) @ txt, err))"
  using assms by (induction xs) (simp_all split: prod.split)

lemma merge_rest:
  assumes "\<forall>f \<in> set fs. \<exists>rows. csv_read (snd f) = Inr rows"
  shows "\<exists>more. fold_error merge_step fs (Some header, acc) = Inr (Some header, acc @ more)"
  using assms
proof (induction fs arbitrary: acc)
  case Nil
  then show ?case by simp
next
  case (Cons f fs)
  then obtain rows where rows: "csv_read (snd f) = Inr rows" by auto
  have "merge_step (Some header, acc) f = Inr (Some header, acc @ map (with_test_name (fst f)) (snd (dict_reader rows)))"
    using rows by (cases f) (simp add: merge_step_def split: prod.split)
  moreover from Cons.prems have "\<forall>f \<in> set fs. \<exists>rows. csv_read (snd f) = Inr rows" by simp
  from Cons.IH [OF this, of "acc @ map (with_test_name (fst f)) (snd (dict_reader rows))"] obtain more where
    "fold_error merge_step fs (Some header, acc @ map (with_test_name (fst f)) (snd (dict_reader rows))) =
     Inr (Some header, acc @ map (with_test_name (fst f)) (snd (dict_reader rows)) @ more)"
    by auto
  ultimately show ?case by auto
qed

text \<open>
  C26. A later file whose header has a column the first file lacks stops the merge while
  writing: whatever the other files, once all of them were read, the output holds the
  header and exactly the rows of the first file, and \<open>DictWriter\<close> raises
  \<open>ValueError\<close> on the first row of that file.
\<close>

theorem merge_header_mismatch:
  assumes "merge_glob entries = f1 # f2 # fs"
    and "csv_read (snd f1) = Inr (fieldnames # rows1)" and "distinct fieldnames"
    and "''test_name'' \<notin> set fieldnames" and "\<forall>row \<in> set rows1. length row \<le> length fieldnames"
    and "csv_read (snd f2) = Inr (fieldnames2 # rows2)" and "filter (\<lambda>row. row \<noteq> []) rows2 \<noteq> []"
    and "x \<in> set fieldnames2" and "x \<notin> set (''test_name'' # fieldnames)"
    and "\<forall>f \<in> set fs. \<exists>rows. csv_read (snd f) = Inr rows"
  shows "\<exists>msg. merge_csv entries =
    Partially_written
      (csv_writerow (''test_name'' # fieldnames) @
       concat (map (\<lambda>p. csv_writerow (fst p # snd p @ replicate (length fieldnames - length (snd p)) []))
                   (merged_pairs [f1] [rows1])))
      (ValueError msg)"
proof -
  let ?H = "''test_name'' # fieldnames"
  let ?row = "\<lambda>p. with_test_name (fst p) (dict_reader_row fieldnames (snd p))"
  let ?R1 = "map ?row (merged_pairs [f1] [rows1])"
  obtain r2 rest2 where r2: "filter (\<lambda>row. row \<noteq> []) rows2 = r2 # rest2"
    using assms(7) by (cases "filter (\<lambda>row. row \<noteq> []) rows2") auto
  let ?d = "with_test_name (fst f2) (dict_reader_row fieldnames2 r2)"
  have step2: "merge_step (Some ?H, ?R1) f2 =
      Inr (Some ?H, ?R1 @ ?d # map (with_test_name (fst f2)) (map (dict_reader_row fieldnames2) rest2))"
    using assms(6) r2 by (cases f2) (simp add: merge_step_def dict_reader_def)
  obtain more where rest: "fold_error merge_step fs (Some ?H, ?R1 @ ?d # map (with_test_name (fst f2)) (map (dict_reader_row fieldnames2) rest2))
      = Inr (Some ?H, ?R1 @ ?d # map (with_test_name (fst f2)) (map (dict_reader_row fieldnames2) rest2) @ more)"
    using merge_rest [OF assms(10), of ?H "?R1 @ ?d # map (with_test_name (fst f2)) (map (dict_reader_row fieldnames2) rest2)"]
    by auto
  have loop: "fold_error merge_step (f1 # f2 # fs) (None, []) =
      Inr (Some ?H, ?R1 @ ?d # map (with_test_name (fst f2)) (map (dict_reader_row fieldnames2) rest2) @ more)"
    using merge_first_step [OF assms(2)] step2 rest by simp
  have ok: "\<forall>p \<in> set (merged_pairs [f1] [rows1]).
      dict_to_list ?H (?row p) = Inr (fst p # snd p @ replicate (length fieldnames - length (snd p)) [])"
  proof
    fix p assume "p \<in> set (merged_pairs [f1] [rows1])"
    then have "length (snd p) \<le> length fieldnames"
      using assms(5) by (auto simp: merged_pairs_def)
    then show "dict_to_list ?H (?row p) = Inr (fst p # snd p @ replicate (length fieldnames - length (snd p)) [])"
      using assms(3,4) dict_reader_row_padded with_test_name_fresh dict_to_list_padded length_padded_values
      by simp
  qed
  have "Key x \<in> fst ` set ?d"
    using keys_dict_reader_row [of fieldnames2 r2] keys_with_test_name [of "dict_reader_row fieldnames2 r2" "fst f2"]
      assms(8) by blast
  then obtain msg where bad: "dict_to_list ?H ?d = Inl (ValueError msg)"
    using dict_to_list_extra_key assms(9) by blast
  have "write_rows ?H (?R1 @ ?d # map (with_test_name (fst f2)) (map (dict_reader_row fieldnames2) rest2) @ more) =
      (concat (map (\<lambda>p. csv_writerow (fst p # snd p @ replicate (length fieldnames - length (snd p)) []))
                   (merged_pairs [f1] [rows1])), Some (ValueError msg))"
    using write_rows_prefix [OF ok] bad by simp
  then show ?thesis
    using loop assms(1) by (simp add: merge_csv_def)
qed

text \<open>
  C27. An empty first file ends the merge before the output is opened: its
  \<open>reader.fieldnames\<close> is \<open>None\<close> and \<open>["test_name"] + None\<close> raises \<open>TypeError\<close>.
\<close>

theorem merge_empty_first_file:
  assumes "merge_glob entries = (test_name, []) # csv_files"
  shows "merge_csv entries = Not_written none_concat_error"
proof -
  have "csv_read [] = Inr []" by (simp add: model_simps)
  then have "merge_step (None, []) (test_name, []) = Inl none_concat_error"
    by (simp add: merge_step_def dict_reader_def)
  with assms show ?thesis by (simp add: merge_csv_def)
qed

text \<open>
  A \<open>test_name\<close> column of an input file overrides the directory name: the row's own
  value is written under both \<open>test_name\<close> columns of the doubled header.
\<close>

lemma merge_test_name_column:
  "merge_csv
     [\<lparr>entry_dir = ''test1'', entry_file = ''execution-results.csv'',
        entry_content = ''test_name,x'' @ [cr, lf] @ ''orig,1'' @ [cr, lf]\<rparr>] =
   Written (''test_name,test_name,x'' @ [cr, lf] @ ''orig,orig,1'' @ [cr, lf])"
  by (simp add: model_simps)

text \<open>
  Python's dictionary assignment as modelled, \<open>dict_set\<close>, is the library's
  association-list update \<open>AList.update\<close> on every dictionary (distinct keys): a present
  key keeps its position and gets the new value, a new key goes to the end.
\<close>

lemma dict_set_update:
  assumes "distinct (map fst d)"
  shows "dict_set d k v = AList.update k v d"
  using assms
proof (induction d)
  case Nil
  then show ?case by (simp add: dict_set_def)
next
  case (Cons p d)
  show ?case
  proof (cases "fst p = k")
    case True
    with Cons.prems have "k \<notin> set (map fst d)" by auto
    then have "map (\<lambda>kv. if fst kv = k then (k, v) else kv) d = d" by (induction d) auto
    with True show ?thesis by (cases p) (simp add: dict_set_def)
  next
    case False
    with Cons show ?thesis by (cases p) (simp add: dict_set_Cons_other)
  qed
qed

subsection \<open>Witnesses\<close>

theorem merge_concatenates_witness:
  "merge_script sample_listing =
     (Written (''test_name,a,b'' @ [cr, lf] @ ''test1,1,2'' @ [cr, lf] @ ''test2,3,'' @ [cr, lf]),
      ''Merged 2 CSV files into build/merged-execution-results.csv'' @ [lf])"
  using merge_concatenates [of sample_listing
      "[(''test1'', ''a,b'' @ [cr, lf] @ ''1,2'' @ [cr, lf]), (''test2'', ''a,b'' @ [cr, lf] @ [cr, lf] @ ''3'' @ [cr, lf])]"
      "[''a'', ''b'']" "[[[''1'', ''2'']], [[], [''3'']]]"]
  by (simp add: sample_listing_def model_simps merged_pairs_def)

theorem merge_header_mismatch_witness:
  "\<exists>msg. merge_csv
     [\<lparr>entry_dir = ''test1'', entry_file = ''execution-results.csv'', entry_content = ''a,b'' @ [cr, lf] @ ''1,2'' @ [cr, lf]\<rparr>,
      \<lparr>entry_dir = ''test2'', entry_file = ''execution-results.csv'', entry_content = ''a,c'' @ [cr, lf] @ ''3,4'' @ [cr, lf]\<rparr>] =
   Partially_written (''test_name,a,b'' @ [cr, lf] @ ''test1,1,2'' @ [cr, lf]) (ValueError msg)"
  using merge_header_mismatch [of
      "[\<lparr>entry_dir = ''test1'', entry_file = ''execution-results.csv'', entry_content = ''a,b'' @ [cr, lf] @ ''1,2'' @ [cr, lf]\<rparr>,
        \<lparr>entry_dir = ''test2'', entry_file = ''execution-results.csv'', entry_content = ''a,c'' @ [cr, lf] @ ''3,4'' @ [cr, lf]\<rparr>]"
      "(''test1'', ''a,b'' @ [cr, lf] @ ''1,2'' @ [cr, lf])" "(''test2'', ''a,c'' @ [cr, lf] @ ''3,4'' @ [cr, lf])" "[]"
      "[''a'', ''b'']" "[[''1'', ''2'']]" "[''a'', ''c'']" "[[''3'', ''4'']]" "''c''"]
  by (simp add: model_simps merged_pairs_def)

theorem merge_empty_first_file_witness:
  "merge_csv [\<lparr>entry_dir = ''test1'', entry_file = ''execution-results.csv'', entry_content = []\<rparr>] =
   Not_written (TypeError (''can only concatenate list (not '' @ [dquote] @ ''NoneType'' @ [dquote] @ '') to list''))"
  using merge_empty_first_file [of "[\<lparr>entry_dir = ''test1'', entry_file = ''execution-results.csv'', entry_content = []\<rparr>]" "''test1''" "[]"]
  by (simp add: merge_glob_def none_concat_error_def)

end
