(* ===== verification/Batch_Run.thy ===== *)
theory Batch_Run
  imports Batch
begin

text \<open>
  The loop of \<open>process_all_files\<close> (lines 422--470 of \<^verbatim>\<open>src/run_validation.py\<close>) as a
  transition system: a state is the list of mappings still to process and the results so
  far, and one step processes the next mapping. The lemmas relate the runs of the step
  relation to the functional loop \<open>process_items\<close> and show that on well-formed parser
  output every state reaches the final one.
\<close>

type_synonym batch_state = "file_mapping list \<times> report_row list"

inductive batch_step :: "environment \<Rightarrow> batch_state \<Rightarrow> batch_state \<Rightarrow> bool" for env where
  item: "run_item env m = Some r \<Longrightarrow> batch_step env (m # ms, results) (ms, record_item m r results)"

inductive_cases batch_stepE: "batch_step env (ms, results) s'"

lemma batch_step_deterministic:
  "batch_step env s s' \<Longrightarrow> batch_step env s s'' \<Longrightarrow> s'' = s'"
  by (induction rule: batch_step.induct) (auto elim: batch_step.cases)

lemma batch_steps_loop:
  "(batch_step env)\<^sup>*\<^sup>* (ms, acc) ([], rows) \<longleftrightarrow>
   fold_option (\<lambda>results mapping. map_option (\<lambda>r. record_item mapping r results) (run_item env mapping)) ms acc = Some rows"
proof (induction ms arbitrary: acc)
  case Nil
  have "(batch_step env)\<^sup>*\<^sup>* ([], acc) s \<Longrightarrow> s = ([], acc)" for s
    by (induction rule: rtranclp_induct) (auto elim: batch_stepE)
  then show ?case by auto
next
  case (Cons m ms)
  show ?case
  proof
    assume "(batch_step env)\<^sup>*\<^sup>* (m # ms, acc) ([], rows)"
    then obtain s where "batch_step env (m # ms, acc) s" "(batch_step env)\<^sup>*\<^sup>* s ([], rows)"
      by (cases rule: converse_rtranclpE) auto
    then show "fold_option (\<lambda>results mapping. map_option (\<lambda>r. record_item mapping r results) (run_item env mapping)) (m # ms) acc = Some rows"
      using Cons.IH by (auto elim: batch_stepE)
  next
    assume loop: "fold_option (\<lambda>results mapping. map_option (\<lambda>r. record_item mapping r results) (run_item env mapping)) (m # ms) acc = Some rows"
    then obtain r where r: "run_item env m = Some r"
      and rest: "fold_option (\<lambda>results mapping. map_option (\<lambda>r. record_item mapping r results) (run_item env mapping)) ms (record_item m r acc) = Some rows"
      by (auto split: Option.bind_splits)
    from r have "batch_step env (m # ms, acc) (ms, record_item m r acc)" by (rule batch_step.item)
    with rest Cons.IH show "(batch_step env)\<^sup>*\<^sup>* (m # ms, acc) ([], rows)"
      by (meson converse_rtranclp_into_rtranclp)
  qed
qed

lemma batch_steps_exact:
  assumes "\<And>s. wf_tree (kotlin_parser env s)"
  shows "\<exists>rows. (batch_step env ^^ length ms) (ms, acc) ([], rows)"
proof (induction ms arbitrary: acc)
  case Nil
  then show ?case by simp
next
  case (Cons m ms)
  obtain r where "run_item env m = Some r" using run_item_total [OF assms] by blast
  then have "batch_step env (m # ms, acc) (ms, record_item m r acc)" by (rule batch_step.item)
  moreover obtain rows where "(batch_step env ^^ length ms) (ms, record_item m r acc) ([], rows)"
    using Cons.IH by blast
  ultimately have "(batch_step env ^^ Suc (length ms)) (m # ms, acc) ([], rows)" by (rule relpowp_Suc_I2)
  then show ?case by (metis length_Cons)
qed

text \<open>
  The batch always finishes (liveness): when the Kotlin parser returns well-formed
  trees, the run from any manifest reaches the final state after exactly one step per
  mapping, and the results it ends with are the rows \<open>process_items\<close> computes.
\<close>

lemma batch_run_completes:
  assumes "\<forall>s. wf_tree (kotlin_parser env s)"
  shows "\<exists>rows. process_items env ms = Some rows \<and> (batch_step env ^^ length ms) (ms, []) ([], rows)"
proof -
  obtain rows where n: "(batch_step env ^^ length ms) (ms, []) ([], rows)"
    using batch_steps_exact assms by blast
  then have "(batch_step env)\<^sup>*\<^sup>* (ms, []) ([], rows)" by (rule relpowp_imp_rtranclp)
  then have "process_items env ms = Some rows" by (simp add: process_items_def batch_steps_loop)
  with n show ?thesis by blast
qed

end
