(* ===== verification/Spec2Isabelle.thy ===== *)
theory Spec2Isabelle
  imports Cli Merge Batch_Run
begin

text \<open>
  \<^bold>\<open>A verification model of \<^verbatim>\<open>src/run_validation.py\<close>.\<close>

  The program grades machine-generated Kotlin files and unified diffs. For every item of
  a JSON manifest (\<open>model_name\<close>, \<open>task\<close>, \<open>file_path\<close>) it reads the file, parses it
  with tree-sitter, runs a structural query, turns the captures into facts (functions with
  their annotations, imports, constructor calls, classes with their parents, diff lines)
  and evaluates a fixed set of named boolean validations for the task; the batch loop
  \<open>process_all_files\<close> turns each result into a CSV row.

  \<^bold>\<open>Parts and theories.\<close>
  \<^item> \<open>Prelude\<close>: the Python builtins the code uses (\<open>str.strip\<close> as \<open>py_strip\<close>,
    \<open>a in b\<close> on strings as \<open>py_str_in\<close>, \<open>', '.join\<close> as \<open>py_join\<close>,
    exceptions as \<open>py_error\<close>), \<open>append_new\<close> for \<open>if x not in xs: xs.append(x)\<close>,
    and \<open>fold_option\<close>, a \<open>for\<close> loop whose body may not return.
  \<^item> \<open>Syntax_Tree\<close>: the external parser and query engine as parameters. A tree is a
    store of nodes (\<open>node.type\<close>, \<open>.text\<close>, \<open>.parent\<close>, \<open>.children\<close>,
    \<open>.has_error\<close>) addressed by number; \<open>wf_tree\<close> says it is a forest in pre-order
    numbering with consistent parent and child pointers. The relations \<open>climb\<close> and
    \<open>chain\<close> specify the program's upward walks; \<open>ancestor_induct\<close> proves they end.
  \<^item> \<open>Attribution\<close>: the annotation attribution algorithm (lines 34--52, repeated at
    111--129 and 197--214): \<open>find_anchor\<close>, \<open>modifier_annotations\<close>,
    \<open>wrapper_annotations\<close>, \<open>inherit_annotations\<close>, composed as
    \<open>function_annotations\<close>. Both walks are \<^theory_text>\<open>partial_function (option)\<close>, so a
    cyclic store yields \<open>None\<close> (the Python loop never ends) rather than a wrong result.

  \<^item> \<open>Kotlin_Facts\<close>: the capture loops of the three Kotlin validators
    (\<open>validate_preview_generation\<close>, \<open>validate_unit_test_generation\<close>,
    \<open>validate_instrumentation_test_generation\<close>): the result dictionaries are records,
    the insertion-ordered \<open>classes\<close> dictionary an association list \<open>class_map\<close>
    refined to the dictionary it stands for; \<open>enclosing_class\<close> is the upward walk to the
    nearest \<open>class_declaration\<close>. Each loop is a \<open>fold_option\<close>, total on
    well-formed trees.
  \<^item> \<open>Diff_Facts\<close>: \<open>text[1:].strip()\<close> per \<open>deletion\<close>/\<open>addition\<close>
    capture and the substring check \<open>contains_all\<close> of the two diff validators.
  \<^item> \<open>Validators\<close>: the five \<open>validate_*\<close> functions with their fixed validation
    names, characterised as relational specifications over the extracted facts, and the
    specification's scenarios on concrete trees.
  \<^item> \<open>Dispatch\<close>: \<open>process_kotlin_file\<close>, \<open>process_diff_file\<close> and the
    \<open>try\<close> block of one item (\<open>run_item\<close>), with the file system, parsers and
    queries as an \<open>environment\<close> record and exceptions as \<open>py_error\<close> values.
  \<^item> \<open>Batch\<close>: the loop of \<open>process_all_files\<close> (\<open>process_items\<close>, a
    \<open>fold_option\<close> building report-row records), refined to the concatenation of
    per-item outputs, and the final \<open>os.makedirs(os.path.dirname(output_csv))\<close>
    (\<open>write_output\<close>).
  \<^item> \<open>Batch_Run\<close>: the same loop as a transition system \<open>batch_step\<close> on states
    (mappings left, results so far): its runs are the loop's, and every run finishes.
  \<^item> \<open>Csv\<close>: Python's \<open>csv\<close> module for the \<open>excel\<close> dialect: \<open>writerow\<close>
    (\<open>QUOTE_MINIMAL\<close>, doubled quotes, CR LF) and the reader's state machine of
    \<open>_csv.c\<close> over the lines of a file opened with \<open>newline=''\<close>.
  \<^item> \<open>Report\<close>: the seven-column file \<open>process_all_files\<close> writes with
    \<open>csv.DictWriter\<close> (\<open>write_report\<close>).
  \<^item> \<open>Merge\<close>: \<^verbatim>\<open>src/merge_csv.py\<close> as \<open>merge_csv\<close> over a directory listing:
    the glob, \<open>csv.DictReader\<close> rows as insertion-ordered association lists, the
    \<open>test_name\<close> prefix, and \<open>csv.DictWriter\<close> with \<open>extrasaction='raise'\<close>; the
    outcome records whether the output file was not written, written in part, or written;
    \<open>merge_script\<close> adds the final \<open>Merged N CSV files\<close> line.
  \<^item> \<open>Main_Entry\<close>: the \<open>__main__\<close> block and the reading of each manifest entry
    in \<open>process_all_files\<close> (lines 423--425, outside the \<open>try\<close> block): the loaded
    manifest as a \<open>json\<close> value, \<open>mapping[key]\<close> and \<open>Path(...)\<close> with their
    \<open>KeyError\<close> and \<open>TypeError\<close>, and the run \<open>main\<close>. A \<open>null\<close> model name is
    kept as \<open>None\<close> (printed \<open>None\<close>, written to the CSV file as the empty field) and
    the path as \<open>str(Path(...))\<close> (\<open>py_str_path\<close>), the normalised path the file is
    read from and printed as. Standard output is a
    string threaded through the loop: \<open>item_log\<close> is what one item prints (the
    \<open>Processing\<close> line, then \<open>Unknown task\<close> or \<open>Error processing\<close>), followed
    by the
    \<open>Results written to\<close> line once the output directory exists and the summary.
  \<^item> \<open>Cli\<close>: \<open>parser.parse_args()\<close> for the script's two options and the
    automatic help, as \<open>argparse\<close> classifies and consumes arguments (exact options,
    \<open>--opt=value\<close>, unique abbreviations, negative numbers as values, the required and
    leftover checks), and \<open>run_program\<close>, the whole script from its argument list.

  \<^bold>\<open>What is proved.\<close> Attribution refines the relational specification of the two
  walks and ends on well-formed trees; the anchor is the first anchor-typed node above
  the name, inherited annotations are fresh while the anchor's own are kept with their
  duplicates, and the attributed set is the anchor's and its wrappers' annotations; one
  wrapper level adds its new annotations in first-occurrence order. The extraction loops
  meet their specifications: imports, constructors and function facts per capture kind in
  order, and the class dictionary exactly (keys in first-capture order, parents those
  captured after the class's name, attributed through the enclosing class). Each validator
  returns exactly its fixed validation names, whose values are the specification's
  predicates over the facts; a diff line's content is exactly \<open>text[1:].strip()\<close>.
  Dispatch: which Kotlin task strings reach a validator, and that a missing diff
  collaborator is a per-item error. Batch: isolation and order-independence of items,
  one row per item of a known family (no row for the task names the docstring lists),
  the error row, the row counts, termination, and the output directory failure for a bare
  file name. CSV: the reader inverts the writer on every list of records, so the report
  reads back as the header and each result's values. Merge: files with a common header
  are concatenated in order with their directory names and the script reports how many
  files it merged; a later file with an extra column stops the merge after the first
  file's rows; an empty first file fails before writing. Entry point: a malformed
  manifest entry aborts the run; on well-formed manifests \<open>main\<close> is the modelled
  batch and its report, the output is each item's lines in order followed by the results
  line when the directory step succeeds, and a successful run ends with the summary.
  Command line: \<open>--mappings=M --output=O\<close> parses back to \<open>M\<close> and \<open>O\<close> for all
  strings, and a run without \<open>--output\<close> ends with \<open>FileNotFoundError\<close> after
  printing exactly the lines of its items. Lemmas that are not properties of the program:
  the model's dictionary assignment is \<open>AList.update\<close>, and the batch loop re-encoded as
  the transition system \<open>batch_step\<close> reaches its final state after one step per mapping.

  \<^bold>\<open>Termination and fuel.\<close> No fuel is used. The two upward walks and every loop
  whose body calls them are \<^theory_text>\<open>partial_function (option)\<close> or
  \<open>fold_option\<close>, so a cyclic node store (on which the Python loop would not end) gives
  \<open>None\<close>; totality is proved for every tree satisfying \<open>wf_tree\<close> (parents have
  smaller numbers), which tree-sitter's trees do, by the induction \<open>ancestor_induct\<close>.

  \<^bold>\<open>Findings.\<close> The Kotlin family list of \<open>process_all_files\<close> names
  \<open>test1-unit-test\<close> and \<open>test3-instrumentation_test\<close>, which
  \<open>process_kotlin_file\<close> rejects, so two validators are unreachable from the batch;
  unknown tasks get no row, and so do all the task names the docstring of
  \<open>process_all_files\<close> tells callers to pass; a missing diff parser is not fatal; the default output path
  makes \<open>os.makedirs('')\<close> raise; modifier annotations are not deduplicated; a parent
  captured before its class is dropped; the merge script stops part-way on files with
  different columns, fails on an empty first file, and lets a \<open>test_name\<close> column
  override the directory name; a manifest entry lacking a key aborts the whole run; the
  default of \<open>--output\<close> makes every run without that option fail after processing.

  \<^bold>\<open>Plan for later work.\<close> The merge of reports written by \<open>write_report\<close>
  end to end; invariants of the CSV reader's states; the remaining dialect options of the
  \<open>csv\<close> module are out of scope.

  \<^bold>\<open>Not modelled.\<close> The tree-sitter parser and query engine: they are
  external, so the syntax tree interface stays partly modelled, as the node attributes
  the code reads (a node store), a parser result per file and the captures as an input
  list. File I/O beyond the read result of each item and the outcome of
  \<open>os.makedirs\<close> (the written files are modelled as their content). Standard error
  (the traceback of an uncaught exception and the usage text of \<open>argparse\<close>; the error
  message itself is modelled). Argument lists that hold \<open>--\<close> or an argument extending
  \<open>-h\<close> (such as \<open>-hx\<close>), whose treatment by \<open>argparse\<close> changed between
  Python 3.8 and 3.12 and which \<open>parse_cli\<close> reports as \<open>Cli_unmodelled\<close>; the help
  text; the JSON text parser behind \<open>json.load\<close> (its result is an input; JSON floats are
  not represented); the \<open>csv\<close> module's field size limit; the decoding of node texts (\<open>node.text.decode('utf8')\<close>, lines 43
  and 49 and their copies): node texts are already decoded strings, so the
  \<open>UnicodeDecodeError\<close> an invalid file would raise (and the error row it would give) is
  not represented. The messages of \<open>TypeError\<close>s follow Python 3.11 and later.
\<close>

end
